theory Spec2Isabelle
  imports Complex_Main
begin

section \<open>Data model (types.ts)\<close>

text \<open>
  JavaScript numbers are modelled as follows: coordinates, velocities, hull, shield and
  hit points are \<^typ>\<open>real\<close> (rounding of the IEEE doubles is not modelled); counters
  that the program only ever sets to integer literals and steps by one (cargo, timers,
  sector numbers, statistics) are \<^typ>\<open>int\<close>; upgrade levels, which start at 0 or 1 and
  are only incremented, are \<^typ>\<open>nat\<close>.

  \<open>GameState.SECTOR_CLEARED\<close> is the member that \<open>App.tsx\<close> passes to \<open>setGameState\<close> in
  \<open>handleSectorCleared\<close>; the other four members are those of the enum declaration.
\<close>

datatype GameState = MENU | PLAYING | DOCKED | GAME_OVER | SECTOR_CLEARED

datatype AsteroidTier = TITAN | CHUNK | ORE | VOLATILE

datatype MineState = ARMED | PUCKER | DETONATING | DEAD

text \<open>
  The fields \<open>x\<close>, \<open>y\<close> and \<open>id\<close> are called \<open>px\<close>, \<open>py\<close> and \<open>ident\<close> here, and the
  ship's \<open>hull\<close> is \<open>hull_pts\<close> (\<open>hull\<close> is an infix operator of the library).
\<close>

record Point =
  px :: real
  py :: real

record Entity = Point +
  ident :: real
  vx :: real
  vy :: real
  radius :: real
  angle :: real
  color :: string

record Asteroid = Entity +
  tier :: AsteroidTier
  hp :: real
  rotationSpeed :: real
  shape :: "real list"

record Mine = Entity +
  timer :: int
  state :: MineState

record Ship = Entity +
  thrusting :: bool
  reversing :: bool
  rotatingLeft :: bool
  rotatingRight :: bool
  firing :: bool
  hull_pts :: real
  maxHull :: real
  shield :: real
  maxShield :: real
  cargo :: int
  maxCargo :: int
  credits :: int
  ammo :: int
  invulnerableTimer :: int

record Upgrades =
  engineLevel :: nat
  handlingLevel :: nat
  hullLevel :: nat
  cargoLevel :: nat
  laserLevel :: nat
  shieldLevel :: nat

record Camera =
  cam_x :: real
  cam_y :: real
  zoom :: real

section \<open>Constants (constants.ts)\<close>

definition FRICTION :: real where "FRICTION = 98 / 100"
definition SHIP_ACCEL :: real where "SHIP_ACCEL = 15 / 100"
definition SHIP_ROTATION_SPEED :: real where "SHIP_ROTATION_SPEED = 8 / 100"
definition MAX_SPEED :: real where "MAX_SPEED = 8"
definition LASER_RANGE :: real where "LASER_RANGE = 250"
definition STATION_RADIUS :: real where "STATION_RADIUS = 150"
definition STATION_SHIELD_RADIUS :: real where "STATION_SHIELD_RADIUS = 220"
definition MINE_PUCKER_DURATION :: int where "MINE_PUCKER_DURATION = 60"
definition MINE_BLAST_RADIUS :: real where "MINE_BLAST_RADIUS = 300"
definition MINE_PUCKER_FORCE :: real where "MINE_PUCKER_FORCE = 5 / 10"
definition MINE_BLAST_FORCE :: real where "MINE_BLAST_FORCE = 15"
definition SHIP_RADIUS :: real where "SHIP_RADIUS = 15"
definition TITAN_RADIUS :: real where "TITAN_RADIUS = 60"
definition CHUNK_RADIUS :: real where "CHUNK_RADIUS = 25"
definition ORE_RADIUS :: real where "ORE_RADIUS = 5"
definition VOLATILE_RADIUS :: real where "VOLATILE_RADIUS = 50"
definition COLOR_ORE :: string where "COLOR_ORE = ''#4ade80''"
definition COLOR_TITAN :: string where "COLOR_TITAN = ''#94a3b8''"
definition COLOR_VOLATILE :: string where "COLOR_VOLATILE = ''#f97316''"
definition COLOR_CHUNK :: string where "COLOR_CHUNK = ''#64748b''"
definition COLOR_DANGER :: string where "COLOR_DANGER = ''#ef4444''"

section \<open>Vector utilities (utils/physics.ts)\<close>

definition distance :: "'a Point_scheme \<Rightarrow> 'b Point_scheme \<Rightarrow> real" where
  "distance p1 p2 = sqrt ((px p2 - px p1)\<^sup>2 + (py p2 - py p1)\<^sup>2)"


definition checkCollision :: "'a Entity_scheme \<Rightarrow> 'b Entity_scheme \<Rightarrow> bool" where
  "checkCollision e1 e2 = (distance e1 e2 < radius e1 + radius e2)"

text \<open>
  \<open>Math.random()\<close> is an input of the model: \<open>rnd k\<close> is the value of the \<open>k\<close>-th draw
  among those that reach the modelled state (the draws made for particles are left out
  with the particles), and the state counts these draws. \<open>randomRange\<close> takes the
  drawn value.
\<close>

definition randomRange :: "real \<Rightarrow> real \<Rightarrow> real \<Rightarrow> real" where
  "randomRange r lo hi = r * (hi - lo) + lo"

definition generatePolygonOffsets :: "(nat \<Rightarrow> real) \<Rightarrow> nat \<Rightarrow> nat \<Rightarrow> real \<Rightarrow> real list" where
  "generatePolygonOffsets rnd k vertexCount variance =
     map (\<lambda>i. randomRange (rnd (k + i)) (1 - variance) (1 + variance)) [0..<vertexCount]"

text \<open>
  \<open>Math.atan2 (y, x)\<close> on reals. The doubles distinguish \<open>+0\<close> from \<open>-0\<close>; the reals do
  not, and \<open>atan2 0 0\<close> is the value for \<open>+0\<close>.
\<close>

definition atan2 :: "real \<Rightarrow> real \<Rightarrow> real" where
  "atan2 b a =
     (if 0 < a then arctan (b / a)
      else if a < 0 then (if 0 \<le> b then arctan (b / a) + pi else arctan (b / a) - pi)
      else if 0 < b then pi / 2
      else if b < 0 then - (pi / 2)
      else 0)"

section \<open>Simulation state (GameCanvas.tsx)\<close>

text \<open>
  The component modelled is the one that \<open>App.tsx\<close> renders, with the props \<open>sector\<close> and
  \<open>onSectorCleared\<close>. The props \<open>gameState\<close> and \<open>sector\<close> and the refs of the component
  are the fields of one record.

  Calls that leave the simulation (audio cues, \<open>syncUI\<close>, \<open>setGameState\<close>,
  \<open>onSectorCleared\<close>) are recorded, in call order, in the field \<open>effects\<close>.
  Particles are not modelled: \<open>update\<close> only appends to them, moves them and drops the
  expired ones, and nothing else in \<open>update\<close> reads them.
\<close>

datatype Effect =
    SetThrust bool
  | SetLaser bool
  | SetTractor bool
  | PlayExplosion string
  | PlayMinePucker
  | PlayMineArmed
  | PlayPickup
  | PlayUI string
  | SyncUI
  | SetGameState GameState
  | OnSectorCleared int int

record Mouse =
  mouse_x :: real
  mouse_y :: real
  down :: bool
  rightDown :: bool

record Laser =
  active :: bool
  laser_x :: real
  laser_y :: real
  laser_length :: real
  laser_angle :: real

record World =
  gameState :: GameState
  sector :: int
  prevGameState :: GameState
  prevSector :: int
  ship :: Ship
  upgrades :: Upgrades
  asteroids :: "Asteroid list"
  mines :: "Mine list"
  camera :: Camera
  shake :: real
  keysPressed :: "string set"
  mouse :: Mouse
  screen_width :: real
  screen_height :: real
  levelInitialAsteroids :: int
  sectorOreCollected :: int
  laser :: Laser
  draws :: nat
  effects :: "Effect list"

definition emit :: "Effect \<Rightarrow> World \<Rightarrow> World" where
  "emit e w = w\<lparr>effects := effects w @ [e]\<rparr>"

subsection \<open>spawnAsteroid and breakAsteroid\<close>

definition spawnAsteroid ::
  "(nat \<Rightarrow> real) \<Rightarrow> AsteroidTier \<Rightarrow> real \<Rightarrow> real \<Rightarrow> real \<Rightarrow> real \<Rightarrow> World \<Rightarrow> World" where
  "spawnAsteroid rnd t ax ay avx avy w =
     (let size = (if t = TITAN then TITAN_RADIUS else if t = VOLATILE then VOLATILE_RADIUS
                  else if t = CHUNK then CHUNK_RADIUS else ORE_RADIUS);
          col = (if t = TITAN then COLOR_TITAN else if t = VOLATILE then COLOR_VOLATILE
                  else if t = CHUNK then COLOR_CHUNK else COLOR_ORE);
          h = (if t = TITAN then 1000 else if t = VOLATILE then 800
                  else if t = CHUNK then 50 else 1);
          sides = (if t = TITAN then 12 else if t = VOLATILE then 10 else 8);
          variance = (if t = VOLATILE then 4 / 10 else 2 / 10);
          k = draws w
      in w\<lparr>asteroids := asteroids w @
             [\<lparr>px = ax, py = ay, ident = rnd k, vx = avx, vy = avy, radius = size,
               angle = rnd (k + 1) * pi * 2, color = col, tier = t, hp = h,
               rotationSpeed = randomRange (rnd (k + 2)) (- (2 / 100)) (2 / 100),
               shape = generatePolygonOffsets rnd (k + 3) sides variance\<rparr>],
            draws := k + 3 + sides\<rparr>)"

text \<open>One pass of a fragment loop of \<open>breakAsteroid\<close>: an angle, a speed, a spawn.\<close>

definition spawnFragment ::
  "(nat \<Rightarrow> real) \<Rightarrow> AsteroidTier \<Rightarrow> real \<Rightarrow> real \<Rightarrow> real \<Rightarrow> Asteroid \<Rightarrow> real \<Rightarrow> real
     \<Rightarrow> World \<Rightarrow> World" where
  "spawnFragment rnd t off lo hi ast impactVx impactVy w =
     (let k = draws w;
          ang = randomRange (rnd k) 0 (pi * 2);
          speed = randomRange (rnd (k + 1)) lo hi
      in spawnAsteroid rnd t (px ast + cos ang * off) (py ast + sin ang * off)
           (impactVx * (3 / 10) + cos ang * speed) (impactVy * (3 / 10) + sin ang * speed)
           (w\<lparr>draws := k + 2\<rparr>))"

definition breakAsteroid :: "(nat \<Rightarrow> real) \<Rightarrow> Asteroid \<Rightarrow> real \<Rightarrow> real \<Rightarrow> World \<Rightarrow> World" where
  "breakAsteroid rnd ast impactVx impactVy w =
     (if tier ast = VOLATILE then
        ((spawnFragment rnd CHUNK 10 8 14 ast impactVx impactVy) ^^ 8)
          ((emit (PlayExplosion ''large'') w)\<lparr>shake := shake w + 15\<rparr>)
      else if tier ast = TITAN then
        ((spawnFragment rnd CHUNK 10 1 4 ast impactVx impactVy) ^^ 5)
          (emit (PlayExplosion ''large'') w)
      else if tier ast = CHUNK then
        ((spawnFragment rnd ORE 5 2 5 ast impactVx impactVy) ^^ 10)
          (emit (PlayExplosion ''small'') w)
      else w)"

subsection \<open>Ship controls (step 1 of update)\<close>

definition capSpeed :: "Upgrades \<Rightarrow> Ship \<Rightarrow> Ship" where
  "capSpeed u s =
     (let velocity = sqrt (vx s * vx s + vy s * vy s);
          maxSpeed = MAX_SPEED + real (engineLevel u) * (5 / 10)
      in if velocity > maxSpeed
         then s\<lparr>vx := (vx s / velocity) * maxSpeed, vy := (vy s / velocity) * maxSpeed\<rparr>
         else s)"


definition shakeDecay :: "World \<Rightarrow> World" where
  "shakeDecay w =
     (if shake w > 0
      then (let s = shake w * (9 / 10) in w\<lparr>shake := (if s < 5 / 10 then 0 else s)\<rparr>)
      else w)"

definition thrust :: "World \<Rightarrow> World" where
  "thrust w =
     (let s = ship w; u = upgrades w
      in if ''w'' \<in> keysPressed w \<or> ''arrowup'' \<in> keysPressed w
         then emit (SetThrust True)
                (w\<lparr>ship := s\<lparr>vx := vx s + cos (angle s) * (SHIP_ACCEL + real (engineLevel u) * (2 / 100)),
                              vy := vy s + sin (angle s) * (SHIP_ACCEL + real (engineLevel u) * (2 / 100)),
                              thrusting := True\<rparr>\<rparr>)
         else emit (SetThrust False) (w\<lparr>ship := s\<lparr>thrusting := False\<rparr>\<rparr>))"

definition reverseThrust :: "World \<Rightarrow> World" where
  "reverseThrust w =
     (let s = ship w; u = upgrades w
      in if ''s'' \<in> keysPressed w \<or> ''arrowdown'' \<in> keysPressed w
         then (let reverseAccel = (SHIP_ACCEL + real (engineLevel u) * (2 / 100)) * (5 / 10)
               in w\<lparr>ship := s\<lparr>vx := vx s - cos (angle s) * reverseAccel,
                               vy := vy s - sin (angle s) * reverseAccel\<rparr>\<rparr>)
         else w)"

definition spaceBrake :: "World \<Rightarrow> World" where
  "spaceBrake w =
     (let s = ship w
      in if ''q'' \<in> keysPressed w
         then (let bx = vx s * (9 / 10); by = vy s * (9 / 10)
               in w\<lparr>ship := s\<lparr>vx := (if \<bar>bx\<bar> < 1 / 100 then 0 else bx),
                               vy := (if \<bar>by\<bar> < 1 / 100 then 0 else by)\<rparr>\<rparr>)
         else w)"

definition rotate :: "World \<Rightarrow> World" where
  "rotate w =
     (let rotSpeed = SHIP_ROTATION_SPEED + real (handlingLevel (upgrades w)) * (1 / 100);
          s1 = (if ''a'' \<in> keysPressed w \<or> ''arrowleft'' \<in> keysPressed w
                then (ship w)\<lparr>angle := angle (ship w) - rotSpeed\<rparr> else ship w);
          s2 = (if ''d'' \<in> keysPressed w \<or> ''arrowright'' \<in> keysPressed w
                then s1\<lparr>angle := angle s1 + rotSpeed\<rparr> else s1)
      in w\<lparr>ship := s2\<rparr>)"

definition applyFriction :: "Ship \<Rightarrow> Ship" where
  "applyFriction s =
     (let fx = vx s * FRICTION; fy = vy s * FRICTION
      in s\<lparr>vx := fx, vy := fy, px := px s + fx, py := py s + fy\<rparr>)"

definition shipControls :: "World \<Rightarrow> World" where
  "shipControls w =
     (let w1 = rotate (spaceBrake (reverseThrust (thrust w)))
      in w1\<lparr>ship := applyFriction (capSpeed (upgrades w1) (ship w1))\<rparr>)"

subsection \<open>Camera (step 2)\<close>

definition cameraFollow :: "World \<Rightarrow> World" where
  "cameraFollow w =
     (let z = zoom (camera w)
      in w\<lparr>camera := (camera w)\<lparr>cam_x := px (ship w) - (screen_width w / 2) / z,
                                  cam_y := py (ship w) - (screen_height w / 2) / z\<rparr>\<rparr>)"

subsection \<open>Mining laser (step 3)\<close>

text \<open>The two \<open>while\<close> loops that bring the angle difference back into \<open>[-pi, pi]\<close>.\<close>

function wrapDown :: "real \<Rightarrow> real" where
  "wrapDown a = (if a > pi then wrapDown (a - pi * 2) else a)"
  by pat_completeness auto
termination
proof (relation "measure (\<lambda>a. nat \<lceil>a / (pi * 2)\<rceil>)")
  show "wf (measure (\<lambda>a. nat \<lceil>a / (pi * 2)\<rceil>))" by simp
next
  fix a :: real
  assume h: "pi < a"
  have "(a - pi * 2) / (pi * 2) = a / (pi * 2) - 1"
    by (simp add: diff_divide_distrib)
  then have e: "\<lceil>(a - pi * 2) / (pi * 2)\<rceil> = \<lceil>a / (pi * 2)\<rceil> - 1"
    by (simp only: ceiling_diff_one)
  have "0 < a" using h pi_gt_zero by linarith
  then have "0 < a / (pi * 2)" using pi_gt_zero by (intro divide_pos_pos) simp_all
  then have "0 < \<lceil>a / (pi * 2)\<rceil>" by (simp only: ceiling_less_iff less_ceiling_iff of_int_0)
  with e have "nat \<lceil>(a - pi * 2) / (pi * 2)\<rceil> < nat \<lceil>a / (pi * 2)\<rceil>" by linarith
  then show "(a - pi * 2, a) \<in> measure (\<lambda>a. nat \<lceil>a / (pi * 2)\<rceil>)"
    by (simp only: in_measure)
qed

function wrapUp :: "real \<Rightarrow> real" where
  "wrapUp a = (if a < - pi then wrapUp (a + pi * 2) else a)"
  by pat_completeness auto
termination
proof (relation "measure (\<lambda>a. nat \<lceil>(- a) / (pi * 2)\<rceil>)")
  show "wf (measure (\<lambda>a. nat \<lceil>(- a) / (pi * 2)\<rceil>))" by simp
next
  fix a :: real
  assume h: "a < - pi"
  have "(- (a + pi * 2)) / (pi * 2) = (- a) / (pi * 2) - 1"
    by (simp add: diff_divide_distrib)
  then have e: "\<lceil>(- (a + pi * 2)) / (pi * 2)\<rceil> = \<lceil>(- a) / (pi * 2)\<rceil> - 1"
    by (simp only: ceiling_diff_one)
  have "0 < - a" using h pi_gt_zero by linarith
  then have "0 < (- a) / (pi * 2)" using pi_gt_zero by (intro divide_pos_pos) simp_all
  then have "0 < \<lceil>(- a) / (pi * 2)\<rceil>" by (simp only: less_ceiling_iff of_int_0)
  with e have "nat \<lceil>(- (a + pi * 2)) / (pi * 2)\<rceil> < nat \<lceil>(- a) / (pi * 2)\<rceil>" by linarith
  then show "(a + pi * 2, a) \<in> measure (\<lambda>a. nat \<lceil>(- a) / (pi * 2)\<rceil>)"
    by (simp only: in_measure)
qed

declare wrapDown.simps [simp del] wrapUp.simps [simp del]

text \<open>
  The test that the \<open>forEach\<close> of the laser makes on one asteroid, given the closest
  distance found so far: the asteroid becomes the new closest one.
\<close>

definition laserHits :: "Ship \<Rightarrow> real \<Rightarrow> real \<Rightarrow> Asteroid \<Rightarrow> bool" where
  "laserHits s aimAngle closestDist ast =
     (if tier ast = TITAN \<or> tier ast = VOLATILE \<or> tier ast = ORE then False
      else (let dToAst = distance \<lparr>px = px s, py = py s\<rparr> ast
            in if dToAst < LASER_RANGE + radius ast
               then (let angleToAst = atan2 (py ast - py s) (px ast - px s);
                         angleDiff = wrapUp (wrapDown (angleToAst - aimAngle))
                     in \<bar>angleDiff\<bar> < 2 / 10 \<and> dToAst < closestDist)
               else False))"

text \<open>
  The \<open>forEach\<close> itself, from index \<open>i\<close> on: \<open>closestAst\<close> is kept as the index of the
  asteroid in the array (the source keeps a reference to the element).
\<close>

fun laserScan ::
  "Ship \<Rightarrow> real \<Rightarrow> Asteroid list \<Rightarrow> nat \<Rightarrow> nat option \<times> real \<Rightarrow> nat option \<times> real" where
  "laserScan s aimAngle [] i acc = acc"
| "laserScan s aimAngle (ast # rest) i (closestAst, closestDist) =
     laserScan s aimAngle rest (Suc i)
       (if laserHits s aimAngle closestDist ast
        then (Some i, distance \<lparr>px = px s, py = py s\<rparr> ast)
        else (closestAst, closestDist))"

definition laserDamage :: "(nat \<Rightarrow> real) \<Rightarrow> real \<Rightarrow> nat \<Rightarrow> real \<Rightarrow> World \<Rightarrow> World" where
  "laserDamage rnd aimAngle i closestDist w =
     (let ast0 = asteroids w ! i;
          laserPower = 1 + real (laserLevel (upgrades w)) * (5 / 10);
          wasAlive = hp ast0 > 0;
          ast = ast0\<lparr>hp := hp ast0 - laserPower\<rparr>;
          impactDist = max 0 (closestDist - radius ast);
          w1 = w\<lparr>asteroids := (asteroids w)[i := ast],
                 laser := (laser w)\<lparr>laser_length := impactDist\<rparr>\<rparr>
      in if wasAlive \<and> hp ast \<le> 0 then breakAsteroid rnd ast 0 0 w1 else w1)"

definition miningLaser :: "(nat \<Rightarrow> real) \<Rightarrow> World \<Rightarrow> World" where
  "miningLaser rnd w =
     (let w0 = emit (SetLaser (down (mouse w))) (w\<lparr>laser := (laser w)\<lparr>active := False\<rparr>\<rparr>)
      in if down (mouse w)
         then (let s = ship w0;
                   dx = mouse_x (mouse w0) - screen_width w0 / 2;
                   dy = mouse_y (mouse w0) - screen_height w0 / 2;
                   aimAngle = atan2 dy dx;
                   w1 = w0\<lparr>laser := \<lparr>active = True, laser_x = px s, laser_y = py s,
                                     laser_length = LASER_RANGE, laser_angle = aimAngle\<rparr>\<rparr>;
                   w2 = (case laserScan s aimAngle (asteroids w1) 0 (None, LASER_RANGE) of
                           (None, closestDist) \<Rightarrow> w1
                         | (Some i, closestDist) \<Rightarrow> laserDamage rnd aimAngle i closestDist w1)
               in w2\<lparr>asteroids := filter (\<lambda>a. hp a > 0) (asteroids w2)\<rparr>)
         else w0)"

subsection \<open>Tractor beam (step 4)\<close>

definition tractorPull :: "(nat \<Rightarrow> real) \<Rightarrow> nat \<Rightarrow> World \<Rightarrow> World" where
  "tractorPull rnd i w =
     (let ast = asteroids w ! i; s = ship w
      in if tier ast = ORE \<and> distance s ast < 500
         then (let ang = atan2 (py s - py ast) (px s - px ast); k = draws w
               in w\<lparr>asteroids := (asteroids w)
                       [i := ast\<lparr>vx := vx ast + cos ang * (5 / 10)
                                       + randomRange (rnd k) (- (2 / 10)) (2 / 10),
                                 vy := vy ast + sin ang * (5 / 10)
                                       + randomRange (rnd (k + 1)) (- (2 / 10)) (2 / 10)\<rparr>],
                     draws := k + 2\<rparr>)
         else w)"

definition tractorBeam :: "(nat \<Rightarrow> real) \<Rightarrow> World \<Rightarrow> World" where
  "tractorBeam rnd w =
     (let w0 = emit (SetTractor (rightDown (mouse w))) w
      in if rightDown (mouse w)
         then fold (tractorPull rnd) [0..<length (asteroids w0)] w0
         else w0)"

subsection \<open>Mines (step 5)\<close>

definition puckerAsteroid :: "Mine \<Rightarrow> nat \<Rightarrow> World \<Rightarrow> World" where
  "puckerAsteroid mine i w =
     (let ast = asteroids w ! i; d = distance mine ast
      in if d < MINE_BLAST_RADIUS * (15 / 10)
         then (let ang = atan2 (py mine - py ast) (px mine - px ast)
               in w\<lparr>asteroids := (asteroids w)
                       [i := ast\<lparr>vx := vx ast + cos ang * MINE_PUCKER_FORCE,
                                 vy := vy ast + sin ang * MINE_PUCKER_FORCE\<rparr>]\<rparr>)
         else w)"

definition puckerShip :: "Mine \<Rightarrow> Ship \<Rightarrow> Ship" where
  "puckerShip mine s =
     (let dShip = distance mine s
      in if dShip < MINE_BLAST_RADIUS * (15 / 10)
         then (let ang = atan2 (py mine - py s) (px mine - px s)
               in s\<lparr>vx := vx s + cos ang * MINE_PUCKER_FORCE * (5 / 10),
                    vy := vy s + sin ang * MINE_PUCKER_FORCE * (5 / 10)\<rparr>)
         else s)"

text \<open>What the blast does to the asteroid record itself: the impulse and the damage.\<close>

definition blastHit :: "Mine \<Rightarrow> Asteroid \<Rightarrow> Asteroid" where
  "blastHit mine ast =
     (let d = distance mine ast
      in if d < MINE_BLAST_RADIUS
         then (let ang = atan2 (py ast - py mine) (px ast - px mine);
                   force = MINE_BLAST_FORCE * (1 - d / MINE_BLAST_RADIUS);
                   pushed = ast\<lparr>vx := vx ast + cos ang * force, vy := vy ast + sin ang * force\<rparr>
               in if tier ast = TITAN \<or> tier ast = VOLATILE then pushed\<lparr>hp := 0\<rparr>
                  else if tier ast \<noteq> ORE then pushed\<lparr>hp := hp ast - 100\<rparr>
                  else pushed)
         else ast)"

definition blastAsteroid :: "(nat \<Rightarrow> real) \<Rightarrow> Mine \<Rightarrow> nat \<Rightarrow> World \<Rightarrow> World" where
  "blastAsteroid rnd mine i w =
     (let ast0 = asteroids w ! i; d = distance mine ast0
      in if d < MINE_BLAST_RADIUS
         then (let ang = atan2 (py ast0 - py mine) (px ast0 - px mine);
                   force = MINE_BLAST_FORCE * (1 - d / MINE_BLAST_RADIUS);
                   wasAlive = hp ast0 > 0;
                   ast = blastHit mine ast0;
                   w1 = w\<lparr>asteroids := (asteroids w)[i := ast]\<rparr>
               in if wasAlive \<and> hp ast \<le> 0
                  then breakAsteroid rnd ast (cos ang * force) (sin ang * force) w1
                  else w1)
         else w)"

definition blastShip :: "Mine \<Rightarrow> World \<Rightarrow> World" where
  "blastShip mine w =
     (let s = ship w; dShip = distance mine s
      in if dShip < MINE_BLAST_RADIUS
         then (let ang = atan2 (py s - py mine) (px s - px mine);
                   force = MINE_BLAST_FORCE * (15 / 10) * (1 - dShip / MINE_BLAST_RADIUS);
                   s1 = s\<lparr>vx := vx s + cos ang * force, vy := vy s + sin ang * force\<rparr>
               in if invulnerableTimer s1 \<le> 0
                  then emit SyncUI
                         (w\<lparr>ship := (if shield s1 > 0
                                      then s1\<lparr>shield := 0, invulnerableTimer := 60\<rparr>
                                      else s1\<lparr>hull_pts := hull_pts s1 - 50 * (1 - dShip / MINE_BLAST_RADIUS),
                                              invulnerableTimer := 30\<rparr>)\<rparr>)
                  else w\<lparr>ship := s1\<rparr>)
         else w)"

definition mineStep :: "(nat \<Rightarrow> real) \<Rightarrow> nat \<Rightarrow> World \<Rightarrow> World" where
  "mineStep rnd j w =
     (let m0 = mines w ! j;
          m = m0\<lparr>timer := timer m0 - 1\<rparr>;
          w1 = w\<lparr>mines := (mines w)[j := m]\<rparr>;
          w2 = (if timer m = MINE_PUCKER_DURATION then emit PlayMinePucker w1 else w1)
      in if timer m > 0 \<and> timer m < MINE_PUCKER_DURATION
         then (let mp = m\<lparr>state := PUCKER\<rparr>;
                   w3 = w2\<lparr>mines := (mines w2)[j := mp]\<rparr>;
                   w4 = fold (puckerAsteroid mp) [0..<length (asteroids w3)] w3
               in w4\<lparr>ship := puckerShip mp (ship w4)\<rparr>)
         else if timer m \<le> 0
         then (let md = m\<lparr>state := DETONATING\<rparr>;
                   w3 = (emit (PlayExplosion ''large'') (w2\<lparr>mines := (mines w2)[j := md]\<rparr>))
                          \<lparr>shake := 25\<rparr>;
                   w4 = fold (blastAsteroid rnd md) [0..<length (asteroids w3)] w3
               in blastShip md w4)
         else w2)"

text \<open>What \<open>mineStep\<close> does to the mine record itself: the countdown and the state.\<close>

definition mineTick :: "Mine \<Rightarrow> Mine" where
  "mineTick m0 =
     (let m = m0\<lparr>timer := timer m0 - 1\<rparr>
      in if timer m > 0 \<and> timer m < MINE_PUCKER_DURATION then m\<lparr>state := PUCKER\<rparr>
         else if timer m \<le> 0 then m\<lparr>state := DETONATING\<rparr>
         else m)"

definition minePhase :: "(nat \<Rightarrow> real) \<Rightarrow> World \<Rightarrow> World" where
  "minePhase rnd w =
     (let w1 = fold (mineStep rnd) [0..<length (mines w)] w
      in w1\<lparr>mines := filter (\<lambda>m. state m \<noteq> DETONATING) (mines w1),
            asteroids := filter (\<lambda>a. hp a > 0) (asteroids w1)\<rparr>)"

subsection \<open>Asteroid physics, collisions, pickup (step 6)\<close>

definition stationShield :: "Asteroid \<Rightarrow> Asteroid" where
  "stationShield ast =
     (let distToStation = distance \<lparr>px = 0, py = 0\<rparr> ast;
          shieldDist = STATION_SHIELD_RADIUS + radius ast
      in if distToStation < shieldDist
         then (let ang = atan2 (py ast) (px ast);
                   overlap = shieldDist - distToStation;
                   moved = ast\<lparr>px := px ast + cos ang * overlap, py := py ast + sin ang * overlap\<rparr>;
                   nx = cos ang; ny = sin ang;
                   dot = vx moved * nx + vy moved * ny
               in if dot < 0
                  then moved\<lparr>vx := (vx moved - 2 * dot * nx) * (5 / 10),
                             vy := (vy moved - 2 * dot * ny) * (5 / 10)\<rparr>
                  else moved)
         else ast)"

definition drift :: "Asteroid \<Rightarrow> Asteroid" where
  "drift ast =
     ast\<lparr>px := px ast + vx ast, py := py ast + vy ast,
         angle := angle ast + rotationSpeed ast,
         vx := vx ast * (99 / 100), vy := vy ast * (99 / 100)\<rparr>"

text \<open>The body of \<open>if (checkCollision(ship, ast))\<close> for the asteroid at index \<open>i\<close>.\<close>

definition collide :: "nat \<Rightarrow> World \<Rightarrow> World" where
  "collide i w =
     (let ast = asteroids w ! i; s = ship w
      in if tier ast = ORE
         then (if cargo s < maxCargo s
               then emit SyncUI (emit PlayPickup
                      (w\<lparr>ship := s\<lparr>cargo := cargo s + 1\<rparr>,
                         sectorOreCollected := sectorOreCollected w + 1,
                         asteroids := (asteroids w)[i := ast\<lparr>hp := 0\<rparr>]\<rparr>))
               else w)
         else (if invulnerableTimer s \<le> 0
               then (let vRel = sqrt ((vx s - vx ast)\<^sup>2 + (vy s - vy ast)\<^sup>2)
                     in if vRel > 2 \<or> tier ast = VOLATILE
                        then (let damage = (if tier ast = VOLATILE then 150
                                            else if tier ast = TITAN then 100 else 20);
                                  s1 = (if shield s > 0 then s\<lparr>shield := 0\<rparr>
                                        else s\<lparr>hull_pts := hull_pts s - damage\<rparr>);
                                  s2 = s1\<lparr>invulnerableTimer := 60\<rparr>;
                                  ang = atan2 (py s2 - py ast) (px s2 - px ast)
                              in emit SyncUI (emit (PlayExplosion ''small'')
                                   (w\<lparr>shake := 5,
                                      ship := s2\<lparr>vx := vx s2 + cos ang * 8,
                                                 vy := vy s2 + sin ang * 8\<rparr>\<rparr>)))
                        else w)
               else w))"

definition asteroidStep :: "nat \<Rightarrow> int \<times> World \<Rightarrow> int \<times> World" where
  "asteroidStep i tw =
     (let titansLeft = fst tw; w = snd tw;
          ast = drift (stationShield (asteroids w ! i));
          w1 = w\<lparr>asteroids := (asteroids w)[i := ast]\<rparr>;
          titansLeft1 = (if tier ast = TITAN \<or> tier ast = VOLATILE
                         then titansLeft + 1 else titansLeft)
      in (titansLeft1, if checkCollision (ship w1) ast then collide i w1 else w1))"

definition asteroidPhase :: "World \<Rightarrow> int \<times> World" where
  "asteroidPhase w = fold asteroidStep [0..<length (asteroids w)] (0, w)"

subsection \<open>Sector completion, docking, end of the tick (steps 6b, 7, 8)\<close>

definition sectorCheck :: "int \<Rightarrow> World \<Rightarrow> World" where
  "sectorCheck titansLeft w =
     (if levelInitialAsteroids w > 0
         \<and> real_of_int titansLeft \<le> real_of_int (levelInitialAsteroids w) * (1 / 10)
      then (if sector w = prevSector w \<and> gameState w = PLAYING
            then (let destroyed = levelInitialAsteroids w - titansLeft;
                      percent = \<lfloor>(real_of_int destroyed
                                   / real_of_int (levelInitialAsteroids w)) * 100\<rfloor>
                  in emit (OnSectorCleared percent (sectorOreCollected w)) w)
            else w)
      else w)"

definition docking :: "World \<Rightarrow> World" where
  "docking w =
     (let s = ship w; distToStation = distance \<lparr>px = 0, py = 0\<rparr> s
      in if distToStation < STATION_RADIUS + SHIP_RADIUS \<and> \<bar>vx s\<bar> < 1 \<and> \<bar>vy s\<bar> < 1
         then emit (PlayUI ''buy'') (emit (SetGameState DOCKED) w)
         else w)"

definition endOfTick :: "World \<Rightarrow> World" where
  "endOfTick w =
     (let s = ship w;
          s1 = (if invulnerableTimer s > 0 then s\<lparr>invulnerableTimer := invulnerableTimer s - 1\<rparr>
                else s);
          w1 = w\<lparr>ship := s1\<rparr>
      in if hull_pts s1 \<le> 0
         then emit (PlayExplosion ''large'') (emit (SetGameState GAME_OVER) w1)
         else w1)"

subsection \<open>update: one tick\<close>

definition update :: "(nat \<Rightarrow> real) \<Rightarrow> World \<Rightarrow> World" where
  "update rnd w =
     (if gameState w \<noteq> PLAYING
      then emit (SetTractor False) (emit (SetLaser False) (emit (SetThrust False) w))
      else (let w1 = minePhase rnd (tractorBeam rnd (miningLaser rnd
                       (cameraFollow (shipControls (shakeDecay w)))));
                tw = asteroidPhase w1
            in endOfTick (docking (sectorCheck (fst tw) (snd tw)))))"

subsection \<open>Dropping a mine (the keydown listener)\<close>

definition dropMine :: "(nat \<Rightarrow> real) \<Rightarrow> World \<Rightarrow> World" where
  "dropMine rnd w =
     (let w0 = w\<lparr>keysPressed := insert '' '' (keysPressed w)\<rparr>; s = ship w0
      in if gameState w0 = PLAYING
         then (if ammo s > 0
               then emit SyncUI (emit PlayMineArmed
                      (w0\<lparr>ship := s\<lparr>ammo := ammo s - 1\<rparr>,
                          mines := mines w0 @
                            [\<lparr>px = px s, py = py s, ident = rnd (draws w0), vx = 0, vy = 0,
                              radius = 10, angle = 0, color = COLOR_DANGER,
                              timer = 180, state = ARMED\<rparr>],
                          draws := draws w0 + 1\<rparr>))
               else emit (PlayUI ''error'') w0)
         else w0)"

subsection \<open>initGame and the spawn/reset effect\<close>

definition spawnVolatile :: "(nat \<Rightarrow> real) \<Rightarrow> World \<Rightarrow> World" where
  "spawnVolatile rnd w =
     (let k = draws w;
          dist = randomRange (rnd k) 800 (3000 + real_of_int (sector w) * 200);
          theta = rnd (k + 1) * pi * 2
      in spawnAsteroid rnd VOLATILE (cos theta * dist) (sin theta * dist)
           (randomRange (rnd (k + 2)) (- (8 / 10)) (8 / 10))
           (randomRange (rnd (k + 3)) (- (8 / 10)) (8 / 10))
           (w\<lparr>draws := k + 4\<rparr>))"

definition spawnTitan :: "(nat \<Rightarrow> real) \<Rightarrow> World \<Rightarrow> World" where
  "spawnTitan rnd w =
     (let k = draws w;
          dist = randomRange (rnd k) 500 (3000 + real_of_int (sector w) * 200);
          theta = rnd (k + 1) * pi * 2
      in spawnAsteroid rnd TITAN (cos theta * dist) (sin theta * dist)
           (randomRange (rnd (k + 2)) (- (5 / 10)) (5 / 10))
           (randomRange (rnd (k + 3)) (- (5 / 10)) (5 / 10))
           (w\<lparr>draws := k + 4\<rparr>))"

definition spawnAmbientOre :: "(nat \<Rightarrow> real) \<Rightarrow> World \<Rightarrow> World" where
  "spawnAmbientOre rnd w =
     (let k = draws w;
          dist = randomRange (rnd k) 400 1000;
          theta = rnd (k + 1) * pi * 2
      in spawnAsteroid rnd ORE (cos theta * dist) (sin theta * dist) 0 0 (w\<lparr>draws := k + 2\<rparr>))"

definition initGame :: "(nat \<Rightarrow> real) \<Rightarrow> World \<Rightarrow> World" where
  "initGame rnd w =
     (let w1 = w\<lparr>ship := (ship w)\<lparr>px := 0, py := 0, vx := 0, vy := - 4, angle := - pi / 2,
                                  invulnerableTimer := 60\<rparr>,
                 asteroids := [], mines := [],
                 camera := (camera w)\<lparr>zoom := 8 / 10\<rparr>,
                 shake := 0, sectorOreCollected := 0\<rparr>;
          w2 = (if sector w1 = 1 then w1 else w1\<lparr>draws := draws w1 + 1\<rparr>);
          titanCount = (if sector w1 = 1 then 4
                        else \<lfloor>4 + real_of_int (sector w1 - 1) * randomRange (rnd (draws w1)) 2 5\<rfloor>);
          volatileCount = (if sector w1 = 1 then 0 else (sector w1 - 1) * 2);
          w3 = w2\<lparr>levelInitialAsteroids := volatileCount + titanCount\<rparr>
      in ((spawnAmbientOre rnd) ^^ 10)
           (((spawnTitan rnd) ^^ nat titanCount)
              (((spawnVolatile rnd) ^^ nat volatileCount) w3)))"

text \<open>
  What the parent component does with the calls of one tick (\<open>setGameState\<close> is the
  state setter; \<open>onSectorCleared\<close> is \<open>handleSectorCleared\<close> of \<open>App.tsx\<close>, which sets the
  phase to \<open>SECTOR_CLEARED\<close>). The calls are applied in call order, so the last one that
  sets the phase decides the phase of the next render.
\<close>

fun applyEffect :: "Effect \<Rightarrow> GameState \<Rightarrow> GameState" where
  "applyEffect (SetGameState g) cur = g"
| "applyEffect (OnSectorCleared percent ore) cur = SECTOR_CLEARED"
| "applyEffect e cur = cur"

definition phaseAfter :: "GameState \<Rightarrow> Effect list \<Rightarrow> GameState" where
  "phaseAfter cur es = fold applyEffect es cur"

definition resetEffect :: "(nat \<Rightarrow> real) \<Rightarrow> World \<Rightarrow> World" where
  "resetEffect rnd w =
     (let w1 = (if gameState w = PLAYING \<and> (prevGameState w = MENU \<or> prevGameState w = GAME_OVER)
                then initGame rnd w else w);
          w2 = (if gameState w1 = PLAYING \<and> sector w1 \<noteq> prevSector w1
                then (initGame rnd w1)\<lparr>prevSector := sector w1\<rparr> else w1)
      in w2\<lparr>prevGameState := gameState w2\<rparr>)"

text \<open>
  One pass of the animation loop, followed by the render that it causes: the tick runs
  with the phase it was created with; then the parent applies the calls made so far, the
  phase changes and the effect runs.
\<close>

definition frame :: "(nat \<Rightarrow> real) \<Rightarrow> World \<Rightarrow> World" where
  "frame rnd w =
     (let w1 = update rnd w
      in resetEffect rnd
           (w1\<lparr>gameState := phaseAfter (gameState w1) (effects w1), effects := []\<rparr>))"

definition handleUndock :: "(nat \<Rightarrow> real) \<Rightarrow> World \<Rightarrow> World" where
  "handleUndock rnd w =
     resetEffect rnd
       (w\<lparr>ship := (ship w)\<lparr>vx := cos (angle (ship w)) * 6, vy := sin (angle (ship w)) * 6\<rparr>,
          gameState := PLAYING\<rparr>)"

definition handleNextSector :: "(nat \<Rightarrow> real) \<Rightarrow> World \<Rightarrow> World" where
  "handleNextSector rnd w = resetEffect rnd (w\<lparr>sector := sector w + 1, gameState := PLAYING\<rparr>)"

subsection \<open>Initial values and sample inputs\<close>

text \<open>
  The initial values of the refs of \<open>App.tsx\<close> and \<open>GameCanvas.tsx\<close> (the ship's \<open>id\<close>, the
  string \<open>hero\<close>, is \<open>0\<close> here; the window is taken to be 800 by 600).
\<close>

definition initialShip :: Ship where
  "initialShip =
     \<lparr>px = 0, py = 0, ident = 0, vx = 0, vy = 0, radius = 15, angle = - pi / 2,
      color = ''#fff'', thrusting = False, reversing = False, rotatingLeft = False,
      rotatingRight = False, firing = False, hull_pts = 100, maxHull = 100, shield = 0,
      maxShield = 0, cargo = 0, maxCargo = 20, credits = 100, ammo = 3,
      invulnerableTimer = 0\<rparr>"

definition initialUpgrades :: Upgrades where
  "initialUpgrades =
     \<lparr>engineLevel = 1, handlingLevel = 1, hullLevel = 1, cargoLevel = 1, laserLevel = 1,
      shieldLevel = 0\<rparr>"

definition initialWorld :: World where
  "initialWorld =
     \<lparr>gameState = MENU, sector = 1, prevGameState = MENU, prevSector = 1,
      ship = initialShip, upgrades = initialUpgrades, asteroids = [], mines = [],
      camera = \<lparr>cam_x = 0, cam_y = 0, zoom = 8 / 10\<rparr>, shake = 0, keysPressed = {},
      mouse = \<lparr>mouse_x = 0, mouse_y = 0, down = False, rightDown = False\<rparr>,
      screen_width = 800, screen_height = 600, levelInitialAsteroids = 0,
      sectorOreCollected = 0,
      laser = \<lparr>active = False, laser_x = 0, laser_y = 0, laser_length = 0, laser_angle = 0\<rparr>,
      draws = 0, effects = []\<rparr>"

text \<open>
  A sequence of draws, each \<open>1 / 2\<close>, and the asteroid that \<open>spawnAsteroid\<close> makes with it
  (lemma \<open>spawnAsteroid_half\<close>).
\<close>

definition halfDraws :: "nat \<Rightarrow> real" where
  "halfDraws k = 1 / 2"

definition sampleAsteroid :: "AsteroidTier \<Rightarrow> real \<Rightarrow> real \<Rightarrow> real \<Rightarrow> real \<Rightarrow> Asteroid" where
  "sampleAsteroid t ax ay avx avy =
     \<lparr>px = ax, py = ay, ident = 1 / 2, vx = avx, vy = avy,
      radius = (if t = TITAN then 60 else if t = VOLATILE then 50 else if t = CHUNK then 25 else 5),
      angle = pi,
      color = (if t = TITAN then COLOR_TITAN else if t = VOLATILE then COLOR_VOLATILE
               else if t = CHUNK then COLOR_CHUNK else COLOR_ORE),
      tier = t,
      hp = (if t = TITAN then 1000 else if t = VOLATILE then 800 else if t = CHUNK then 50 else 1),
      rotationSpeed = 0,
      shape = replicate (if t = TITAN then 12 else if t = VOLATILE then 10 else 8) 1\<rparr>"

text \<open>
  Sample worlds. In each the game is PLAYING and the ship rests at (1000, 0), far from
  the station. \<open>volatileWorld\<close>: sector 2, one VOLATILE asteroid left of 8 tracked ones,
  on top of the ship. \<open>titanWorld\<close>: sector 1, one TITAN on top of the ship, moving so
  that it meets the ship at relative speed 5. \<open>invulnerableWorld\<close>: the ship just spawned,
  with its 60 ticks of invulnerability.
\<close>

definition volatileWorld :: World where
  "volatileWorld =
     initialWorld\<lparr>gameState := PLAYING, prevGameState := PLAYING, sector := 2, prevSector := 2,
       levelInitialAsteroids := 8, ship := initialShip\<lparr>px := 1000\<rparr>,
       asteroids := [sampleAsteroid VOLATILE 1000 0 0 0]\<rparr>"


definition invulnerableWorld :: World where
  "invulnerableWorld =
     initialWorld\<lparr>gameState := PLAYING, prevGameState := PLAYING,
       levelInitialAsteroids := 4,
       ship := initialShip\<lparr>px := 1000, invulnerableTimer := 60\<rparr>,
       asteroids := [sampleAsteroid TITAN 1000 0 (500 / 99) 0]\<rparr>"

text \<open>
  \<open>dockClearWorld\<close>: sector 1 with one TITAN left of 4; a mine lies on the TITAN, one
  tick before it detonates; the ship, 535 away from the mine, backs into the docking
  range of the station at speed 0.9.
\<close>

definition sampleMine :: "real \<Rightarrow> real \<Rightarrow> int \<Rightarrow> MineState \<Rightarrow> Mine" where
  "sampleMine mx my t st =
     \<lparr>px = mx, py = my, ident = 1 / 2, vx = 0, vy = 0, radius = 10, angle = 0,
      color = COLOR_DANGER, timer = t, state = st\<rparr>"

definition dockClearWorld :: World where
  "dockClearWorld =
     initialWorld\<lparr>gameState := PLAYING, prevGameState := PLAYING,
       levelInitialAsteroids := 4,
       ship := initialShip\<lparr>px := 1655 / 10, vx := - (9 / 10), angle := 0\<rparr>,
       asteroids := [sampleAsteroid TITAN 700 0 0 0],
       mines := [sampleMine 700 0 1 PUCKER]\<rparr>"

text \<open>
  \<open>mineWorld\<close>: the ship has just dropped a mine; one TITAN of 4 is left, far away.
  \<open>oreWorld\<close>: an ORE lies on the ship, whose cargo is empty; one TITAN of 4 is left, far
  away. \<open>laserWorld\<close>: the pointer is held down to the right of the screen centre; a CHUNK
  lies straight ahead of the ship in the aim direction, its centre 260 away.
  \<open>laserNearWorld\<close>: the same with the CHUNK 240 away.
\<close>

definition mineWorld :: World where
  "mineWorld =
     dropMine halfDraws
       (initialWorld\<lparr>gameState := PLAYING, prevGameState := PLAYING,
          levelInitialAsteroids := 4, ship := initialShip\<lparr>px := 1000\<rparr>,
          asteroids := [sampleAsteroid TITAN 3000 0 0 0]\<rparr>)"

definition oreWorld :: World where
  "oreWorld =
     initialWorld\<lparr>gameState := PLAYING, prevGameState := PLAYING,
       levelInitialAsteroids := 4, ship := initialShip\<lparr>px := 1000\<rparr>,
       asteroids := [sampleAsteroid ORE 1000 0 0 0, sampleAsteroid TITAN 3000 0 0 0]\<rparr>"

definition laserWorld :: World where
  "laserWorld =
     initialWorld\<lparr>gameState := PLAYING, prevGameState := PLAYING,
       levelInitialAsteroids := 4, ship := initialShip\<lparr>px := 1000\<rparr>,
       mouse := \<lparr>mouse_x = 800, mouse_y = 300, down = True, rightDown = False\<rparr>,
       asteroids := [sampleAsteroid CHUNK 1260 0 0 0, sampleAsteroid TITAN 3000 0 0 0]\<rparr>"

definition laserNearWorld :: World where
  "laserNearWorld =
     laserWorld\<lparr>asteroids := [sampleAsteroid CHUNK 1240 0 0 0, sampleAsteroid TITAN 3000 0 0 0]\<rparr>"

text \<open>
  The worlds that the two ticks of the docking scenario produce: \<open>dockTick1\<close> after the
  first tick from \<open>dockClearWorld\<close>, \<open>dockUndocked\<close> after the render and the undocking
  that follow it, \<open>dockTick2\<close> after the next tick (lemmas \<open>dock_update1\<close>, \<open>dock_undock\<close>,
  \<open>dock_update2\<close>).
\<close>

definition dockTick1 :: World where
  "dockTick1 =
     dockClearWorld
       \<lparr>ship := initialShip\<lparr>px := 164618 / 1000, vx := - (882 / 1000), angle := 0\<rparr>,
        camera := \<lparr>cam_x = - (335382 / 1000), cam_y = - 375, zoom = 8 / 10\<rparr>,
        mines := [], shake := 25, draws := 65,
        asteroids := replicate 5 (sampleAsteroid CHUNK 692 0 (198 / 100) 0),
        effects := [SetThrust False, SetLaser False, SetTractor False, PlayExplosion ''large'',
                    PlayExplosion ''large'', OnSectorCleared 100 0, SetGameState DOCKED,
                    PlayUI ''buy'']\<rparr>"

definition dockUndocked :: World where
  "dockUndocked =
     dockTick1\<lparr>ship := initialShip\<lparr>px := 164618 / 1000, vx := 6, angle := 0\<rparr>,
               effects := []\<rparr>"

definition dockTick2 :: World where
  "dockTick2 =
     dockUndocked
       \<lparr>ship := initialShip\<lparr>px := 170498 / 1000, vx := 588 / 100, angle := 0\<rparr>,
        camera := \<lparr>cam_x = - (329502 / 1000), cam_y = - 375, zoom = 8 / 10\<rparr>,
        shake := 45 / 2,
        asteroids := replicate 5 (sampleAsteroid CHUNK (69398 / 100) 0 (19602 / 10000) 0),
        effects := [SetThrust False, SetLaser False, SetTractor False, OnSectorCleared 100 0]\<rparr>"

subsection \<open>Projections used in the proofs\<close>

text \<open>
  \<open>ctx\<close> collects what a tick only reads: the props, the refs of the effect, the upgrades
  and the input. \<open>puckerCues\<close> counts the pucker cues given so far. \<open>safeStep s s'\<close> relates
  the ship before and after any part of a tick that precedes the final timer step: the
  caps are kept, hull and shield do not grow, the shield is either kept or drops to zero
  from a positive value, cargo grows only up to the cap, and hull, shield and timer are
  kept while the invulnerability timer is positive.
\<close>

definition ctx :: "World \<Rightarrow> GameState \<times> int \<times> GameState \<times> int \<times> int \<times> Upgrades \<times> string set \<times> Mouse \<times> real \<times> real" where
  "ctx w = (gameState w, sector w, prevGameState w, prevSector w, levelInitialAsteroids w,
            upgrades w, keysPressed w, mouse w, screen_width w, screen_height w)"

definition puckerCues :: "World \<Rightarrow> nat" where
  "puckerCues w = count_list (effects w) PlayMinePucker"

definition safeStep :: "Ship \<Rightarrow> Ship \<Rightarrow> bool" where
  "safeStep s s' \<longleftrightarrow>
     maxHull s' = maxHull s \<and> maxShield s' = maxShield s \<and> maxCargo s' = maxCargo s
     \<and> hull_pts s' \<le> hull_pts s
     \<and> (shield s' = shield s \<or> (shield s' = 0 \<and> 0 < shield s))
     \<and> cargo s \<le> cargo s' \<and> (cargo s' \<le> maxCargo s \<or> cargo s' = cargo s)
     \<and> (0 < invulnerableTimer s \<longrightarrow>
           hull_pts s' = hull_pts s \<and> shield s' = shield s
           \<and> invulnerableTimer s' = invulnerableTimer s)
     \<and> (invulnerableTimer s \<le> 0 \<longrightarrow>
           invulnerableTimer s' = invulnerableTimer s \<or> invulnerableTimer s' = 30
           \<or> invulnerableTimer s' = 60)"

subsection \<open>Outcomes on the asteroid array\<close>

text \<open>
  \<open>puckerPull\<close> is what \<open>puckerAsteroid\<close> does to the asteroid record itself, and
  \<open>mineAct\<close> is what the step of one mine does to one asteroid that is in the array when
  the step begins: the blast if the countdown reaches zero in this tick, the pull if the
  mine is in its pucker window, nothing otherwise. \<open>blastKills\<close> is the test
  \<open>wasAlive && ast.hp <= 0\<close> of the blast loop.
\<close>

definition puckerPull :: "Mine \<Rightarrow> Asteroid \<Rightarrow> Asteroid" where
  "puckerPull mine ast =
     (let d = distance mine ast
      in if d < MINE_BLAST_RADIUS * (15 / 10)
         then (let ang = atan2 (py mine - py ast) (px mine - px ast)
               in ast\<lparr>vx := vx ast + cos ang * MINE_PUCKER_FORCE,
                      vy := vy ast + sin ang * MINE_PUCKER_FORCE\<rparr>)
         else ast)"

definition mineAct :: "Mine \<Rightarrow> Asteroid \<Rightarrow> Asteroid" where
  "mineAct m0 ast =
     (if timer m0 - 1 \<le> 0 then blastHit (mineTick m0) ast
      else if timer m0 - 1 < MINE_PUCKER_DURATION then puckerPull (mineTick m0) ast
      else ast)"

definition blastKills :: "Mine \<Rightarrow> Asteroid \<Rightarrow> bool" where
  "blastKills m ast \<longleftrightarrow> 0 < hp ast \<and> hp (blastHit m ast) \<le> 0"

text \<open>
  The statements of the claims about the asteroid array, as predicates on the array
  before and after.

  \<^item> \<open>fragmentsOf t new\<close>: \<open>new\<close> is the block of fragments of one destroyed asteroid of
    tier \<open>t\<close>: 5 CHUNK for a TITAN, 8 CHUNK for a VOLATILE, 10 ORE for a CHUNK, nothing
    for an ORE, each fragment with hit points.
  \<^item> \<open>blastOutcome m xs ys\<close>: \<open>ys\<close> is \<open>xs\<close> with each asteroid hit once by the blast of
    \<open>m\<close>, followed by one block of fragments for each asteroid that the blast has taken
    from positive hit points to none, in the order of the array, and by nothing for the
    others.
  \<^item> \<open>mineOutcome m0 xs ys\<close>: the same for the step of a mine in any state.
  \<^item> \<open>minesRun ms xs ys\<close>: the mines of \<open>ms\<close> act one after the other, each once, each on
    the array that the one before has left.
  \<^item> \<open>laserOutcome w ys\<close>: the asteroid that the scan of the laser has chosen, if any, is
    a CHUNK and loses the laser power; its block of fragments follows if this has
    destroyed it; the asteroids without hit points are dropped.
  \<^item> \<open>tractorOutcome xs ys\<close>: only velocities change, and only those of ORE.
  \<^item> \<open>asteroidsMoved xs ys\<close>: the asteroids are the same in number and order; each has
    been pushed off the station shield and moved, and an ORE may have lost its hit
    points (the pickup).
\<close>

definition fragmentsOf :: "AsteroidTier \<Rightarrow> Asteroid list \<Rightarrow> bool" where
  "fragmentsOf t new \<longleftrightarrow>
     length new = (case t of TITAN \<Rightarrow> 5 | CHUNK \<Rightarrow> 10 | ORE \<Rightarrow> 0 | VOLATILE \<Rightarrow> 8)
     \<and> (\<forall>b\<in>set new. tier b = (case t of CHUNK \<Rightarrow> ORE | _ \<Rightarrow> CHUNK) \<and> 0 < hp b)"

definition blastOutcome :: "Mine \<Rightarrow> Asteroid list \<Rightarrow> Asteroid list \<Rightarrow> bool" where
  "blastOutcome m xs ys \<longleftrightarrow>
     (\<exists>blocks. length blocks = length xs
        \<and> ys = map (blastHit m) xs @ concat blocks
        \<and> (\<forall>i<length xs.
              if blastKills m (xs ! i) then fragmentsOf (tier (xs ! i)) (blocks ! i)
              else blocks ! i = []))"

definition mineOutcome :: "Mine \<Rightarrow> Asteroid list \<Rightarrow> Asteroid list \<Rightarrow> bool" where
  "mineOutcome m0 xs ys \<longleftrightarrow>
     (if timer m0 - 1 \<le> 0 then blastOutcome (mineTick m0) xs ys
      else if timer m0 - 1 < MINE_PUCKER_DURATION then ys = map (puckerPull (mineTick m0)) xs
      else ys = xs)"

fun minesRun :: "Mine list \<Rightarrow> Asteroid list \<Rightarrow> Asteroid list \<Rightarrow> bool" where
  "minesRun [] xs ys \<longleftrightarrow> ys = xs"
| "minesRun (m # ms) xs ys \<longleftrightarrow> (\<exists>zs. mineOutcome m xs zs \<and> minesRun ms zs ys)"

definition laserOutcome :: "World \<Rightarrow> Asteroid list \<Rightarrow> bool" where
  "laserOutcome w ys \<longleftrightarrow>
     (if down (mouse w)
      then (case laserScan (ship w)
                   (atan2 (mouse_y (mouse w) - screen_height w / 2)
                          (mouse_x (mouse w) - screen_width w / 2))
                   (asteroids w) 0 (None, LASER_RANGE) of
              (None, d) \<Rightarrow> ys = filter (\<lambda>a. 0 < hp a) (asteroids w)
            | (Some i, d) \<Rightarrow>
                i < length (asteroids w) \<and> tier (asteroids w ! i) = CHUNK
                \<and> (\<exists>new.
                      ys = filter (\<lambda>a. 0 < hp a)
                             ((asteroids w)
                                [i := (asteroids w ! i)
                                   \<lparr>hp := hp (asteroids w ! i)
                                          - (1 + real (laserLevel (upgrades w)) * (5 / 10))\<rparr>]
                              @ new)
                      \<and> (if 0 < hp (asteroids w ! i)
                             \<and> hp (asteroids w ! i)
                                 - (1 + real (laserLevel (upgrades w)) * (5 / 10)) \<le> 0
                          then fragmentsOf CHUNK new else new = [])))
      else ys = asteroids w)"

definition tractorOutcome :: "Asteroid list \<Rightarrow> Asteroid list \<Rightarrow> bool" where
  "tractorOutcome xs ys \<longleftrightarrow>
     list_all2 (\<lambda>a b. (\<exists>u v. b = a\<lparr>vx := u, vy := v\<rparr>) \<and> (tier a \<noteq> ORE \<longrightarrow> b = a)) xs ys"

definition asteroidsMoved :: "Asteroid list \<Rightarrow> Asteroid list \<Rightarrow> bool" where
  "asteroidsMoved xs ys \<longleftrightarrow>
     list_all2 (\<lambda>a b. b = drift (stationShield a)
                      \<or> (tier a = ORE \<and> b = (drift (stationShield a))\<lparr>hp := 0\<rparr>)) xs ys"

text \<open>
  \<open>laserKillWorld\<close>: as \<open>laserNearWorld\<close>, with a CHUNK that has one hit point left.
  \<open>twoMinesWorld\<close>: a CHUNK with two mines on it, both one tick before they detonate, and
  a third mine just dropped; the ship is far from them.
\<close>

definition laserKillWorld :: World where
  "laserKillWorld =
     laserWorld\<lparr>asteroids := [(sampleAsteroid CHUNK 1240 0 0 0)\<lparr>hp := 1\<rparr>,
                               sampleAsteroid TITAN 3000 0 0 0]\<rparr>"

definition twoMinesWorld :: World where
  "twoMinesWorld =
     initialWorld\<lparr>gameState := PLAYING, prevGameState := PLAYING,
       levelInitialAsteroids := 4, ship := initialShip\<lparr>px := 1000\<rparr>,
       asteroids := [(sampleAsteroid CHUNK 3000 0 0 0)\<lparr>hp := 250\<rparr>],
       mines := [sampleMine 3000 0 1 PUCKER, sampleMine 3000 0 1 PUCKER,
                 sampleMine 3000 0 180 ARMED]\<rparr>"

section \<open>Basic facts\<close>

lemmas constants =
  FRICTION_def SHIP_ACCEL_def SHIP_ROTATION_SPEED_def MAX_SPEED_def LASER_RANGE_def
  STATION_RADIUS_def STATION_SHIELD_RADIUS_def MINE_PUCKER_DURATION_def
  MINE_BLAST_RADIUS_def MINE_PUCKER_FORCE_def MINE_BLAST_FORCE_def SHIP_RADIUS_def
  TITAN_RADIUS_def CHUNK_RADIUS_def ORE_RADIUS_def VOLATILE_RADIUS_def

lemma spawnAsteroid_half:
  "spawnAsteroid halfDraws t ax ay avx avy w =
     w\<lparr>asteroids := asteroids w @ [sampleAsteroid t ax ay avx avy],
       draws := draws w + 3 + (if t = TITAN then 12 else if t = VOLATILE then 10 else 8)\<rparr>"
  by (simp add: spawnAsteroid_def sampleAsteroid_def Let_def generatePolygonOffsets_def
      randomRange_def constants map_replicate_const halfDraws_def)

lemma sqrt_sq_pos: "0 \<le> c \<Longrightarrow> sqrt (c * c) = c"
  by (metis abs_of_nonneg power2_eq_square real_sqrt_abs)

lemma sqrt_less_iff: "0 \<le> c \<Longrightarrow> sqrt a < c \<longleftrightarrow> a < c\<^sup>2"
  by (metis abs_of_nonneg real_sqrt_abs real_sqrt_less_iff)

lemma less_sqrt_iff: "0 \<le> c \<Longrightarrow> c < sqrt a \<longleftrightarrow> c\<^sup>2 < a"
  by (metis abs_of_nonneg real_sqrt_abs real_sqrt_less_iff)

lemma atan2_0_0 [simp]: "atan2 0 0 = 0"
  by (simp add: atan2_def)

lemmas tick_defs =
  update_def shakeDecay_def shipControls_def thrust_def reverseThrust_def spaceBrake_def
  rotate_def capSpeed_def applyFriction_def cameraFollow_def miningLaser_def tractorBeam_def
  minePhase_def asteroidPhase_def asteroidStep_def stationShield_def drift_def collide_def
  checkCollision_def distance_def sectorCheck_def docking_def endOfTick_def emit_def Let_def

lemmas sample_defs =
  initialWorld_def initialShip_def initialUpgrades_def sampleAsteroid_def sampleMine_def

section \<open>Composition lemmas\<close>

lemma safeStep_refl [simp]: "safeStep s s"
  by (simp add: safeStep_def)

lemma safeStep_trans: "safeStep a b \<Longrightarrow> safeStep b c \<Longrightarrow> safeStep a c"
  unfolding safeStep_def by (elim conjE, intro conjI) (simp_all, linarith+)

lemma fold_keeps: "(\<And>i w. g (f i w) = g w) \<Longrightarrow> g (fold f xs w) = g w"
  by (induction xs arbitrary: w) simp_all

lemma fold_safeStep:
  "(\<And>i w. safeStep (ship w) (ship (f i w))) \<Longrightarrow> safeStep (ship w) (ship (fold f xs w))"
proof (induction xs arbitrary: w)
  case Nil
  show ?case by simp
next
  case (Cons x xs)
  have "safeStep (ship w) (ship (f x w))" by (rule Cons.prems)
  moreover have "safeStep (ship (f x w)) (ship (fold f xs (f x w)))"
    by (rule Cons.IH) (rule Cons.prems)
  ultimately show ?case by (simp add: safeStep_trans)
qed

lemma ctx_fields:
  "ctx w' = ctx w \<Longrightarrow>
     gameState w' = gameState w \<and> sector w' = sector w \<and> prevGameState w' = prevGameState w
     \<and> prevSector w' = prevSector w \<and> levelInitialAsteroids w' = levelInitialAsteroids w
     \<and> upgrades w' = upgrades w \<and> keysPressed w' = keysPressed w \<and> mouse w' = mouse w
     \<and> screen_width w' = screen_width w \<and> screen_height w' = screen_height w"
  by (simp add: ctx_def)

lemma ctx_update_field [simp]:
  "ctx (w\<lparr>asteroids := as\<rparr>) = ctx w"
  "ctx (w\<lparr>mines := ms\<rparr>) = ctx w"
  "ctx (w\<lparr>ship := s\<rparr>) = ctx w"
  "ctx (w\<lparr>shake := k\<rparr>) = ctx w"
  "ctx (w\<lparr>laser := l\<rparr>) = ctx w"
  "ctx (w\<lparr>camera := c\<rparr>) = ctx w"
  "ctx (w\<lparr>effects := es\<rparr>) = ctx w"
  "ctx (w\<lparr>draws := n\<rparr>) = ctx w"
  "ctx (w\<lparr>sectorOreCollected := q\<rparr>) = ctx w"
  by (simp_all add: ctx_def)

lemma ctx_emit [simp]: "ctx (emit e w) = ctx w"
  by (simp add: emit_def)

lemma ctx_controls [simp]:
  "ctx (thrust w) = ctx w"
  "ctx (reverseThrust w) = ctx w"
  "ctx (spaceBrake w) = ctx w"
  "ctx (rotate w) = ctx w"
  by (simp_all add: thrust_def reverseThrust_def spaceBrake_def rotate_def Let_def)

lemma ctx_simple [simp]:
  "ctx (spawnAsteroid rnd t a b c d w) = ctx w"
  "ctx (shakeDecay w) = ctx w"
  "ctx (shipControls w) = ctx w"
  "ctx (cameraFollow w) = ctx w"
  "ctx (tractorPull rnd i w) = ctx w"
  "ctx (puckerAsteroid m i w) = ctx w"
  "ctx (blastShip m w) = ctx w"
  "ctx (collide i w) = ctx w"
  "ctx (sectorCheck n w) = ctx w"
  "ctx (docking w) = ctx w"
  "ctx (endOfTick w) = ctx w"
  by (simp_all add: spawnAsteroid_def shakeDecay_def shipControls_def cameraFollow_def
      tractorPull_def puckerAsteroid_def blastShip_def collide_def sectorCheck_def docking_def
      endOfTick_def Let_def)

lemma ctx_spawnFragment [simp]: "ctx (spawnFragment rnd t off lo hi ast ix iy w) = ctx w"
  by (simp add: spawnFragment_def Let_def)

lemma ctx_spawnFragments [simp]:
  "ctx ((spawnFragment rnd t off lo hi ast ix iy ^^ n) w) = ctx w"
  by (induction n) simp_all

lemma ctx_breakAsteroid [simp]: "ctx (breakAsteroid rnd ast ix iy w) = ctx w"
  by (simp add: breakAsteroid_def)

lemma ctx_laserDamage [simp]: "ctx (laserDamage rnd aim i d w) = ctx w"
  by (simp add: laserDamage_def Let_def)

lemma ctx_miningLaser [simp]: "ctx (miningLaser rnd w) = ctx w"
  by (simp add: miningLaser_def Let_def split: prod.splits option.splits)

lemma ctx_tractorBeam [simp]: "ctx (tractorBeam rnd w) = ctx w"
  by (simp add: tractorBeam_def Let_def fold_keeps)

lemma ctx_blastAsteroid [simp]: "ctx (blastAsteroid rnd m i w) = ctx w"
  by (simp add: blastAsteroid_def Let_def)

lemma ctx_mineStep [simp]: "ctx (mineStep rnd j w) = ctx w"
  by (simp add: mineStep_def Let_def fold_keeps)

lemma ctx_minePhase [simp]: "ctx (minePhase rnd w) = ctx w"
  by (simp add: minePhase_def Let_def fold_keeps)

lemma ctx_asteroidStep [simp]: "ctx (snd (asteroidStep i tw)) = ctx (snd tw)"
  by (simp add: asteroidStep_def Let_def)

lemma ctx_asteroidPhase [simp]: "ctx (snd (asteroidPhase w)) = ctx w"
  unfolding asteroidPhase_def
  using fold_keeps [where g = "\<lambda>tw. ctx (snd tw)" and f = asteroidStep] by simp

lemma ctx_update [simp]: "ctx (update rnd w) = ctx w"
  by (simp add: update_def Let_def)

lemma gameState_update [simp]: "gameState (update rnd w) = gameState w"
  using ctx_update [of rnd w] by (simp add: ctx_def)

lemma spawnAsteroid_frame [simp]:
  "ship (spawnAsteroid rnd t a b c d w) = ship w"
  "mines (spawnAsteroid rnd t a b c d w) = mines w"
  "effects (spawnAsteroid rnd t a b c d w) = effects w"
  "shake (spawnAsteroid rnd t a b c d w) = shake w"
  "gameState (spawnAsteroid rnd t a b c d w) = gameState w"
  "sector (spawnAsteroid rnd t a b c d w) = sector w"
  "prevSector (spawnAsteroid rnd t a b c d w) = prevSector w"
  "prevGameState (spawnAsteroid rnd t a b c d w) = prevGameState w"
  "levelInitialAsteroids (spawnAsteroid rnd t a b c d w) = levelInitialAsteroids w"
  "sectorOreCollected (spawnAsteroid rnd t a b c d w) = sectorOreCollected w"
  "upgrades (spawnAsteroid rnd t a b c d w) = upgrades w"
  "keysPressed (spawnAsteroid rnd t a b c d w) = keysPressed w"
  "mouse (spawnAsteroid rnd t a b c d w) = mouse w"
  by (simp_all add: spawnAsteroid_def Let_def)

lemma spawnAsteroid_asteroids:
  "\<exists>a'. asteroids (spawnAsteroid rnd t a b c d w) = asteroids w @ [a'] \<and> tier a' = t \<and> 0 < hp a'"
  by (simp add: spawnAsteroid_def Let_def)

lemma spawnFragment_frame [simp]:
  "ship (spawnFragment rnd t off lo hi ast ix iy w) = ship w"
  "mines (spawnFragment rnd t off lo hi ast ix iy w) = mines w"
  "effects (spawnFragment rnd t off lo hi ast ix iy w) = effects w"
  "shake (spawnFragment rnd t off lo hi ast ix iy w) = shake w"
  "gameState (spawnFragment rnd t off lo hi ast ix iy w) = gameState w"
  "sector (spawnFragment rnd t off lo hi ast ix iy w) = sector w"
  "prevSector (spawnFragment rnd t off lo hi ast ix iy w) = prevSector w"
  "prevGameState (spawnFragment rnd t off lo hi ast ix iy w) = prevGameState w"
  "levelInitialAsteroids (spawnFragment rnd t off lo hi ast ix iy w) = levelInitialAsteroids w"
  "sectorOreCollected (spawnFragment rnd t off lo hi ast ix iy w) = sectorOreCollected w"
  "upgrades (spawnFragment rnd t off lo hi ast ix iy w) = upgrades w"
  "keysPressed (spawnFragment rnd t off lo hi ast ix iy w) = keysPressed w"
  "mouse (spawnFragment rnd t off lo hi ast ix iy w) = mouse w"
  by (simp_all add: spawnFragment_def Let_def)

lemma spawnFragment_asteroids:
  "\<exists>a'. asteroids (spawnFragment rnd t off lo hi ast ix iy w) = asteroids w @ [a'] \<and> tier a' = t \<and> 0 < hp a'"
  unfolding spawnFragment_def Let_def
  using spawnAsteroid_asteroids [where w = "w\<lparr>draws := draws w + 2\<rparr>"] by simp

lemma spawnFragments_frame [simp]:
  "ship ((spawnFragment rnd t off lo hi ast ix iy ^^ n) w) = ship w"
  "mines ((spawnFragment rnd t off lo hi ast ix iy ^^ n) w) = mines w"
  "effects ((spawnFragment rnd t off lo hi ast ix iy ^^ n) w) = effects w"
  "shake ((spawnFragment rnd t off lo hi ast ix iy ^^ n) w) = shake w"
  "gameState ((spawnFragment rnd t off lo hi ast ix iy ^^ n) w) = gameState w"
  "sector ((spawnFragment rnd t off lo hi ast ix iy ^^ n) w) = sector w"
  "prevSector ((spawnFragment rnd t off lo hi ast ix iy ^^ n) w) = prevSector w"
  "prevGameState ((spawnFragment rnd t off lo hi ast ix iy ^^ n) w) = prevGameState w"
  "levelInitialAsteroids ((spawnFragment rnd t off lo hi ast ix iy ^^ n) w) = levelInitialAsteroids w"
  "sectorOreCollected ((spawnFragment rnd t off lo hi ast ix iy ^^ n) w) = sectorOreCollected w"
  "upgrades ((spawnFragment rnd t off lo hi ast ix iy ^^ n) w) = upgrades w"
  "keysPressed ((spawnFragment rnd t off lo hi ast ix iy ^^ n) w) = keysPressed w"
  "mouse ((spawnFragment rnd t off lo hi ast ix iy ^^ n) w) = mouse w"
  by (induction n) simp_all

lemma spawnFragments_asteroids:
  "\<exists>new. asteroids ((spawnFragment rnd t off lo hi ast ix iy ^^ n) w) = asteroids w @ new
          \<and> length new = n \<and> (\<forall>a'\<in>set new. tier a' = t \<and> 0 < hp a')"
proof (induction n)
  case 0
  show ?case by simp
next
  case (Suc n)
  then obtain new where
    new: "asteroids ((spawnFragment rnd t off lo hi ast ix iy ^^ n) w) = asteroids w @ new"
      "length new = n" "\<forall>a'\<in>set new. tier a' = t \<and> 0 < hp a'"
    by blast
  obtain a' where
    a': "asteroids (spawnFragment rnd t off lo hi ast ix iy
           ((spawnFragment rnd t off lo hi ast ix iy ^^ n) w))
         = asteroids ((spawnFragment rnd t off lo hi ast ix iy ^^ n) w) @ [a']"
      "tier a' = t" "0 < hp a'"
    using spawnFragment_asteroids by blast
  show ?case
    by (rule exI [of _ "new @ [a']"]) (use new a' in auto)
qed

lemma breakAsteroid_ORE: "tier ast = ORE \<Longrightarrow> breakAsteroid rnd ast ix iy w = w"
  by (simp add: breakAsteroid_def)

lemma breakAsteroid_frame [simp]:
  "ship (breakAsteroid rnd ast ix iy w) = ship w"
  "mines (breakAsteroid rnd ast ix iy w) = mines w"
  "gameState (breakAsteroid rnd ast ix iy w) = gameState w"
  "sector (breakAsteroid rnd ast ix iy w) = sector w"
  "prevSector (breakAsteroid rnd ast ix iy w) = prevSector w"
  "prevGameState (breakAsteroid rnd ast ix iy w) = prevGameState w"
  "levelInitialAsteroids (breakAsteroid rnd ast ix iy w) = levelInitialAsteroids w"
  "sectorOreCollected (breakAsteroid rnd ast ix iy w) = sectorOreCollected w"
  "upgrades (breakAsteroid rnd ast ix iy w) = upgrades w"
  "keysPressed (breakAsteroid rnd ast ix iy w) = keysPressed w"
  "mouse (breakAsteroid rnd ast ix iy w) = mouse w"
  by (simp_all add: breakAsteroid_def emit_def)

lemma breakAsteroid_effects:
  "effects (breakAsteroid rnd ast ix iy w) =
     effects w @ (case tier ast of ORE \<Rightarrow> [] | CHUNK \<Rightarrow> [PlayExplosion ''small'']
                  | _ \<Rightarrow> [PlayExplosion ''large''])"
  by (cases "tier ast") (simp_all add: breakAsteroid_def emit_def)

lemma collide_tier: "tier (asteroids (collide i w) ! i) = tier (asteroids w ! i)"
  by (cases "i < length (asteroids w)") (simp_all add: collide_def Let_def emit_def list_update_beyond)

lemma collide_pickup:
  "PlayPickup \<in> set (drop (length (effects w)) (effects (collide i w)))
     \<longleftrightarrow> tier (asteroids w ! i) = ORE \<and> cargo (ship w) < maxCargo (ship w)"
  by (simp add: collide_def Let_def emit_def)

lemma ship_simple [simp]:
  "ship (emit e w) = ship w"
  "ship (shakeDecay w) = ship w"
  "ship (cameraFollow w) = ship w"
  "ship (tractorPull rnd i w) = ship w"
  "ship (puckerAsteroid m i w) = ship w"
  "ship (sectorCheck n w) = ship w"
  "ship (docking w) = ship w"
  by (simp_all add: emit_def shakeDecay_def cameraFollow_def tractorPull_def puckerAsteroid_def
      sectorCheck_def docking_def Let_def)

lemma ship_laserDamage [simp]: "ship (laserDamage rnd aim i d w) = ship w"
  by (simp add: laserDamage_def Let_def)

lemma ship_miningLaser [simp]: "ship (miningLaser rnd w) = ship w"
  by (simp add: miningLaser_def Let_def split: prod.splits option.splits)

lemma ship_tractorBeam [simp]: "ship (tractorBeam rnd w) = ship w"
  by (simp add: tractorBeam_def Let_def fold_keeps)

lemma ship_blastAsteroid [simp]: "ship (blastAsteroid rnd m i w) = ship w"
  by (simp add: blastAsteroid_def Let_def)

lemma safeStep_kinematic [simp]:
  "safeStep s (s'\<lparr>px := a\<rparr>) = safeStep s s'"
  "safeStep s (s'\<lparr>py := a\<rparr>) = safeStep s s'"
  "safeStep s (s'\<lparr>vx := a\<rparr>) = safeStep s s'"
  "safeStep s (s'\<lparr>vy := a\<rparr>) = safeStep s s'"
  "safeStep s (s'\<lparr>angle := a\<rparr>) = safeStep s s'"
  "safeStep s (s'\<lparr>thrusting := b\<rparr>) = safeStep s s'"
  by (simp_all add: safeStep_def)

lemma safeStep_controls:
  "safeStep a (ship w) \<Longrightarrow> safeStep a (ship (thrust w))"
  "safeStep a (ship w) \<Longrightarrow> safeStep a (ship (reverseThrust w))"
  "safeStep a (ship w) \<Longrightarrow> safeStep a (ship (spaceBrake w))"
  "safeStep a (ship w) \<Longrightarrow> safeStep a (ship (rotate w))"
  "safeStep a s \<Longrightarrow> safeStep a (capSpeed u s)"
  "safeStep a s \<Longrightarrow> safeStep a (applyFriction s)"
  by (simp_all add: thrust_def reverseThrust_def spaceBrake_def rotate_def capSpeed_def
      applyFriction_def emit_def Let_def)

lemma safeStep_shipControls: "safeStep (ship w) (ship (shipControls w))"
  by (simp add: shipControls_def Let_def safeStep_controls)

lemma safeStep_puckerShip: "safeStep s (puckerShip m s)"
  by (simp add: safeStep_def puckerShip_def Let_def)

lemma safeStep_blastShip: "safeStep (ship w) (ship (blastShip m w))"
proof -
  have "distance m (ship w) < MINE_BLAST_RADIUS \<Longrightarrow>
        0 \<le> 50 * (1 - distance m (ship w) / MINE_BLAST_RADIUS)"
    by (simp add: MINE_BLAST_RADIUS_def)
  then show ?thesis
    by (auto simp add: safeStep_def blastShip_def emit_def Let_def)
qed

lemma safeStep_mineStep: "safeStep (ship w) (ship (mineStep rnd j w))"
proof -
  have a: "\<And>m n w. ship (fold (puckerAsteroid m) n w) = ship w"
    by (rule fold_keeps) simp
  have b: "\<And>m n w. ship (fold (blastAsteroid rnd m) n w) = ship w"
    by (rule fold_keeps) simp
  have c: "\<And>m w w'. ship w' = ship w \<Longrightarrow> safeStep (ship w) (ship (blastShip m w'))"
    using safeStep_blastShip by metis
  show ?thesis
    unfolding mineStep_def Let_def
    by (simp add: a b c safeStep_puckerShip)
qed

lemma safeStep_minePhase: "safeStep (ship w) (ship (minePhase rnd w))"
  using fold_safeStep [where f = "mineStep rnd", OF safeStep_mineStep]
  by (simp add: minePhase_def Let_def)

lemma safeStep_collide: "safeStep (ship w) (ship (collide i w))"
  by (auto simp add: safeStep_def collide_def emit_def Let_def)

lemma safeStep_asteroidStep: "safeStep (ship (snd tw)) (ship (snd (asteroidStep i tw)))"
proof -
  have c: "\<And>w w'. ship w' = ship w \<Longrightarrow> safeStep (ship w) (ship (collide i w'))"
    using safeStep_collide by metis
  show ?thesis by (simp add: asteroidStep_def Let_def c)
qed

lemma fold_safeStep_snd:
  "(\<And>i tw. safeStep (ship (snd tw)) (ship (snd (f i tw))))
     \<Longrightarrow> safeStep (ship (snd tw)) (ship (snd (fold f xs tw)))"
proof (induction xs arbitrary: tw)
  case Nil
  show ?case by simp
next
  case (Cons x xs)
  have "safeStep (ship (snd tw)) (ship (snd (f x tw)))" by (rule Cons.prems)
  moreover have "safeStep (ship (snd (f x tw))) (ship (snd (fold f xs (f x tw))))"
    by (rule Cons.IH) (rule Cons.prems)
  ultimately show ?case by (simp add: safeStep_trans)
qed

lemma safeStep_asteroidPhase: "safeStep (ship w) (ship (snd (asteroidPhase w)))"
  using fold_safeStep_snd [where f = asteroidStep and tw = "(0, w)", OF safeStep_asteroidStep]
  by (simp add: asteroidPhase_def)

text \<open>The world just before the final timer step of a tick.\<close>

lemma update_PLAYING:
  "gameState w = PLAYING \<Longrightarrow>
     update rnd w =
       endOfTick (docking (sectorCheck
         (fst (asteroidPhase (minePhase rnd (tractorBeam rnd (miningLaser rnd
                 (cameraFollow (shipControls (shakeDecay w))))))))
         (snd (asteroidPhase (minePhase rnd (tractorBeam rnd (miningLaser rnd
                 (cameraFollow (shipControls (shakeDecay w))))))))))"
  by (simp add: update_def Let_def)

lemma safeStep_beforeEnd:
  "safeStep (ship w)
     (ship (docking (sectorCheck n
        (snd (asteroidPhase (minePhase rnd (tractorBeam rnd (miningLaser rnd
                 (cameraFollow (shipControls (shakeDecay w)))))))))))"
proof -
  let ?w1 = "shipControls (shakeDecay w)"
  let ?w2 = "tractorBeam rnd (miningLaser rnd (cameraFollow ?w1))"
  have 1: "safeStep (ship w) (ship ?w1)"
    using safeStep_shipControls [of "shakeDecay w"] by simp
  have 2: "safeStep (ship ?w1) (ship (minePhase rnd ?w2))"
    using safeStep_minePhase [of ?w2 rnd] by simp
  have 3: "safeStep (ship (minePhase rnd ?w2)) (ship (snd (asteroidPhase (minePhase rnd ?w2))))"
    by (rule safeStep_asteroidPhase)
  show ?thesis
    using safeStep_trans [OF 1 safeStep_trans [OF 2 3]] by simp
qed

lemma endOfTick_ship:
  "hull_pts (ship (endOfTick w)) = hull_pts (ship w)"
  "maxHull (ship (endOfTick w)) = maxHull (ship w)"
  "shield (ship (endOfTick w)) = shield (ship w)"
  "maxShield (ship (endOfTick w)) = maxShield (ship w)"
  "cargo (ship (endOfTick w)) = cargo (ship w)"
  "maxCargo (ship (endOfTick w)) = maxCargo (ship w)"
  "invulnerableTimer (ship (endOfTick w)) =
     (if 0 < invulnerableTimer (ship w) then invulnerableTimer (ship w) - 1
      else invulnerableTimer (ship w))"
  by (simp_all add: endOfTick_def emit_def Let_def)


lemma update_idle:
  "gameState w \<noteq> PLAYING \<Longrightarrow> ship (update rnd w) = ship w"
  by (simp add: update_def)

lemma tick_invulnerable:
  assumes "gameState w = PLAYING" and "0 < invulnerableTimer (ship w)"
  shows "invulnerableTimer (ship (update rnd w)) = invulnerableTimer (ship w) - 1
         \<and> hull_pts (ship (update rnd w)) = hull_pts (ship w)
         \<and> shield (ship (update rnd w)) = shield (ship w)"
  unfolding update_PLAYING [OF assms(1)] endOfTick_ship
  using safeStep_beforeEnd [of w _ rnd] assms(2)
  by (simp add: safeStep_def)

lemma tick_timer_nonneg:
  assumes "0 \<le> invulnerableTimer (ship w)"
  shows "0 \<le> invulnerableTimer (ship (update rnd w))"
proof (cases "gameState w = PLAYING")
  case True
  show ?thesis
    unfolding update_PLAYING [OF True] endOfTick_ship
    using safeStep_beforeEnd [of w _ rnd] assms
    by (auto simp add: safeStep_def)
next
  case False
  then show ?thesis using assms by (simp add: update_idle)
qed

lemma ticks_gameState [simp]: "gameState ((update rnd ^^ k) w) = gameState w"
  by (induction k) simp_all

lemma ticks_timer_nonneg:
  "0 \<le> invulnerableTimer (ship w) \<Longrightarrow> 0 \<le> invulnerableTimer (ship ((update rnd ^^ k) w))"
  by (induction k) (simp_all add: tick_timer_nonneg)

lemma ticks_invulnerable:
  assumes "gameState w = PLAYING"
  shows "int k \<le> invulnerableTimer (ship w) \<Longrightarrow>
         invulnerableTimer (ship ((update rnd ^^ k) w)) = invulnerableTimer (ship w) - int k
         \<and> hull_pts (ship ((update rnd ^^ k) w)) = hull_pts (ship w)
         \<and> shield (ship ((update rnd ^^ k) w)) = shield (ship w)"
proof (induction k)
  case 0
  show ?case by simp
next
  case (Suc k)
  let ?w = "(update rnd ^^ k) w"
  have ih: "invulnerableTimer (ship ?w) = invulnerableTimer (ship w) - int k"
      "hull_pts (ship ?w) = hull_pts (ship w)" "shield (ship ?w) = shield (ship w)"
    using Suc by simp_all
  have pos: "0 < invulnerableTimer (ship ?w)" using ih(1) Suc.prems by simp
  have pl: "gameState ?w = PLAYING" using assms by simp
  show ?case
    using tick_invulnerable [OF pl pos, of rnd] ih by simp
qed


lemma gameState_spawns [simp]:
  "gameState ((spawnVolatile rnd ^^ n) w) = gameState w"
  "gameState ((spawnTitan rnd ^^ n) w) = gameState w"
  "gameState ((spawnAmbientOre rnd ^^ n) w) = gameState w"
  by (induction n) (simp_all add: spawnVolatile_def spawnTitan_def spawnAmbientOre_def Let_def)

lemma gameState_initGame [simp]: "gameState (initGame rnd w) = gameState w"
  by (simp add: initGame_def Let_def)

lemma gameState_resetEffect [simp]: "gameState (resetEffect rnd w) = gameState w"
  by (simp add: resetEffect_def Let_def)

lemma gameState_frame: "gameState (frame rnd w) = phaseAfter (gameState w) (effects (update rnd w))"
  by (simp add: frame_def Let_def)


section \<open>The mine phase\<close>

lemma mines_simple [simp]:
  "mines (emit e w) = mines w"
  "mines (shakeDecay w) = mines w"
  "mines (thrust w) = mines w"
  "mines (reverseThrust w) = mines w"
  "mines (spaceBrake w) = mines w"
  "mines (rotate w) = mines w"
  "mines (cameraFollow w) = mines w"
  "mines (tractorPull rnd i w) = mines w"
  "mines (puckerAsteroid m i w) = mines w"
  "mines (blastShip m w) = mines w"
  "mines (collide i w) = mines w"
  "mines (sectorCheck n w) = mines w"
  "mines (docking w) = mines w"
  "mines (endOfTick w) = mines w"
  by (simp_all add: emit_def shakeDecay_def thrust_def reverseThrust_def spaceBrake_def rotate_def
      cameraFollow_def tractorPull_def puckerAsteroid_def blastShip_def collide_def
      sectorCheck_def docking_def endOfTick_def Let_def)

lemma mines_shipControls [simp]: "mines (shipControls w) = mines w"
  by (simp add: shipControls_def Let_def)

lemma mines_laserDamage [simp]: "mines (laserDamage rnd aim i d w) = mines w"
  by (simp add: laserDamage_def Let_def)

lemma mines_miningLaser [simp]: "mines (miningLaser rnd w) = mines w"
  by (simp add: miningLaser_def Let_def split: prod.splits option.splits)

lemma mines_tractorBeam [simp]: "mines (tractorBeam rnd w) = mines w"
  by (simp add: tractorBeam_def Let_def fold_keeps)

lemma mines_blastAsteroid [simp]: "mines (blastAsteroid rnd m i w) = mines w"
  by (simp add: blastAsteroid_def Let_def)

lemma mines_asteroidStep [simp]: "mines (snd (asteroidStep i tw)) = mines (snd tw)"
  by (simp add: asteroidStep_def Let_def)

lemma mines_asteroidPhase [simp]: "mines (snd (asteroidPhase w)) = mines w"
  unfolding asteroidPhase_def
  using fold_keeps [where g = "\<lambda>tw. mines (snd tw)" and f = asteroidStep] by simp

lemma mines_mineStep:
  "mines (mineStep rnd j w) = (mines w)[j := mineTick (mines w ! j)]"
proof -
  have a: "\<And>m n w. mines (fold (puckerAsteroid m) n w) = mines w"
    by (rule fold_keeps) simp
  have b: "\<And>m n w. mines (fold (blastAsteroid rnd m) n w) = mines w"
    by (rule fold_keeps) simp
  show ?thesis
    by (simp add: mineStep_def mineTick_def Let_def a b)
qed

lemma fold_list_update_map:
  assumes step: "\<And>j w. g (f j w) = (g w)[j := h (g w ! j)]"
  shows "k \<le> length (g w) \<Longrightarrow> g (fold f [0..<k] w) = map h (take k (g w)) @ drop k (g w)"
proof (induction k)
  case 0
  show ?case by simp
next
  case (Suc k)
  then have k: "k < length (g w)" by simp
  have ih: "g (fold f [0..<k] w) = map h (take k (g w)) @ drop k (g w)"
    using Suc by simp
  have n: "(map h (take k (g w)) @ drop k (g w)) ! k = g w ! k"
    using k by (simp add: nth_append)
  have "g (fold f [0..<Suc k] w) = (map h (take k (g w)) @ drop k (g w))[k := h (g w ! k)]"
    by (simp add: step ih n)
  also have "\<dots> = map h (take k (g w)) @ (drop k (g w))[0 := h (g w ! k)]"
    using k by (simp add: list_update_append)
  also have "\<dots> = map h (take k (g w)) @ h (g w ! k) # drop (Suc k) (g w)"
    using k by (simp add: Cons_nth_drop_Suc [symmetric])
  also have "\<dots> = map h (take (Suc k) (g w)) @ drop (Suc k) (g w)"
    using k by (simp add: take_Suc_conv_app_nth)
  finally show ?case .
qed

lemma mines_minePhase:
  "mines (minePhase rnd w) = filter (\<lambda>m. state m \<noteq> DETONATING) (map mineTick (mines w))"
  using fold_list_update_map [where g = mines and f = "mineStep rnd" and h = mineTick
      and k = "length (mines w)" and w = w, OF mines_mineStep]
  by (simp add: minePhase_def Let_def)

lemma mines_update:
  "gameState w = PLAYING \<Longrightarrow>
     mines (update rnd w) = filter (\<lambda>m. state m \<noteq> DETONATING) (map mineTick (mines w))"
  by (simp add: update_PLAYING mines_minePhase)

lemma mines_survivors:
  "m \<in> set (mines (minePhase rnd w)) \<Longrightarrow> state m \<noteq> DETONATING \<and> 0 < timer m"
  by (auto simp add: mines_minePhase mineTick_def Let_def split: if_splits)

lemma asteroids_blastShip [simp]: "asteroids (blastShip m w) = asteroids w"
  by (simp add: blastShip_def emit_def Let_def)

lemma mineStep_detonate:
  assumes "timer (mines w ! j) \<le> 1"
  shows "mineStep rnd j w =
     blastShip ((mines w ! j)\<lparr>timer := timer (mines w ! j) - 1, state := DETONATING\<rparr>)
       (fold (blastAsteroid rnd ((mines w ! j)\<lparr>timer := timer (mines w ! j) - 1, state := DETONATING\<rparr>))
          [0..<length (asteroids w)]
          (w\<lparr>mines := (mines w)[j := (mines w ! j)\<lparr>timer := timer (mines w ! j) - 1,
                                                 state := DETONATING\<rparr>],
             effects := effects w @ [PlayExplosion ''large''],
             shake := 25\<rparr>))"
  using assms by (simp add: mineStep_def Let_def emit_def MINE_PUCKER_DURATION_def)

lemma cues_update_field [simp]:
  "puckerCues (w\<lparr>asteroids := as\<rparr>) = puckerCues w"
  "puckerCues (w\<lparr>mines := ms\<rparr>) = puckerCues w"
  "puckerCues (w\<lparr>ship := s\<rparr>) = puckerCues w"
  "puckerCues (w\<lparr>shake := k\<rparr>) = puckerCues w"
  "puckerCues (w\<lparr>laser := l\<rparr>) = puckerCues w"
  "puckerCues (w\<lparr>camera := c\<rparr>) = puckerCues w"
  "puckerCues (w\<lparr>draws := n\<rparr>) = puckerCues w"
  "puckerCues (w\<lparr>sectorOreCollected := q\<rparr>) = puckerCues w"
  by (simp_all add: puckerCues_def)

lemma cues_emit [simp]:
  "puckerCues (emit e w) = puckerCues w + (if e = PlayMinePucker then 1 else 0)"
  by (simp add: puckerCues_def emit_def)

lemma cues_controls [simp]:
  "puckerCues (thrust w) = puckerCues w"
  "puckerCues (reverseThrust w) = puckerCues w"
  "puckerCues (spaceBrake w) = puckerCues w"
  "puckerCues (rotate w) = puckerCues w"
  by (simp_all add: thrust_def reverseThrust_def spaceBrake_def rotate_def Let_def)

lemma cues_simple [simp]:
  "puckerCues (spawnAsteroid rnd t a b c d w) = puckerCues w"
  "puckerCues (shakeDecay w) = puckerCues w"
  "puckerCues (shipControls w) = puckerCues w"
  "puckerCues (cameraFollow w) = puckerCues w"
  "puckerCues (tractorPull rnd i w) = puckerCues w"
  "puckerCues (puckerAsteroid m i w) = puckerCues w"
  "puckerCues (blastShip m w) = puckerCues w"
  "puckerCues (collide i w) = puckerCues w"
  "puckerCues (sectorCheck n w) = puckerCues w"
  "puckerCues (docking w) = puckerCues w"
  "puckerCues (endOfTick w) = puckerCues w"
  by (simp_all add: spawnAsteroid_def shakeDecay_def shipControls_def cameraFollow_def
      tractorPull_def puckerAsteroid_def blastShip_def collide_def sectorCheck_def docking_def
      endOfTick_def Let_def)

lemma cues_spawnFragment [simp]:
  "puckerCues (spawnFragment rnd t off lo hi ast ix iy w) = puckerCues w"
  by (simp add: spawnFragment_def Let_def)

lemma cues_spawnFragments [simp]:
  "puckerCues ((spawnFragment rnd t off lo hi ast ix iy ^^ n) w) = puckerCues w"
  by (induction n) simp_all

lemma cues_breakAsteroid [simp]: "puckerCues (breakAsteroid rnd ast ix iy w) = puckerCues w"
  by (simp add: breakAsteroid_def)

lemma cues_laserDamage [simp]: "puckerCues (laserDamage rnd aim i d w) = puckerCues w"
  by (simp add: laserDamage_def Let_def)

lemma cues_miningLaser [simp]: "puckerCues (miningLaser rnd w) = puckerCues w"
  by (simp add: miningLaser_def Let_def split: prod.splits option.splits)

lemma cues_tractorBeam [simp]: "puckerCues (tractorBeam rnd w) = puckerCues w"
  by (simp add: tractorBeam_def Let_def fold_keeps)

lemma cues_blastAsteroid [simp]: "puckerCues (blastAsteroid rnd m i w) = puckerCues w"
  by (simp add: blastAsteroid_def Let_def)

lemma cues_asteroidStep [simp]: "puckerCues (snd (asteroidStep i tw)) = puckerCues (snd tw)"
  by (simp add: asteroidStep_def Let_def)

lemma cues_asteroidPhase [simp]: "puckerCues (snd (asteroidPhase w)) = puckerCues w"
  unfolding asteroidPhase_def
  using fold_keeps [where g = "\<lambda>tw. puckerCues (snd tw)" and f = asteroidStep] by simp

lemma cues_mineStep:
  "puckerCues (mineStep rnd j w) = puckerCues w + (if timer (mines w ! j) = 61 then 1 else 0)"
proof -
  have a: "\<And>m n w. puckerCues (fold (puckerAsteroid m) n w) = puckerCues w"
    by (rule fold_keeps) simp
  have b: "\<And>m n w. puckerCues (fold (blastAsteroid rnd m) n w) = puckerCues w"
    by (rule fold_keeps) simp
  show ?thesis
    by (simp add: mineStep_def Let_def a b MINE_PUCKER_DURATION_def)
qed

lemma cues_fold_mineStep:
  "k \<le> length (mines w) \<Longrightarrow>
     puckerCues (fold (mineStep rnd) [0..<k] w)
       = puckerCues w + length (filter (\<lambda>m. timer m = 61) (take k (mines w)))"
proof (induction k)
  case 0
  show ?case by simp
next
  case (Suc k)
  then have k: "k < length (mines w)" by simp
  have m: "mines (fold (mineStep rnd) [0..<k] w) = map mineTick (take k (mines w)) @ drop k (mines w)"
    using fold_list_update_map [where g = mines and f = "mineStep rnd" and h = mineTick
        and k = k and w = w, OF mines_mineStep] k by simp
  have n: "mines (fold (mineStep rnd) [0..<k] w) ! k = mines w ! k"
    using k by (simp add: m nth_append)
  show ?case
    using Suc.IH k by (simp add: cues_mineStep n take_Suc_conv_app_nth)
qed

lemma cues_update:
  "gameState w = PLAYING \<Longrightarrow>
     puckerCues (update rnd w) = puckerCues w + length (filter (\<lambda>m. timer m = 61) (mines w))"
  by (simp add: update_PLAYING minePhase_def Let_def cues_fold_mineStep)

text \<open>The mine list that a single armed mine with 180 ticks to go leaves after \<open>n\<close> ticks.\<close>

lemma countdown:
  assumes pl: "gameState w = PLAYING" and one: "mines w = [m]"
    and t: "timer m = 180" and st: "state m = ARMED"
  shows "mines ((update rnd ^^ n) w)
           = (if n \<le> 120 then [m\<lparr>timer := 180 - int n\<rparr>]
              else if n < 180 then [m\<lparr>timer := 180 - int n, state := PUCKER\<rparr>] else [])
         \<and> puckerCues ((update rnd ^^ n) w) = puckerCues w + (if 120 \<le> n then 1 else 0)"
proof (induction n)
  case 0
  show ?case using one t by simp
next
  case (Suc n)
  let ?w = "(update rnd ^^ n) w"
  have pl': "gameState ?w = PLAYING" using pl by simp
  have step: "mines ((update rnd ^^ Suc n) w)
                = filter (\<lambda>m. state m \<noteq> DETONATING) (map mineTick (mines ?w))"
    "puckerCues ((update rnd ^^ Suc n) w)
       = puckerCues ?w + length (filter (\<lambda>m. timer m = 61) (mines ?w))"
    using mines_update [OF pl', of rnd] cues_update [OF pl', of rnd] by simp_all
  consider "n < 119" | "n = 119" | "n = 120" | "120 < n" "n < 179" | "n = 179" | "180 \<le> n"
    by linarith
  then show ?case
  proof cases
    case 1
    then show ?thesis
      using Suc st unfolding step
      by (simp add: mineTick_def Let_def MINE_PUCKER_DURATION_def)
  next
    case 2
    then show ?thesis
      using Suc st unfolding step
      by (simp add: mineTick_def Let_def MINE_PUCKER_DURATION_def)
  next
    case 3
    then show ?thesis
      using Suc st unfolding step
      by (simp add: mineTick_def Let_def MINE_PUCKER_DURATION_def)
  next
    case 4
    then show ?thesis
      using Suc st unfolding step
      by (simp add: mineTick_def Let_def MINE_PUCKER_DURATION_def)
  next
    case 5
    then show ?thesis
      using Suc st unfolding step
      by (simp add: mineTick_def Let_def MINE_PUCKER_DURATION_def)
  next
    case 6
    then show ?thesis
      using Suc st unfolding step by simp
  qed
qed

section \<open>Evaluating a tick on the sample worlds\<close>

lemma sqrt_le_iff: "0 \<le> c \<Longrightarrow> sqrt a \<le> c \<longleftrightarrow> a \<le> c\<^sup>2"
  by (metis abs_of_nonneg real_sqrt_abs real_sqrt_le_iff)

lemma shakeDecay_eq:
  "shakeDecay w =
     w\<lparr>shake := (if shake w > 0
                   then (if shake w * (9 / 10) < 5 / 10 then 0 else shake w * (9 / 10))
                   else shake w)\<rparr>"
  by (simp add: shakeDecay_def Let_def)

lemma quiet_controls:
  assumes "keysPressed w = {}"
    and "sqrt (vx (ship w) * vx (ship w) + vy (ship w) * vy (ship w))
           \<le> MAX_SPEED + real (engineLevel (upgrades w)) * (5 / 10)"
  shows "cameraFollow (shipControls w) =
     w\<lparr>ship := applyFriction ((ship w)\<lparr>thrusting := False\<rparr>),
       camera := (camera w)
         \<lparr>cam_x := px (applyFriction (ship w)) - (screen_width w / 2) / zoom (camera w),
          cam_y := py (applyFriction (ship w)) - (screen_height w / 2) / zoom (camera w)\<rparr>,
       effects := effects w @ [SetThrust False]\<rparr>"
proof -
  have 1: "rotate (spaceBrake (reverseThrust (thrust w)))
             = emit (SetThrust False) (w\<lparr>ship := (ship w)\<lparr>thrusting := False\<rparr>\<rparr>)"
    using assms(1) by (simp add: thrust_def reverseThrust_def spaceBrake_def rotate_def emit_def Let_def)
  have 2: "capSpeed (upgrades w) ((ship w)\<lparr>thrusting := False\<rparr>) = (ship w)\<lparr>thrusting := False\<rparr>"
    using assms(2) by (simp add: capSpeed_def Let_def)
  have 3: "shipControls w
             = emit (SetThrust False) (w\<lparr>ship := applyFriction ((ship w)\<lparr>thrusting := False\<rparr>)\<rparr>)"
    unfolding shipControls_def Let_def 1 by (simp add: emit_def 2)
  show ?thesis
    unfolding 3 by (simp add: cameraFollow_def emit_def Let_def applyFriction_def)
qed

lemma quiet_beams:
  assumes "\<not> down (mouse w)" and "\<not> rightDown (mouse w)"
  shows "tractorBeam rnd (miningLaser rnd w) =
     w\<lparr>laser := (laser w)\<lparr>active := False\<rparr>,
       effects := effects w @ [SetLaser False, SetTractor False]\<rparr>"
  using assms by (simp add: miningLaser_def tractorBeam_def emit_def Let_def)

lemma quiet_front:
  assumes "shake w = 0" and "keysPressed w = {}" and "\<not> down (mouse w)" and "\<not> rightDown (mouse w)"
    and "sqrt (vx (ship w) * vx (ship w) + vy (ship w) * vy (ship w))
           \<le> MAX_SPEED + real (engineLevel (upgrades w)) * (5 / 10)"
  shows "tractorBeam rnd (miningLaser rnd (cameraFollow (shipControls (shakeDecay w)))) =
     w\<lparr>ship := applyFriction ((ship w)\<lparr>thrusting := False\<rparr>),
       camera := (camera w)
         \<lparr>cam_x := px (applyFriction (ship w)) - (screen_width w / 2) / zoom (camera w),
          cam_y := py (applyFriction (ship w)) - (screen_height w / 2) / zoom (camera w)\<rparr>,
       laser := (laser w)\<lparr>active := False\<rparr>,
       effects := effects w @ [SetThrust False, SetLaser False, SetTractor False]\<rparr>"
proof -
  have 0: "shakeDecay w = w" using assms(1) by (simp add: shakeDecay_def)
  show ?thesis
    unfolding 0 quiet_controls [OF assms(2,5)]
    by (subst quiet_beams) (simp_all add: assms)
qed

lemma minePhase_no_mines:
  "mines w = [] \<Longrightarrow> minePhase rnd w = w\<lparr>asteroids := filter (\<lambda>a. hp a > 0) (asteroids w)\<rparr>"
  by (simp add: minePhase_def Let_def)

lemma asteroidPhase_single:
  "length (asteroids w) = 1 \<Longrightarrow> asteroidPhase w = asteroidStep 0 (0, w)"
  by (simp add: asteroidPhase_def)

lemmas step_defs =
  asteroidStep_def stationShield_def drift_def collide_def checkCollision_def distance_def
  emit_def Let_def constants sqrt_less_iff less_sqrt_iff

lemmas end_defs =
  sectorCheck_def docking_def endOfTick_def emit_def Let_def distance_def constants
  sqrt_less_iff less_sqrt_iff

lemma volatile_update:
  "update rnd volatileWorld =
     volatileWorld\<lparr>camera := \<lparr>cam_x = 500, cam_y = - 375, zoom = 8 / 10\<rparr>,
         shake := 5,
         ship := initialShip\<lparr>px := 1000, vx := 8, hull_pts := - 50, invulnerableTimer := 59\<rparr>,
         effects := [SetThrust False, SetLaser False, SetTractor False, PlayExplosion ''small'', SyncUI,
                     SetGameState GAME_OVER, PlayExplosion ''large'']\<rparr>"
proof -
  have pl: "gameState volatileWorld = PLAYING" by (simp add: volatileWorld_def)
  have 1: "minePhase rnd (tractorBeam rnd (miningLaser rnd
             (cameraFollow (shipControls (shakeDecay volatileWorld)))))
     = volatileWorld\<lparr>camera := \<lparr>cam_x = 500, cam_y = - 375, zoom = 8 / 10\<rparr>,
         effects := [SetThrust False, SetLaser False, SetTractor False]\<rparr>"
    by (subst quiet_front; (subst minePhase_no_mines)?)
       (simp_all add: volatileWorld_def sample_defs applyFriction_def Let_def MAX_SPEED_def)
  have 2: "asteroidPhase (volatileWorld\<lparr>camera := \<lparr>cam_x = 500, cam_y = - 375, zoom = 8 / 10\<rparr>,
         effects := [SetThrust False, SetLaser False, SetTractor False]\<rparr>)
   = (1, volatileWorld\<lparr>camera := \<lparr>cam_x = 500, cam_y = - 375, zoom = 8 / 10\<rparr>,
         shake := 5,
         ship := initialShip\<lparr>px := 1000, vx := 8, hull_pts := - 50, invulnerableTimer := 60\<rparr>,
         effects := [SetThrust False, SetLaser False, SetTractor False, PlayExplosion ''small'', SyncUI]\<rparr>)"
    by (subst asteroidPhase_single) (simp_all add: volatileWorld_def sample_defs step_defs)
  show ?thesis
    unfolding update_PLAYING [OF pl] 1 2 fst_conv snd_conv
    by (simp add: end_defs volatileWorld_def sample_defs)
qed


lemma mineWorld_mines: "mines mineWorld = [sampleMine 1000 0 180 ARMED]"
  by (simp add: mineWorld_def dropMine_def sample_defs emit_def Let_def halfDraws_def)

lemma mineWorld_start: "gameState mineWorld = PLAYING" "puckerCues mineWorld = 0"
  by (simp_all add: mineWorld_def dropMine_def sample_defs emit_def Let_def puckerCues_def)

lemma asteroidPhase_two:
  "length (asteroids w) = 2 \<Longrightarrow> asteroidPhase w = asteroidStep 1 (asteroidStep 0 (0, w))"
  by (simp add: asteroidPhase_def numeral_2_eq_2)

lemma ore_update:
  "update rnd oreWorld =
     oreWorld\<lparr>camera := \<lparr>cam_x = 500, cam_y = - 375, zoom = 8 / 10\<rparr>,
        ship := initialShip\<lparr>px := 1000, cargo := 1\<rparr>,
        sectorOreCollected := 1,
        asteroids := [(sampleAsteroid ORE 1000 0 0 0)\<lparr>hp := 0\<rparr>, sampleAsteroid TITAN 3000 0 0 0],
        effects := [SetThrust False, SetLaser False, SetTractor False, PlayPickup, SyncUI]\<rparr>"
proof -
  have pl: "gameState oreWorld = PLAYING" by (simp add: oreWorld_def)
  have 1: "minePhase rnd (tractorBeam rnd (miningLaser rnd
             (cameraFollow (shipControls (shakeDecay oreWorld)))))
     = oreWorld\<lparr>camera := \<lparr>cam_x = 500, cam_y = - 375, zoom = 8 / 10\<rparr>,
         effects := [SetThrust False, SetLaser False, SetTractor False]\<rparr>"
    by (subst quiet_front; (subst minePhase_no_mines)?)
       (simp_all add: oreWorld_def sample_defs applyFriction_def Let_def MAX_SPEED_def)
  have 2: "asteroidPhase (oreWorld\<lparr>camera := \<lparr>cam_x = 500, cam_y = - 375, zoom = 8 / 10\<rparr>,
         effects := [SetThrust False, SetLaser False, SetTractor False]\<rparr>)
   = (1, oreWorld\<lparr>camera := \<lparr>cam_x = 500, cam_y = - 375, zoom = 8 / 10\<rparr>,
        ship := initialShip\<lparr>px := 1000, cargo := 1\<rparr>,
        sectorOreCollected := 1,
        asteroids := [(sampleAsteroid ORE 1000 0 0 0)\<lparr>hp := 0\<rparr>, sampleAsteroid TITAN 3000 0 0 0],
        effects := [SetThrust False, SetLaser False, SetTractor False, PlayPickup, SyncUI]\<rparr>)"
    by (subst asteroidPhase_two) (simp_all add: oreWorld_def sample_defs step_defs)
  show ?thesis
    unfolding update_PLAYING [OF pl] 1 2 fst_conv snd_conv
    by (simp add: end_defs oreWorld_def sample_defs)
qed

lemma ore_update2:
  "update rnd (update rnd oreWorld) =
     oreWorld\<lparr>camera := \<lparr>cam_x = 500, cam_y = - 375, zoom = 8 / 10\<rparr>,
        ship := initialShip\<lparr>px := 1000, cargo := 1\<rparr>,
        sectorOreCollected := 1,
        asteroids := [sampleAsteroid TITAN 3000 0 0 0],
        effects := [SetThrust False, SetLaser False, SetTractor False, PlayPickup, SyncUI,
                    SetThrust False, SetLaser False, SetTractor False]\<rparr>"
proof -
  let ?w = "oreWorld\<lparr>camera := \<lparr>cam_x = 500, cam_y = - 375, zoom = 8 / 10\<rparr>,
        ship := initialShip\<lparr>px := 1000, cargo := 1\<rparr>,
        sectorOreCollected := 1,
        asteroids := [(sampleAsteroid ORE 1000 0 0 0)\<lparr>hp := 0\<rparr>, sampleAsteroid TITAN 3000 0 0 0],
        effects := [SetThrust False, SetLaser False, SetTractor False, PlayPickup, SyncUI]\<rparr>"
  let ?v = "oreWorld\<lparr>camera := \<lparr>cam_x = 500, cam_y = - 375, zoom = 8 / 10\<rparr>,
        ship := initialShip\<lparr>px := 1000, cargo := 1\<rparr>,
        sectorOreCollected := 1,
        asteroids := [sampleAsteroid TITAN 3000 0 0 0],
        effects := [SetThrust False, SetLaser False, SetTractor False, PlayPickup, SyncUI,
                    SetThrust False, SetLaser False, SetTractor False]\<rparr>"
  have pl: "gameState ?w = PLAYING" by (simp add: oreWorld_def)
  have 1: "minePhase rnd (tractorBeam rnd (miningLaser rnd
             (cameraFollow (shipControls (shakeDecay ?w))))) = ?v"
    by (subst quiet_front; (subst minePhase_no_mines)?)
       (simp_all add: oreWorld_def sample_defs applyFriction_def Let_def MAX_SPEED_def)
  have 2: "asteroidPhase ?v = (1, ?v)"
    by (subst asteroidPhase_single) (simp_all add: oreWorld_def sample_defs step_defs)
  show ?thesis
    unfolding ore_update update_PLAYING [OF pl] 1 2 fst_conv snd_conv
    by (simp add: end_defs oreWorld_def sample_defs)
qed

lemma wrapDown_id: "a \<le> pi \<Longrightarrow> wrapDown a = a"
  by (subst wrapDown.simps) simp

lemma wrapUp_id: "- pi \<le> a \<Longrightarrow> wrapUp a = a"
  by (subst wrapUp.simps) simp

lemmas laser_defs =
  miningLaser_def laserHits_def laserDamage_def tractorBeam_def distance_def atan2_def
  emit_def Let_def constants sqrt_less_iff less_sqrt_iff wrapDown_id wrapUp_id

lemma laser_update:
  "update rnd laserWorld =
     laserWorld\<lparr>camera := \<lparr>cam_x = 500, cam_y = - 375, zoom = 8 / 10\<rparr>,
        laser := \<lparr>active = True, laser_x = 1000, laser_y = 0, laser_length = 250,
                  laser_angle = 0\<rparr>,
        effects := [SetThrust False, SetLaser True, SetTractor False]\<rparr>"
proof -
  let ?a = "laserWorld\<lparr>camera := \<lparr>cam_x = 500, cam_y = - 375, zoom = 8 / 10\<rparr>,
        effects := [SetThrust False]\<rparr>"
  let ?b = "laserWorld\<lparr>camera := \<lparr>cam_x = 500, cam_y = - 375, zoom = 8 / 10\<rparr>,
        laser := \<lparr>active = True, laser_x = 1000, laser_y = 0, laser_length = 250,
                  laser_angle = 0\<rparr>,
        effects := [SetThrust False, SetLaser True, SetTractor False]\<rparr>"
  have pl: "gameState laserWorld = PLAYING" by (simp add: laserWorld_def)
  have 0: "shakeDecay laserWorld = laserWorld"
    by (simp add: shakeDecay_def laserWorld_def sample_defs)
  have 1: "cameraFollow (shipControls laserWorld) = ?a"
    by (subst quiet_controls)
       (simp_all add: laserWorld_def sample_defs applyFriction_def Let_def MAX_SPEED_def)
  have 2: "tractorBeam rnd (miningLaser rnd ?a) = ?b"
    by (simp add: laserWorld_def sample_defs laser_defs)
  have 3: "minePhase rnd ?b = ?b"
    by (subst minePhase_no_mines) (simp_all add: laserWorld_def sample_defs)
  have 4: "asteroidPhase ?b = (1, ?b)"
    by (subst asteroidPhase_two) (simp_all add: laserWorld_def sample_defs step_defs)
  show ?thesis
    unfolding update_PLAYING [OF pl] 0 1 2 3 4 fst_conv snd_conv
    by (simp add: end_defs laserWorld_def sample_defs)
qed

lemma laserNear_update:
  "update rnd laserNearWorld =
     laserNearWorld\<lparr>camera := \<lparr>cam_x = 500, cam_y = - 375, zoom = 8 / 10\<rparr>,
        laser := \<lparr>active = True, laser_x = 1000, laser_y = 0, laser_length = 215,
                  laser_angle = 0\<rparr>,
        asteroids := [(sampleAsteroid CHUNK 1240 0 0 0)\<lparr>hp := 97 / 2\<rparr>,
                      sampleAsteroid TITAN 3000 0 0 0],
        effects := [SetThrust False, SetLaser True, SetTractor False]\<rparr>"
proof -
  let ?a = "laserNearWorld\<lparr>camera := \<lparr>cam_x = 500, cam_y = - 375, zoom = 8 / 10\<rparr>,
        effects := [SetThrust False]\<rparr>"
  let ?b = "laserNearWorld\<lparr>camera := \<lparr>cam_x = 500, cam_y = - 375, zoom = 8 / 10\<rparr>,
        laser := \<lparr>active = True, laser_x = 1000, laser_y = 0, laser_length = 215,
                  laser_angle = 0\<rparr>,
        asteroids := [(sampleAsteroid CHUNK 1240 0 0 0)\<lparr>hp := 97 / 2\<rparr>,
                      sampleAsteroid TITAN 3000 0 0 0],
        effects := [SetThrust False, SetLaser True, SetTractor False]\<rparr>"
  have r: "sqrt 57600 = 240" using sqrt_sq_pos [of 240] by simp
  have pl: "gameState laserNearWorld = PLAYING" by (simp add: laserNearWorld_def laserWorld_def)
  have 0: "shakeDecay laserNearWorld = laserNearWorld"
    by (simp add: shakeDecay_def laserNearWorld_def laserWorld_def sample_defs)
  have 1: "cameraFollow (shipControls laserNearWorld) = ?a"
    by (subst quiet_controls)
       (simp_all add: laserNearWorld_def laserWorld_def sample_defs applyFriction_def Let_def
         MAX_SPEED_def)
  have 2: "tractorBeam rnd (miningLaser rnd ?a) = ?b"
    by (simp add: laserNearWorld_def laserWorld_def sample_defs laser_defs r)
  have 3: "minePhase rnd ?b = ?b"
    by (subst minePhase_no_mines) (simp_all add: laserNearWorld_def laserWorld_def sample_defs)
  have 4: "asteroidPhase ?b = (1, ?b)"
    by (subst asteroidPhase_two)
       (simp_all add: laserNearWorld_def laserWorld_def sample_defs step_defs)
  show ?thesis
    unfolding update_PLAYING [OF pl] 0 1 2 3 4 fst_conv snd_conv
    by (simp add: end_defs laserNearWorld_def laserWorld_def sample_defs)
qed

lemma spawnFragment_half:
  "spawnFragment halfDraws CHUNK 10 1 4 ast 15 0 w =
     w\<lparr>asteroids := asteroids w @ [sampleAsteroid CHUNK (px ast - 10) (py ast) 2 0],
       draws := draws w + 13\<rparr>"
  by (simp add: spawnFragment_def Let_def spawnAsteroid_half)
     (simp add: halfDraws_def randomRange_def)

lemma spawnFragments_half:
  "(spawnFragment halfDraws CHUNK 10 1 4 ast 15 0 ^^ n) w =
     w\<lparr>asteroids := asteroids w @ replicate n (sampleAsteroid CHUNK (px ast - 10) (py ast) 2 0),
       draws := draws w + 13 * n\<rparr>"
proof (induction n)
  case 0
  show ?case by simp
next
  case (Suc n)
  have "(spawnFragment halfDraws CHUNK 10 1 4 ast 15 0 ^^ Suc n) w
          = spawnFragment halfDraws CHUNK 10 1 4 ast 15 0
              ((spawnFragment halfDraws CHUNK 10 1 4 ast 15 0 ^^ n) w)"
    by simp
  also have "\<dots> = spawnFragment halfDraws CHUNK 10 1 4 ast 15 0
      (w\<lparr>asteroids := asteroids w @ replicate n (sampleAsteroid CHUNK (px ast - 10) (py ast) 2 0),
         draws := draws w + 13 * n\<rparr>)"
    by (simp only: Suc)
  also have "\<dots> = w\<lparr>asteroids := asteroids w
                          @ replicate (Suc n) (sampleAsteroid CHUNK (px ast - 10) (py ast) 2 0),
                       draws := draws w + 13 * Suc n\<rparr>"
    unfolding spawnFragment_half by (simp add: replicate_append_same)
  finally show ?case .
qed

lemma upt5: "[0..<5] = [0, 1, 2, 3, 4]"
  by code_simp

lemma replicate5: "replicate 5 a = [a, a, a, a, a]"
  by (simp add: numeral_eq_Suc)

lemma dock_update1: "update halfDraws dockClearWorld = dockTick1"
proof -
  let ?b = "dockClearWorld
       \<lparr>ship := initialShip\<lparr>px := 164618 / 1000, vx := - (882 / 1000), angle := 0\<rparr>,
        camera := \<lparr>cam_x = - (335382 / 1000), cam_y = - 375, zoom = 8 / 10\<rparr>,
        effects := [SetThrust False, SetLaser False, SetTractor False]\<rparr>"
  let ?c = "?b\<lparr>mines := [], shake := 25, draws := 65,
        asteroids := replicate 5 (sampleAsteroid CHUNK 690 0 2 0),
        effects := [SetThrust False, SetLaser False, SetTractor False, PlayExplosion ''large'',
                    PlayExplosion ''large'']\<rparr>"
  let ?e = "?c\<lparr>asteroids := replicate 5 (sampleAsteroid CHUNK 692 0 (198 / 100) 0)\<rparr>"
  have pl: "gameState dockClearWorld = PLAYING" by (simp add: dockClearWorld_def)
  have r: "sqrt (81 / 100) = 9 / 10" using sqrt_sq_pos [of "9 / 10"] by simp
  have 1: "tractorBeam halfDraws (miningLaser halfDraws
             (cameraFollow (shipControls (shakeDecay dockClearWorld)))) = ?b"
    by (subst quiet_front)
       (simp_all add: dockClearWorld_def sample_defs applyFriction_def Let_def MAX_SPEED_def
         FRICTION_def r)
  have 2: "mineStep halfDraws 0 ?b =
             ?b\<lparr>mines := [sampleMine 700 0 0 DETONATING], shake := 25, draws := 65,
                 asteroids := (sampleAsteroid TITAN 700 0 15 0)\<lparr>hp := 0\<rparr>
                                # replicate 5 (sampleAsteroid CHUNK 690 0 2 0),
                 effects := [SetThrust False, SetLaser False, SetTractor False,
                             PlayExplosion ''large'', PlayExplosion ''large'']\<rparr>"
    by (subst mineStep_detonate)
       (simp_all add: dockClearWorld_def sample_defs blastAsteroid_def blastHit_def blastShip_def
         breakAsteroid_def spawnFragments_half distance_def emit_def Let_def constants
         sqrt_less_iff power_divide)
  have "fold (mineStep halfDraws) [0..<length (mines ?b)] ?b = mineStep halfDraws 0 ?b"
    by (simp add: dockClearWorld_def)
  then have 3: "minePhase halfDraws ?b = ?c"
    unfolding minePhase_def Let_def 2
    by (simp add: dockClearWorld_def sample_defs)
  have 4: "asteroidPhase ?c = (0, ?e)"
    by (simp add: asteroidPhase_def upt5 replicate5 dockClearWorld_def sample_defs step_defs
        power_divide)
  show ?thesis
    unfolding update_PLAYING [OF pl] 1 3 4 fst_conv snd_conv dockTick1_def
    by (simp add: end_defs dockClearWorld_def sample_defs power_divide)
qed

lemma quiet_front_shaking:
  assumes "keysPressed w = {}" and "\<not> down (mouse w)" and "\<not> rightDown (mouse w)"
    and "sqrt (vx (ship w) * vx (ship w) + vy (ship w) * vy (ship w))
           \<le> MAX_SPEED + real (engineLevel (upgrades w)) * (5 / 10)"
  shows "tractorBeam rnd (miningLaser rnd (cameraFollow (shipControls (shakeDecay w)))) =
     w\<lparr>shake := shake (shakeDecay w),
       ship := applyFriction ((ship w)\<lparr>thrusting := False\<rparr>),
       camera := (camera w)
         \<lparr>cam_x := px (applyFriction (ship w)) - (screen_width w / 2) / zoom (camera w),
          cam_y := py (applyFriction (ship w)) - (screen_height w / 2) / zoom (camera w)\<rparr>,
       laser := (laser w)\<lparr>active := False\<rparr>,
       effects := effects w @ [SetThrust False, SetLaser False, SetTractor False]\<rparr>"
proof -
  have k: "keysPressed (shakeDecay w) = {}"
    using assms(1) by (simp add: shakeDecay_eq)
  have v: "sqrt (vx (ship (shakeDecay w)) * vx (ship (shakeDecay w))
             + vy (ship (shakeDecay w)) * vy (ship (shakeDecay w)))
           \<le> MAX_SPEED + real (engineLevel (upgrades (shakeDecay w))) * (5 / 10)"
    using assms(4) by (simp add: shakeDecay_eq)
  show ?thesis
    unfolding quiet_controls [OF k v]
    by (subst quiet_beams) (simp_all add: shakeDecay_eq assms)
qed

lemma dock_frame1: "frame halfDraws dockClearWorld = dockTick1\<lparr>gameState := DOCKED, prevGameState := DOCKED, effects := []\<rparr>"
  unfolding frame_def Let_def dock_update1
  by (simp add: dockTick1_def dockClearWorld_def resetEffect_def phaseAfter_def Let_def)

lemma dock_undock: "handleUndock halfDraws (frame halfDraws dockClearWorld) = dockUndocked"
  unfolding dock_frame1
  by (simp add: handleUndock_def resetEffect_def Let_def dockUndocked_def dockTick1_def
      dockClearWorld_def sample_defs)

lemma dock_update2: "update halfDraws dockUndocked = dockTick2"
proof -
  let ?b = "dockUndocked
       \<lparr>ship := initialShip\<lparr>px := 170498 / 1000, vx := 588 / 100, angle := 0\<rparr>,
        camera := \<lparr>cam_x = - (329502 / 1000), cam_y = - 375, zoom = 8 / 10\<rparr>,
        shake := 45 / 2,
        effects := [SetThrust False, SetLaser False, SetTractor False]\<rparr>"
  let ?e = "?b\<lparr>asteroids := replicate 5 (sampleAsteroid CHUNK (69398 / 100) 0 (19602 / 10000) 0)\<rparr>"
  have pl: "gameState dockUndocked = PLAYING"
    by (simp add: dockUndocked_def dockTick1_def dockClearWorld_def)
  have r: "sqrt 36 = 6" using sqrt_sq_pos [of 6] by simp
  have 1: "tractorBeam halfDraws (miningLaser halfDraws
             (cameraFollow (shipControls (shakeDecay dockUndocked)))) = ?b"
    by (subst quiet_front_shaking)
       (simp_all add: dockUndocked_def dockTick1_def dockClearWorld_def sample_defs
         applyFriction_def shakeDecay_def Let_def MAX_SPEED_def FRICTION_def r)
  have 3: "minePhase halfDraws ?b = ?b"
    by (subst minePhase_no_mines)
       (simp_all add: dockUndocked_def dockTick1_def dockClearWorld_def sample_defs)
  have 4: "asteroidPhase ?b = (0, ?e)"
    by (simp add: asteroidPhase_def upt5 replicate5 dockUndocked_def dockTick1_def
        dockClearWorld_def sample_defs step_defs power_divide)
  show ?thesis
    unfolding update_PLAYING [OF pl] 1 3 4 fst_conv snd_conv dockTick2_def
    by (simp add: end_defs dockUndocked_def dockTick1_def dockClearWorld_def sample_defs
        power_divide)
qed

section \<open>Speed cap\<close>



section \<open>Invulnerability\<close>

text \<open>
  Claim C6. While the game is PLAYING and the invulnerability timer is positive, each
  tick lowers the timer by exactly one and leaves hull and shield as they are: after
  \<open>k\<close> ticks, \<open>k\<close> at most the timer's value, the timer has dropped by \<open>k\<close> and hull
  and shield are unchanged. The timer never becomes negative afterwards. With a positive
  timer neither the collision with an asteroid (\<open>collide\<close>) nor the blast of a mine
  (\<open>blastShip\<close>) changes hull or shield.
\<close>

theorem invulnerability_window:
  assumes "gameState w = PLAYING" and "0 < invulnerableTimer (ship w)"
    and "int k \<le> invulnerableTimer (ship w)"
  shows "invulnerableTimer (ship ((update rnd ^^ k) w)) = invulnerableTimer (ship w) - int k
         \<and> hull_pts (ship ((update rnd ^^ k) w)) = hull_pts (ship w)
         \<and> shield (ship ((update rnd ^^ k) w)) = shield (ship w)
         \<and> 0 \<le> invulnerableTimer (ship ((update rnd ^^ (k + j)) w))
         \<and> hull_pts (ship (collide i w)) = hull_pts (ship w)
         \<and> shield (ship (collide i w)) = shield (ship w)
         \<and> hull_pts (ship (blastShip m w)) = hull_pts (ship w)
         \<and> shield (ship (blastShip m w)) = shield (ship w)"
proof -
  have a: "0 \<le> invulnerableTimer (ship ((update rnd ^^ (k + j)) w))"
    using assms(2) by (intro ticks_timer_nonneg) simp
  have c: "hull_pts (ship (collide i w)) = hull_pts (ship w)
           \<and> shield (ship (collide i w)) = shield (ship w)"
    using safeStep_collide [of w i] assms(2) by (simp add: safeStep_def)
  have b: "hull_pts (ship (blastShip m w)) = hull_pts (ship w)
           \<and> shield (ship (blastShip m w)) = shield (ship w)"
    using safeStep_blastShip [of w m] assms(2) by (simp add: safeStep_def)
  show ?thesis
    using ticks_invulnerable [OF assms(1) assms(3), of rnd] a b c by simp
qed

theorem invulnerability_window_witness:
  "gameState invulnerableWorld = PLAYING \<and> 0 < invulnerableTimer (ship invulnerableWorld)
   \<and> invulnerableTimer (ship ((update halfDraws ^^ 60) invulnerableWorld)) = 0
   \<and> hull_pts (ship ((update halfDraws ^^ 60) invulnerableWorld)) = 100
   \<and> shield (ship ((update halfDraws ^^ 60) invulnerableWorld)) = 0
   \<and> 0 \<le> invulnerableTimer (ship ((update halfDraws ^^ 61) invulnerableWorld))
   \<and> hull_pts (ship (collide 0 invulnerableWorld)) = 100
   \<and> hull_pts (ship (blastShip (sampleMine 1000 0 0 DETONATING) invulnerableWorld)) = 100"
proof -
  have h: "gameState invulnerableWorld = PLAYING" "0 < invulnerableTimer (ship invulnerableWorld)"
      "int 60 \<le> invulnerableTimer (ship invulnerableWorld)"
    by (simp_all add: invulnerableWorld_def sample_defs)
  have v: "invulnerableTimer (ship invulnerableWorld) = 60" "hull_pts (ship invulnerableWorld) = 100"
      "shield (ship invulnerableWorld) = 0"
    by (simp_all add: invulnerableWorld_def sample_defs)
  show ?thesis
    using h invulnerability_window [OF h, where rnd = halfDraws and j = 1 and i = 0
        and m = "sampleMine 1000 0 0 DETONATING"]
    unfolding v by simp
qed

section \<open>Ship bounds\<close>

text \<open>
  Claim C1, as amended. If \<open>hull \<le> maxHull\<close>, \<open>0 \<le> shield \<le> maxShield\<close> and
  \<open>0 \<le> cargo \<le> maxCargo\<close> hold before a tick, they hold after it. (The lower bound
  \<open>0 \<le> hull\<close> is not kept: damage is subtracted from the hull as it is.)
\<close>

theorem ship_bounds_preserved:
  assumes "hull_pts (ship w) \<le> maxHull (ship w)"
    and "0 \<le> shield (ship w)" and "shield (ship w) \<le> maxShield (ship w)"
    and "0 \<le> cargo (ship w)" and "cargo (ship w) \<le> maxCargo (ship w)"
  shows "hull_pts (ship (update rnd w)) \<le> maxHull (ship (update rnd w))
         \<and> 0 \<le> shield (ship (update rnd w))
         \<and> shield (ship (update rnd w)) \<le> maxShield (ship (update rnd w))
         \<and> 0 \<le> cargo (ship (update rnd w))
         \<and> cargo (ship (update rnd w)) \<le> maxCargo (ship (update rnd w))"
proof (cases "gameState w = PLAYING")
  case True
  show ?thesis
    unfolding update_PLAYING [OF True] endOfTick_ship
    using safeStep_beforeEnd [of w _ rnd] assms
    by (auto simp add: safeStep_def)
next
  case False
  then show ?thesis using assms by (simp add: update_idle)
qed

theorem ship_bounds_preserved_witness:
  "hull_pts (ship volatileWorld) \<le> maxHull (ship volatileWorld)
   \<and> 0 \<le> shield (ship volatileWorld) \<and> shield (ship volatileWorld) \<le> maxShield (ship volatileWorld)
   \<and> 0 \<le> cargo (ship volatileWorld) \<and> cargo (ship volatileWorld) \<le> maxCargo (ship volatileWorld)
   \<and> hull_pts (ship (update halfDraws volatileWorld)) \<le> maxHull (ship (update halfDraws volatileWorld))
   \<and> 0 \<le> shield (ship (update halfDraws volatileWorld))
   \<and> shield (ship (update halfDraws volatileWorld)) \<le> maxShield (ship (update halfDraws volatileWorld))
   \<and> 0 \<le> cargo (ship (update halfDraws volatileWorld))
   \<and> cargo (ship (update halfDraws volatileWorld)) \<le> maxCargo (ship (update halfDraws volatileWorld))"
proof -
  have h: "hull_pts (ship volatileWorld) \<le> maxHull (ship volatileWorld)"
      "0 \<le> shield (ship volatileWorld)" "shield (ship volatileWorld) \<le> maxShield (ship volatileWorld)"
      "0 \<le> cargo (ship volatileWorld)" "cargo (ship volatileWorld) \<le> maxCargo (ship volatileWorld)"
    by (simp_all add: volatileWorld_def sample_defs)
  show ?thesis
    using h ship_bounds_preserved [OF h, of halfDraws] by simp
qed

theorem hull_negative_counterexample:
  "gameState volatileWorld = PLAYING
   \<and> 0 \<le> hull_pts (ship volatileWorld)
   \<and> hull_pts (ship volatileWorld) \<le> maxHull (ship volatileWorld)
   \<and> 0 \<le> shield (ship volatileWorld)
   \<and> shield (ship volatileWorld) \<le> maxShield (ship volatileWorld)
   \<and> 0 \<le> cargo (ship volatileWorld)
   \<and> cargo (ship volatileWorld) \<le> maxCargo (ship volatileWorld)
   \<and> hull_pts (ship (update halfDraws volatileWorld)) = - 50
   \<and> \<not> 0 \<le> hull_pts (ship (update halfDraws volatileWorld))"
  unfolding volatile_update by (simp add: volatileWorld_def sample_defs)

section \<open>Game over\<close>



section \<open>Mine countdown\<close>

text \<open>
  Claim C7, evaluated on the code. A mine dropped with timer 180 is followed through the
  ticks that run in PLAYING. In tick 120 the timer reaches 60 and the pucker cue is given
  (once: the count is 0 after tick 119 and 1 from tick 120 on), but the state is still
  ARMED, because the state changes only when the timer is strictly below
  \<open>MINE_PUCKER_DURATION\<close>; it becomes PUCKER in tick 121, at timer 59. In tick 180 the
  timer reaches 0 and the mine is gone from the mine list at the end of that same tick.
\<close>

theorem pucker_state_lags_cue:
  "mines mineWorld = [sampleMine 1000 0 180 ARMED]
   \<and> mines ((update halfDraws ^^ 119) mineWorld) = [sampleMine 1000 0 61 ARMED]
   \<and> puckerCues ((update halfDraws ^^ 119) mineWorld) = 0
   \<and> mines ((update halfDraws ^^ 120) mineWorld) = [sampleMine 1000 0 60 ARMED]
   \<and> puckerCues ((update halfDraws ^^ 120) mineWorld) = 1
   \<and> mines ((update halfDraws ^^ 121) mineWorld) = [sampleMine 1000 0 59 PUCKER]
   \<and> puckerCues ((update halfDraws ^^ 121) mineWorld) = 1
   \<and> mines ((update halfDraws ^^ 179) mineWorld) = [sampleMine 1000 0 1 PUCKER]
   \<and> mines ((update halfDraws ^^ 180) mineWorld) = []
   \<and> puckerCues ((update halfDraws ^^ 180) mineWorld) = 1"
proof -
  have t: "timer (sampleMine 1000 0 180 ARMED) = 180" "state (sampleMine 1000 0 180 ARMED) = ARMED"
    by (simp_all add: sampleMine_def)
  note c = countdown [OF mineWorld_start(1) mineWorld_mines t, where rnd = halfDraws]
  show ?thesis
    using c [where n = 119] c [where n = 120] c [where n = 121] c [where n = 179]
      c [where n = 180]
    by (simp add: mineWorld_mines mineWorld_start sampleMine_def)
qed

section \<open>Removal of asteroids without hit points\<close>

text \<open>
  Claim C8, evaluated on the code. The ship picks up an ORE: the tick gives the pickup
  cue and raises the cargo, and sets the hit points of the ORE to 0, but the ORE is still
  in the asteroid array when the tick is over, since the filter of the tick runs before
  the collision step. The filter of the next tick removes it.
\<close>

theorem pickup_lingers:
  "asteroids (update halfDraws oreWorld)
     = [(sampleAsteroid ORE 1000 0 0 0)\<lparr>hp := 0\<rparr>, sampleAsteroid TITAN 3000 0 0 0]
   \<and> hp (asteroids (update halfDraws oreWorld) ! 0) = 0
   \<and> cargo (ship (update halfDraws oreWorld)) = 1
   \<and> PlayPickup \<in> set (effects (update halfDraws oreWorld))
   \<and> asteroids (update halfDraws (update halfDraws oreWorld)) = [sampleAsteroid TITAN 3000 0 0 0]"
  unfolding ore_update2 unfolding ore_update by simp

section \<open>Mining laser\<close>

text \<open>
  Claim C5, evaluated on the code. The pointer is held down; a CHUNK lies exactly in the
  aim direction, its centre 260 from the ship: it is of an eligible tier, within
  \<open>LASER_RANGE + radius = 275\<close> of the ship and in the cone, and it is the only candidate.
  The tick leaves it with its 50 hit points: the search starts with
  \<open>closestDist = LASER_RANGE\<close> and takes a candidate only when its distance is below
  \<open>closestDist\<close>, so a candidate whose centre is 250 or more away is never chosen. The
  same CHUNK at distance 240 is hit (50 - 1.5 hit points are left).
\<close>

theorem laser_misses_rim:
  "down (mouse laserWorld)
   \<and> tier (asteroids laserWorld ! 0) = CHUNK
   \<and> distance (ship laserWorld) (asteroids laserWorld ! 0)
        < LASER_RANGE + radius (asteroids laserWorld ! 0)
   \<and> atan2 (py (asteroids laserWorld ! 0) - py (ship laserWorld))
            (px (asteroids laserWorld ! 0) - px (ship laserWorld))
        = atan2 (mouse_y (mouse laserWorld) - screen_height laserWorld / 2)
                (mouse_x (mouse laserWorld) - screen_width laserWorld / 2)
   \<and> asteroids (update halfDraws laserWorld) = asteroids laserWorld
   \<and> hp (asteroids (update halfDraws laserWorld) ! 0) = 50
   \<and> hp (asteroids laserNearWorld ! 0) = 50
   \<and> hp (asteroids (update halfDraws laserNearWorld) ! 0) = 97 / 2"
  unfolding laser_update laserNear_update
  by (simp add: laserNearWorld_def laserWorld_def sample_defs distance_def atan2_def constants
      sqrt_less_iff)

section \<open>Sector completion\<close>

text \<open>
  Claim C2, evaluated on the code. In \<open>dockClearWorld\<close> the last TITAN of sector 1 is
  destroyed by a mine in the very tick in which the ship comes to rest in docking range.
  The tick calls \<open>onSectorCleared\<close> (100 percent, 0 ore) and then \<open>setGameState(DOCKED)\<close>;
  the later call decides, and the next phase is DOCKED. After the undocking the game is
  PLAYING again in the same sector, with the same field and the same initial count, and
  the next tick calls \<open>onSectorCleared\<close> a second time.
\<close>

theorem sector_cleared_twice:
  "gameState dockClearWorld = PLAYING
   \<and> sector dockClearWorld = prevSector dockClearWorld
   \<and> count_list (effects (update halfDraws dockClearWorld)) (OnSectorCleared 100 0) = 1
   \<and> gameState (frame halfDraws dockClearWorld) = DOCKED
   \<and> gameState (handleUndock halfDraws (frame halfDraws dockClearWorld)) = PLAYING
   \<and> sector (handleUndock halfDraws (frame halfDraws dockClearWorld)) = sector dockClearWorld
   \<and> prevSector (handleUndock halfDraws (frame halfDraws dockClearWorld))
        = prevSector dockClearWorld
   \<and> levelInitialAsteroids (handleUndock halfDraws (frame halfDraws dockClearWorld))
        = levelInitialAsteroids dockClearWorld
   \<and> effects (handleUndock halfDraws (frame halfDraws dockClearWorld)) = []
   \<and> count_list (effects (update halfDraws (handleUndock halfDraws (frame halfDraws dockClearWorld))))
        (OnSectorCleared 100 0) = 1
   \<and> gameState (frame halfDraws (handleUndock halfDraws (frame halfDraws dockClearWorld)))
        = SECTOR_CLEARED"
proof -
  have f1: "gameState (frame halfDraws dockClearWorld) = DOCKED"
    unfolding dock_frame1 by simp
  have f2: "gameState (frame halfDraws dockUndocked) = SECTOR_CLEARED"
    unfolding gameState_frame dock_update2
    by (simp add: dockTick2_def dockUndocked_def dockTick1_def dockClearWorld_def phaseAfter_def)
  show ?thesis
    unfolding dock_undock f1 f2 dock_update1 dock_update2
    by (simp add: dockTick2_def dockUndocked_def dockTick1_def dockClearWorld_def sample_defs)
qed

section \<open>What each phase does to the asteroid array\<close>

text \<open>
  The lemmas of this section follow the asteroid array through the tick: the steps
  before the laser leave it alone; the laser, the tractor beam, the mines and the
  asteroid loop change it as \<open>laserOutcome\<close>, \<open>tractorOutcome\<close>, \<open>minesRun\<close> and
  \<open>asteroidsMoved\<close> say; the steps after the asteroid loop leave it alone.
\<close>

lemma asteroids_simple [simp]:
  "asteroids (emit e w) = asteroids w"
  "asteroids (shakeDecay w) = asteroids w"
  "asteroids (thrust w) = asteroids w"
  "asteroids (reverseThrust w) = asteroids w"
  "asteroids (spaceBrake w) = asteroids w"
  "asteroids (rotate w) = asteroids w"
  "asteroids (cameraFollow w) = asteroids w"
  "asteroids (sectorCheck n w) = asteroids w"
  "asteroids (docking w) = asteroids w"
  "asteroids (endOfTick w) = asteroids w"
  by (simp_all add: emit_def shakeDecay_def thrust_def reverseThrust_def spaceBrake_def rotate_def
      cameraFollow_def sectorCheck_def docking_def endOfTick_def Let_def)

lemma asteroids_shipControls [simp]: "asteroids (shipControls w) = asteroids w"
  by (simp add: shipControls_def Let_def)

lemma tier_blastHit [simp]: "tier (blastHit m a) = tier a"
  by (simp add: blastHit_def Let_def)

lemma breakAsteroid_fragmentsOf:
  "\<exists>new. asteroids (breakAsteroid rnd ast ix iy w) = asteroids w @ new
          \<and> fragmentsOf (tier ast) new"
proof (cases "tier ast")
  case TITAN
  show ?thesis
    using spawnFragments_asteroids [where rnd = rnd and t = CHUNK and off = 10 and lo = 1
        and hi = 4 and ast = ast and ix = ix and iy = iy and n = 5
        and w = "emit (PlayExplosion ''large'') w"]
    by (auto simp add: breakAsteroid_def TITAN emit_def fragmentsOf_def)
next
  case CHUNK
  show ?thesis
    using spawnFragments_asteroids [where rnd = rnd and t = ORE and off = 5 and lo = 2
        and hi = 5 and ast = ast and ix = ix and iy = iy and n = 10
        and w = "emit (PlayExplosion ''small'') w"]
    by (auto simp add: breakAsteroid_def CHUNK emit_def fragmentsOf_def)
next
  case ORE
  show ?thesis by (simp add: breakAsteroid_def ORE fragmentsOf_def)
next
  case VOLATILE
  show ?thesis
    using spawnFragments_asteroids [where rnd = rnd and t = CHUNK and off = 10 and lo = 8
        and hi = 14 and ast = ast and ix = ix and iy = iy and n = 8
        and w = "(emit (PlayExplosion ''large'') w)\<lparr>shake := shake w + 15\<rparr>"]
    by (auto simp add: breakAsteroid_def VOLATILE emit_def fragmentsOf_def)
qed

lemma blastAsteroid_outcome:
  assumes "i < length (asteroids w)"
  shows "\<exists>new. asteroids (blastAsteroid rnd m i w)
              = (asteroids w)[i := blastHit m (asteroids w ! i)] @ new
          \<and> (if blastKills m (asteroids w ! i) then fragmentsOf (tier (asteroids w ! i)) new
             else new = [])"
proof -
  let ?a = "asteroids w ! i"
  have n: "\<not> distance m ?a < MINE_BLAST_RADIUS \<Longrightarrow> blastHit m ?a = ?a"
    by (simp add: blastHit_def Let_def)
  show ?thesis
  proof (cases "distance m ?a < MINE_BLAST_RADIUS")
    case False
    then have "\<not> blastKills m ?a" by (simp add: blastKills_def n)
    then show ?thesis using False by (simp add: blastAsteroid_def Let_def n)
  next
    case True
    show ?thesis
    proof (cases "blastKills m ?a")
      case False
      then show ?thesis using True by (auto simp add: blastAsteroid_def blastKills_def Let_def)
    next
      case b: True
      obtain new where
        "asteroids (breakAsteroid rnd (blastHit m ?a)
           (cos (atan2 (py ?a - py m) (px ?a - px m))
              * (MINE_BLAST_FORCE * (1 - distance m ?a / MINE_BLAST_RADIUS)))
           (sin (atan2 (py ?a - py m) (px ?a - px m))
              * (MINE_BLAST_FORCE * (1 - distance m ?a / MINE_BLAST_RADIUS)))
           (w\<lparr>asteroids := (asteroids w)[i := blastHit m ?a]\<rparr>))
         = asteroids (w\<lparr>asteroids := (asteroids w)[i := blastHit m ?a]\<rparr>) @ new"
        and "fragmentsOf (tier (blastHit m ?a)) new"
        using breakAsteroid_fragmentsOf by blast
      then show ?thesis using True b by (auto simp add: blastAsteroid_def blastKills_def Let_def)
    qed
  qed
qed

lemma blast_fold_blocks:
  "k \<le> length (asteroids w) \<Longrightarrow>
     \<exists>blocks. length blocks = k
       \<and> asteroids (fold (blastAsteroid rnd m) [0..<k] w)
            = map (blastHit m) (take k (asteroids w)) @ drop k (asteroids w) @ concat blocks
       \<and> (\<forall>i<k. if blastKills m (asteroids w ! i)
                 then fragmentsOf (tier (asteroids w ! i)) (blocks ! i)
                 else blocks ! i = [])"
proof (induction k)
  case 0
  show ?case by simp
next
  case (Suc k)
  let ?xs = "asteroids w"
  let ?w' = "fold (blastAsteroid rnd m) [0..<k] w"
  have k: "k < length ?xs" using Suc.prems by simp
  obtain blocks where lb: "length blocks = k"
    and ih: "asteroids ?w' = map (blastHit m) (take k ?xs) @ drop k ?xs @ concat blocks"
    and fr: "\<forall>i<k. if blastKills m (?xs ! i) then fragmentsOf (tier (?xs ! i)) (blocks ! i)
                    else blocks ! i = []"
    using Suc by auto
  have len: "k < length (asteroids ?w')" using k by (simp add: ih)
  have n: "asteroids ?w' ! k = ?xs ! k" using k by (simp add: ih nth_append)
  obtain new where
    st: "asteroids (blastAsteroid rnd m k ?w')
           = (asteroids ?w')[k := blastHit m (?xs ! k)] @ new"
    and fn: "if blastKills m (?xs ! k) then fragmentsOf (tier (?xs ! k)) new else new = []"
    using blastAsteroid_outcome [OF len, of rnd m] unfolding n by blast
  have "(asteroids ?w')[k := blastHit m (?xs ! k)]
          = map (blastHit m) (take k ?xs) @ (drop k ?xs @ concat blocks)[0 := blastHit m (?xs ! k)]"
    using k by (simp add: ih list_update_append)
  also have "\<dots> = map (blastHit m) (take k ?xs) @ blastHit m (?xs ! k) # drop (Suc k) ?xs @ concat blocks"
    using k by (simp add: Cons_nth_drop_Suc [symmetric])
  also have "\<dots> = map (blastHit m) (take (Suc k) ?xs) @ drop (Suc k) ?xs @ concat blocks"
    using k by (simp add: take_Suc_conv_app_nth)
  finally have eq: "asteroids (fold (blastAsteroid rnd m) [0..<Suc k] w)
          = map (blastHit m) (take (Suc k) ?xs) @ drop (Suc k) ?xs @ concat (blocks @ [new])"
    using st by simp
  have all: "\<forall>i<Suc k. if blastKills m (?xs ! i)
                 then fragmentsOf (tier (?xs ! i)) ((blocks @ [new]) ! i)
                 else (blocks @ [new]) ! i = []"
    using fr fn lb by (auto simp add: nth_append less_Suc_eq)
  have "length (blocks @ [new]) = Suc k" using lb by simp
  then show ?case using eq all by blast
qed

lemma blast_fold_outcome:
  "blastOutcome m (asteroids w)
     (asteroids (fold (blastAsteroid rnd m) [0..<length (asteroids w)] w))"
  using blast_fold_blocks [of "length (asteroids w)" w rnd m]
  by (auto simp add: blastOutcome_def)

lemma asteroids_puckerAsteroid:
  "asteroids (puckerAsteroid m j w) = (asteroids w)[j := puckerPull m (asteroids w ! j)]"
  by (simp add: puckerAsteroid_def puckerPull_def Let_def)

lemma pucker_fold:
  "asteroids (fold (puckerAsteroid m) [0..<length (asteroids w)] w)
     = map (puckerPull m) (asteroids w)"
  using fold_list_update_map [where g = asteroids and f = "puckerAsteroid m"
      and h = "puckerPull m" and k = "length (asteroids w)" and w = w,
      OF asteroids_puckerAsteroid]
  by simp

lemma mineStep_outcome:
  "mineOutcome (mines w ! j) (asteroids w) (asteroids (mineStep rnd j w))"
proof -
  let ?m0 = "mines w ! j"
  consider (blast) "timer ?m0 - 1 \<le> 0"
    | (pucker) "0 < timer ?m0 - 1" "timer ?m0 - 1 < MINE_PUCKER_DURATION"
    | (armed) "MINE_PUCKER_DURATION \<le> timer ?m0 - 1" "0 < timer ?m0 - 1"
    by (cases "timer ?m0 - 1 \<le> 0"; cases "timer ?m0 - 1 < MINE_PUCKER_DURATION") auto
  then show ?thesis
  proof cases
    case blast
    then have t: "timer ?m0 \<le> 1" by simp
    have md: "mineTick ?m0 = ?m0\<lparr>timer := timer ?m0 - 1, state := DETONATING\<rparr>"
      using blast by (simp add: mineTick_def Let_def MINE_PUCKER_DURATION_def)
    show ?thesis
      unfolding mineStep_detonate [OF t] md [symmetric]
      using blast
        blast_fold_outcome [of "mineTick ?m0"
          "w\<lparr>mines := (mines w)[j := mineTick ?m0],
             effects := effects w @ [PlayExplosion ''large''], shake := 25\<rparr>" rnd]
      by (simp add: mineOutcome_def)
  next
    case pucker
    have mp: "mineTick ?m0 = ?m0\<lparr>timer := timer ?m0 - 1, state := PUCKER\<rparr>"
      using pucker by (simp add: mineTick_def Let_def)
    have ne: "timer ?m0 - 1 \<noteq> MINE_PUCKER_DURATION" using pucker by simp
    have "asteroids (mineStep rnd j w) = map (puckerPull (mineTick ?m0)) (asteroids w)"
      unfolding mp
      using pucker ne
        pucker_fold [of "?m0\<lparr>timer := timer ?m0 - 1, state := PUCKER\<rparr>"
          "w\<lparr>mines := (mines w)[j := ?m0\<lparr>timer := timer ?m0 - 1, state := PUCKER\<rparr>]\<rparr>"]
      by (simp add: mineStep_def Let_def)
    then show ?thesis using pucker by (simp add: mineOutcome_def)
  next
    case armed
    then have "asteroids (mineStep rnd j w) = asteroids w"
      by (simp add: mineStep_def Let_def)
    then show ?thesis using armed by (simp add: mineOutcome_def)
  qed
qed

lemma minesRun_snoc:
  "minesRun (ms @ [m]) xs ys \<longleftrightarrow> (\<exists>zs. minesRun ms xs zs \<and> mineOutcome m zs ys)"
  by (induction ms arbitrary: xs) auto

lemma mines_fold_mineStep:
  "k \<le> length (mines w) \<Longrightarrow>
     mines (fold (mineStep rnd) [0..<k] w) = map mineTick (take k (mines w)) @ drop k (mines w)"
  using fold_list_update_map [where g = mines and f = "mineStep rnd" and h = mineTick
      and k = k and w = w, OF mines_mineStep]
  by simp

lemma mine_fold_run:
  "k \<le> length (mines w) \<Longrightarrow>
     minesRun (take k (mines w)) (asteroids w) (asteroids (fold (mineStep rnd) [0..<k] w))"
proof (induction k)
  case 0
  show ?case by simp
next
  case (Suc k)
  let ?w' = "fold (mineStep rnd) [0..<k] w"
  have k: "k < length (mines w)" using Suc.prems by simp
  have ih: "minesRun (take k (mines w)) (asteroids w) (asteroids ?w')" using Suc by simp
  have n: "mines ?w' ! k = mines w ! k"
    using k by (simp add: mines_fold_mineStep nth_append)
  have st: "mineOutcome (mines w ! k) (asteroids ?w') (asteroids (mineStep rnd k ?w'))"
    using mineStep_outcome [of ?w' k rnd] unfolding n .
  show ?case
    using k ih st by (auto simp add: take_Suc_conv_app_nth minesRun_snoc)
qed

lemma minePhase_run:
  "\<exists>zs. minesRun (mines w) (asteroids w) zs
         \<and> asteroids (minePhase rnd w) = filter (\<lambda>a. 0 < hp a) zs"
  using mine_fold_run [of "length (mines w)" w rnd]
  by (auto simp add: minePhase_def Let_def)

lemma blastOutcome_map: "blastOutcome m xs ys \<Longrightarrow> \<exists>sp. ys = map (blastHit m) xs @ sp"
  by (auto simp add: blastOutcome_def)

lemma blastOutcome_quiet:
  assumes "blastOutcome m xs ys" and "\<forall>a\<in>set xs. \<not> blastKills m a"
  shows "ys = map (blastHit m) xs"
proof -
  obtain blocks where l: "length blocks = length xs"
    and e: "ys = map (blastHit m) xs @ concat blocks"
    and b: "\<forall>i<length xs. if blastKills m (xs ! i) then fragmentsOf (tier (xs ! i)) (blocks ! i)
                            else blocks ! i = []"
    using assms(1) by (auto simp add: blastOutcome_def)
  have "\<forall>i<length blocks. blocks ! i = []"
    using b l assms(2) by (auto simp add: all_set_conv_all_nth)
  then have "concat blocks = []"
    by (simp add: all_set_conv_all_nth)
  then show ?thesis using e by simp
qed

lemma mineOutcome_map:
  assumes "mineOutcome m xs ys"
  shows "\<exists>sp. ys = map (mineAct m) xs @ sp"
proof -
  consider (blast) "timer m - 1 \<le> 0"
    | (pucker) "\<not> timer m - 1 \<le> 0" "timer m - 1 < MINE_PUCKER_DURATION"
    | (armed) "\<not> timer m - 1 \<le> 0" "\<not> timer m - 1 < MINE_PUCKER_DURATION"
    by blast
  then show ?thesis
  proof cases
    case blast
    then have "mineAct m = blastHit (mineTick m)" by (simp add: mineAct_def fun_eq_iff)
    then show ?thesis using assms blast blastOutcome_map by (simp add: mineOutcome_def)
  next
    case pucker
    then have "mineAct m = puckerPull (mineTick m)" by (simp add: mineAct_def fun_eq_iff)
    then show ?thesis using assms pucker by (simp add: mineOutcome_def)
  next
    case armed
    then have "mineAct m = (\<lambda>a. a)" by (simp add: mineAct_def fun_eq_iff)
    then show ?thesis using assms armed by (simp add: mineOutcome_def)
  qed
qed

lemma minesRun_map:
  "minesRun ms xs ys \<Longrightarrow> \<exists>sp. ys = map (\<lambda>a. fold mineAct ms a) xs @ sp"
proof (induction ms arbitrary: xs)
  case Nil
  then show ?case by simp
next
  case (Cons m ms)
  then obtain zs where o: "mineOutcome m xs zs" and r: "minesRun ms zs ys" by auto
  obtain sp1 where 1: "zs = map (mineAct m) xs @ sp1" using mineOutcome_map [OF o] by blast
  obtain sp2 where 2: "ys = map (\<lambda>a. fold mineAct ms a) zs @ sp2" using Cons.IH [OF r] by blast
  have "ys = map (\<lambda>a. fold mineAct (m # ms) a) xs @ (map (\<lambda>a. fold mineAct ms a) sp1 @ sp2)"
    unfolding 2 1 by simp
  then show ?case by blast
qed

lemma minePhase_asteroids:
  "\<exists>sp. asteroids (minePhase rnd w)
          = filter (\<lambda>a. 0 < hp a) (map (\<lambda>a. fold mineAct (mines w) a) (asteroids w) @ sp)"
proof -
  obtain zs where r: "minesRun (mines w) (asteroids w) zs"
    and e: "asteroids (minePhase rnd w) = filter (\<lambda>a. 0 < hp a) zs"
    using minePhase_run by blast
  obtain sp where "zs = map (\<lambda>a. fold mineAct (mines w) a) (asteroids w) @ sp"
    using minesRun_map [OF r] by blast
  then show ?thesis using e by blast
qed

lemma laserHits_CHUNK: "laserHits s aim d ast \<Longrightarrow> tier ast = CHUNK"
  by (cases "tier ast") (simp_all add: laserHits_def)

lemma laserScan_bound:
  "laserScan s aim xs i (c, cd) = (Some j, d) \<Longrightarrow>
     c = Some j \<or> (i \<le> j \<and> j < i + length xs \<and> tier (xs ! (j - i)) = CHUNK)"
proof (induction xs arbitrary: i c cd)
  case Nil
  then show ?case by simp
next
  case (Cons ast rest)
  show ?case
  proof (cases "laserHits s aim cd ast")
    case True
    then have "laserScan s aim rest (Suc i) (Some i, distance \<lparr>px = px s, py = py s\<rparr> ast) = (Some j, d)"
      using Cons.prems by simp
    from Cons.IH [OF this] laserHits_CHUNK [OF True]
    show ?thesis by (auto simp add: Suc_diff_le)
  next
    case False
    then have "laserScan s aim rest (Suc i) (c, cd) = (Some j, d)"
      using Cons.prems by simp
    from Cons.IH [OF this]
    show ?thesis by (auto simp add: Suc_diff_le)
  qed
qed

lemma laserScan_index:
  "laserScan s aim xs 0 (None, cd) = (Some j, d) \<Longrightarrow> j < length xs \<and> tier (xs ! j) = CHUNK"
  using laserScan_bound [of s aim xs 0 None cd j d] by simp

lemma laserDamage_outcome:
  "\<exists>new. asteroids (laserDamage rnd aim i d w)
            = (asteroids w)[i := (asteroids w ! i)
                 \<lparr>hp := hp (asteroids w ! i) - (1 + real (laserLevel (upgrades w)) * (5 / 10))\<rparr>] @ new
          \<and> (if 0 < hp (asteroids w ! i)
                 \<and> hp (asteroids w ! i) - (1 + real (laserLevel (upgrades w)) * (5 / 10)) \<le> 0
              then fragmentsOf (tier (asteroids w ! i)) new else new = [])"
proof -
  let ?a = "asteroids w ! i"
  let ?a' = "?a\<lparr>hp := hp ?a - (1 + real (laserLevel (upgrades w)) * (5 / 10))\<rparr>"
  let ?w1 = "w\<lparr>asteroids := (asteroids w)[i := ?a'],
                laser := (laser w)\<lparr>laser_length := max 0 (d - radius ?a')\<rparr>\<rparr>"
  show ?thesis
  proof (cases "0 < hp ?a \<and> hp ?a' \<le> 0")
    case False
    then show ?thesis by (auto simp add: laserDamage_def Let_def)
  next
    case True
    obtain new where "asteroids (breakAsteroid rnd ?a' 0 0 ?w1) = asteroids ?w1 @ new"
      and "fragmentsOf (tier ?a') new"
      using breakAsteroid_fragmentsOf by blast
    then show ?thesis using True by (auto simp add: laserDamage_def Let_def)
  qed
qed

lemma miningLaser_outcome: "laserOutcome w (asteroids (miningLaser rnd w))"
proof (cases "down (mouse w)")
  case False
  then show ?thesis by (simp add: laserOutcome_def miningLaser_def Let_def)
next
  case True
  let ?aim = "atan2 (mouse_y (mouse w) - screen_height w / 2) (mouse_x (mouse w) - screen_width w / 2)"
  let ?w1 = "(emit (SetLaser True) (w\<lparr>laser := (laser w)\<lparr>active := False\<rparr>\<rparr>))
               \<lparr>laser := \<lparr>active = True, laser_x = px (ship w), laser_y = py (ship w),
                          laser_length = LASER_RANGE, laser_angle = ?aim\<rparr>\<rparr>"
  obtain c d where sc: "laserScan (ship w) ?aim (asteroids w) 0 (None, LASER_RANGE) = (c, d)"
    by (cases "laserScan (ship w) ?aim (asteroids w) 0 (None, LASER_RANGE)") auto
  have f: "ship (emit (SetLaser True) (w\<lparr>laser := (laser w)\<lparr>active := False\<rparr>\<rparr>)) = ship w"
    "mouse (emit (SetLaser True) (w\<lparr>laser := (laser w)\<lparr>active := False\<rparr>\<rparr>)) = mouse w"
    "screen_width (emit (SetLaser True) (w\<lparr>laser := (laser w)\<lparr>active := False\<rparr>\<rparr>)) = screen_width w"
    "screen_height (emit (SetLaser True) (w\<lparr>laser := (laser w)\<lparr>active := False\<rparr>\<rparr>)) = screen_height w"
    by (simp_all add: emit_def)
  have a1: "asteroids ?w1 = asteroids w" "upgrades ?w1 = upgrades w" by (simp_all add: emit_def)
  show ?thesis
  proof (cases c)
    case None
    then show ?thesis using True sc by (simp add: laserOutcome_def miningLaser_def Let_def f)
  next
    case (Some i)
    have ix: "i < length (asteroids w)" "tier (asteroids w ! i) = CHUNK"
      using laserScan_index [of "ship w" ?aim "asteroids w" LASER_RANGE i d] sc Some by simp_all
    obtain new where
      "asteroids (laserDamage rnd ?aim i d ?w1)
            = (asteroids w)[i := (asteroids w ! i)
                 \<lparr>hp := hp (asteroids w ! i) - (1 + real (laserLevel (upgrades w)) * (5 / 10))\<rparr>] @ new"
      and "if 0 < hp (asteroids w ! i)
                 \<and> hp (asteroids w ! i) - (1 + real (laserLevel (upgrades w)) * (5 / 10)) \<le> 0
              then fragmentsOf CHUNK new else new = []"
      using laserDamage_outcome [of rnd ?aim i d ?w1] unfolding a1 ix(2) by blast
    then show ?thesis
      using True sc Some ix by (auto simp add: laserOutcome_def miningLaser_def Let_def f)
  qed
qed

lemma fold_list_update_rel:
  assumes step: "\<And>j w. j < length (g w) \<Longrightarrow> \<exists>v. g (f j w) = (g w)[j := v] \<and> R (g w ! j) v"
  shows "k \<le> length (g w) \<Longrightarrow>
           \<exists>vs. list_all2 R (take k (g w)) vs \<and> g (fold f [0..<k] w) = vs @ drop k (g w)"
proof (induction k)
  case 0
  show ?case by simp
next
  case (Suc k)
  let ?xs = "g w"
  let ?w' = "fold f [0..<k] w"
  have k: "k < length ?xs" using Suc.prems by simp
  obtain vs where r: "list_all2 R (take k ?xs) vs" and ih: "g ?w' = vs @ drop k ?xs"
    using Suc by auto
  have lv: "length vs = k" using r k by (auto dest: list_all2_lengthD)
  have len: "k < length (g ?w')" using k lv by (simp add: ih)
  have n: "g ?w' ! k = ?xs ! k" using k lv by (simp add: ih nth_append)
  obtain v where st: "g (f k ?w') = (g ?w')[k := v]" and rv: "R (?xs ! k) v"
    using step [OF len] unfolding n by blast
  have "(g ?w')[k := v] = vs @ (drop k ?xs)[0 := v]"
    using lv by (simp add: ih list_update_append)
  also have "\<dots> = vs @ v # drop (Suc k) ?xs"
    using k by (simp add: Cons_nth_drop_Suc [symmetric])
  finally have eq: "g (fold f [0..<Suc k] w) = (vs @ [v]) @ drop (Suc k) ?xs"
    using st by simp
  have "list_all2 R (take (Suc k) ?xs) (vs @ [v])"
    using r rv k by (simp add: take_Suc_conv_app_nth list_all2_appendI)
  then show ?case using eq by blast
qed

lemma asteroids_tractorPull:
  "\<exists>v. asteroids (tractorPull rnd i w) = (asteroids w)[i := v]
       \<and> ((\<exists>a b. v = (asteroids w ! i)\<lparr>vx := a, vy := b\<rparr>)
          \<and> (tier (asteroids w ! i) \<noteq> ORE \<longrightarrow> v = asteroids w ! i))"
proof -
  let ?a = "asteroids w ! i"
  let ?ang = "atan2 (py (ship w) - py ?a) (px (ship w) - px ?a)"
  let ?pulled = "?a\<lparr>vx := vx ?a + cos ?ang * (5 / 10)
                           + randomRange (rnd (draws w)) (- (2 / 10)) (2 / 10),
                     vy := vy ?a + sin ?ang * (5 / 10)
                           + randomRange (rnd (draws w + 1)) (- (2 / 10)) (2 / 10)\<rparr>"
  define v where "v = (if tier ?a = ORE \<and> distance (ship w) ?a < 500 then ?pulled else ?a)"
  have 1: "asteroids (tractorPull rnd i w) = (asteroids w)[i := v]"
    by (simp add: v_def tractorPull_def Let_def)
  have 2: "\<exists>a b. v = ?a\<lparr>vx := a, vy := b\<rparr>"
  proof (cases "tier ?a = ORE \<and> distance (ship w) ?a < 500")
    case True
    then have "v = ?pulled" by (simp add: v_def)
    then show ?thesis by blast
  next
    case False
    then have "v = ?a" unfolding v_def by (simp only: if_False)
    then have "v = ?a\<lparr>vx := vx ?a, vy := vy ?a\<rparr>" by simp
    then show ?thesis by blast
  qed
  have 3: "tier ?a \<noteq> ORE \<longrightarrow> v = ?a" by (simp add: v_def)
  show ?thesis using 1 2 3 by blast
qed

lemma tractorBeam_outcome: "tractorOutcome (asteroids w) (asteroids (tractorBeam rnd w))"
proof (cases "rightDown (mouse w)")
  case False
  have "\<And>a::Asteroid. \<exists>u v. a = a\<lparr>vx := u, vy := v\<rparr>"
  proof -
    fix a :: Asteroid
    have "a = a\<lparr>vx := vx a, vy := vy a\<rparr>" by simp
    then show "\<exists>u v. a = a\<lparr>vx := u, vy := v\<rparr>" by blast
  qed
  then show ?thesis
    using False by (simp add: tractorOutcome_def tractorBeam_def Let_def list_all2_same)
next
  case True
  let ?w0 = "emit (SetTractor True) w"
  have "\<exists>vs. list_all2 (\<lambda>a b. (\<exists>u v. b = a\<lparr>vx := u, vy := v\<rparr>) \<and> (tier a \<noteq> ORE \<longrightarrow> b = a))
               (take (length (asteroids ?w0)) (asteroids ?w0)) vs
            \<and> asteroids (fold (tractorPull rnd) [0..<length (asteroids ?w0)] ?w0)
                = vs @ drop (length (asteroids ?w0)) (asteroids ?w0)"
    by (rule fold_list_update_rel [where g = asteroids]) (use asteroids_tractorPull in blast, simp)
  then show ?thesis
    using True by (auto simp add: tractorOutcome_def tractorBeam_def Let_def)
qed

lemma tier_physics [simp]: "tier (drift (stationShield a)) = tier a"
  by (simp add: drift_def stationShield_def Let_def)

lemma asteroids_asteroidStep:
  assumes "i < length (asteroids (snd tw))"
  shows "\<exists>v. asteroids (snd (asteroidStep i tw)) = (asteroids (snd tw))[i := v]
       \<and> (v = drift (stationShield (asteroids (snd tw) ! i))
          \<or> (tier (asteroids (snd tw) ! i) = ORE
             \<and> v = (drift (stationShield (asteroids (snd tw) ! i)))\<lparr>hp := 0\<rparr>))"
proof -
  let ?w = "snd tw"
  let ?ast = "drift (stationShield (asteroids ?w ! i))"
  define v where "v = (if checkCollision (ship ?w) ?ast \<and> tier ?ast = ORE
                          \<and> cargo (ship ?w) < maxCargo (ship ?w)
                       then ?ast\<lparr>hp := 0\<rparr> else ?ast)"
  have n: "(asteroids ?w)[i := ?ast] ! i = ?ast" using assms by simp
  have c: "asteroids (collide i (?w\<lparr>asteroids := (asteroids ?w)[i := ?ast]\<rparr>))
             = (asteroids ?w)[i := (if tier ?ast = ORE \<and> cargo (ship ?w) < maxCargo (ship ?w)
                                    then ?ast\<lparr>hp := 0\<rparr> else ?ast)]"
    unfolding collide_def Let_def using n by (simp add: emit_def)
  have 1: "asteroids (snd (asteroidStep i tw)) = (asteroids ?w)[i := v]"
    unfolding asteroidStep_def Let_def snd_conv v_def using c by simp
  have 2: "v = ?ast \<or> (tier (asteroids ?w ! i) = ORE \<and> v = ?ast\<lparr>hp := 0\<rparr>)"
    by (simp add: v_def)
  show ?thesis using 1 2 by blast
qed

lemma asteroidPhase_outcome: "asteroidsMoved (asteroids w) (asteroids (snd (asteroidPhase w)))"
proof -
  have "\<exists>vs. list_all2 (\<lambda>a b. b = drift (stationShield a)
                      \<or> (tier a = ORE \<and> b = (drift (stationShield a))\<lparr>hp := 0\<rparr>))
               (take (length (asteroids w)) (asteroids (snd (0::int, w)))) vs
            \<and> asteroids (snd (fold asteroidStep [0..<length (asteroids w)] (0, w)))
                = vs @ drop (length (asteroids w)) (asteroids (snd (0::int, w)))"
    using fold_list_update_rel [where g = "\<lambda>tw. asteroids (snd tw)" and f = asteroidStep
        and k = "length (asteroids w)" and w = "(0::int, w)"
        and R = "\<lambda>a b. b = drift (stationShield a)
                      \<or> (tier a = ORE \<and> b = (drift (stationShield a))\<lparr>hp := 0\<rparr>)"]
      asteroids_asteroidStep
    by simp
  then show ?thesis by (auto simp add: asteroidsMoved_def asteroidPhase_def)
qed

lemma asteroids_update:
  assumes "gameState w = PLAYING"
  shows "\<exists>ls ts zs. laserOutcome (cameraFollow (shipControls (shakeDecay w))) ls
           \<and> tractorOutcome ls ts
           \<and> minesRun (mines w) ts zs
           \<and> asteroidsMoved (filter (\<lambda>a. 0 < hp a) zs) (asteroids (update rnd w))"
proof -
  let ?w0 = "cameraFollow (shipControls (shakeDecay w))"
  let ?w1 = "miningLaser rnd ?w0"
  let ?w2 = "tractorBeam rnd ?w1"
  let ?w3 = "minePhase rnd ?w2"
  have u: "asteroids (update rnd w) = asteroids (snd (asteroidPhase ?w3))"
    using assms by (simp add: update_def Let_def)
  obtain zs where r: "minesRun (mines ?w2) (asteroids ?w2) zs"
    and e: "asteroids ?w3 = filter (\<lambda>a. 0 < hp a) zs"
    using minePhase_run by blast
  have m: "mines ?w2 = mines w" by simp
  have "laserOutcome ?w0 (asteroids ?w1)" by (rule miningLaser_outcome)
  moreover have "tractorOutcome (asteroids ?w1) (asteroids ?w2)" by (rule tractorBeam_outcome)
  moreover have "minesRun (mines w) (asteroids ?w2) zs" using r m by simp
  moreover have "asteroidsMoved (filter (\<lambda>a. 0 < hp a) zs) (asteroids (update rnd w))"
    unfolding u e [symmetric] by (rule asteroidPhase_outcome)
  ultimately show ?thesis by blast
qed

lemma asteroids_update_mines:
  assumes "gameState w = PLAYING"
  shows "\<exists>sp. asteroidsMoved
           (filter (\<lambda>a. 0 < hp a)
              (map (\<lambda>a. fold mineAct (mines w) a)
                   (asteroids (tractorBeam rnd (miningLaser rnd
                      (cameraFollow (shipControls (shakeDecay w)))))) @ sp))
           (asteroids (update rnd w))"
proof -
  let ?w2 = "tractorBeam rnd (miningLaser rnd (cameraFollow (shipControls (shakeDecay w))))"
  have u: "asteroids (update rnd w) = asteroids (snd (asteroidPhase (minePhase rnd ?w2)))"
    using assms by (simp add: update_def Let_def)
  have m: "mines ?w2 = mines w" by simp
  obtain sp where "asteroids (minePhase rnd ?w2)
          = filter (\<lambda>a. 0 < hp a) (map (\<lambda>a. fold mineAct (mines w) a) (asteroids ?w2) @ sp)"
    using minePhase_asteroids [of rnd ?w2] unfolding m by blast
  then have "asteroidsMoved
           (filter (\<lambda>a. 0 < hp a) (map (\<lambda>a. fold mineAct (mines w) a) (asteroids ?w2) @ sp))
           (asteroids (update rnd w))"
    unfolding u using asteroidPhase_outcome [of "minePhase rnd ?w2"] by simp
  then show ?thesis by blast
qed

lemma mouse_front:
  "mouse (cameraFollow (shipControls (shakeDecay w))) = mouse w"
proof -
  have "ctx (cameraFollow (shipControls (shakeDecay w))) = ctx w" by simp
  then show ?thesis using ctx_fields by blast
qed

lemma asteroids_quiet_beams:
  "\<not> down (mouse w) \<Longrightarrow> \<not> rightDown (mouse w) \<Longrightarrow>
     asteroids (tractorBeam rnd (miningLaser rnd w)) = asteroids w"
  by (simp add: quiet_beams)

lemma asteroids_quiet_front:
  assumes "\<not> down (mouse w)" and "\<not> rightDown (mouse w)"
  shows "asteroids (tractorBeam rnd (miningLaser rnd (cameraFollow (shipControls (shakeDecay w)))))
           = asteroids w"
  using assms by (simp add: asteroids_quiet_beams mouse_front)

lemma fragmentsOf_alive: "fragmentsOf t new \<Longrightarrow> filter (\<lambda>a. 0 < hp a) new = new"
  by (simp add: fragmentsOf_def)

lemma fragmentsOf_tiers:
  assumes "fragmentsOf t new"
  shows "map tier new = replicate (case t of TITAN \<Rightarrow> 5 | CHUNK \<Rightarrow> 10 | ORE \<Rightarrow> 0 | VOLATILE \<Rightarrow> 8)
                                  (case t of CHUNK \<Rightarrow> ORE | _ \<Rightarrow> CHUNK)"
proof -
  have "map tier new = map (\<lambda>b. case t of CHUNK \<Rightarrow> ORE | _ \<Rightarrow> CHUNK) new"
    using assms by (intro map_cong) (simp_all add: fragmentsOf_def)
  then show ?thesis using assms by (simp add: fragmentsOf_def map_replicate_const)
qed

lemma asteroidsMoved_tiers: "asteroidsMoved xs ys \<Longrightarrow> map tier ys = map tier xs"
  unfolding asteroidsMoved_def
  by (induction xs ys rule: list_all2_induct) auto

lemma mineAct_blast:
  assumes "timer m \<le> 1"
  shows "let md = m\<lparr>timer := timer m - 1, state := DETONATING\<rparr>;
             d = distance md a;
             force = MINE_BLAST_FORCE * (1 - d / MINE_BLAST_RADIUS);
             ang = atan2 (py a - py md) (px a - px md)
         in mineTick m = md
            \<and> (d < MINE_BLAST_RADIUS \<longrightarrow>
                 0 < force
                 \<and> mineAct m a = a\<lparr>vx := vx a + cos ang * force, vy := vy a + sin ang * force,
                                   hp := (case tier a of TITAN \<Rightarrow> 0 | VOLATILE \<Rightarrow> 0
                                          | CHUNK \<Rightarrow> hp a - 100 | ORE \<Rightarrow> hp a)\<rparr>)
            \<and> (\<not> d < MINE_BLAST_RADIUS \<longrightarrow> mineAct m a = a)"
proof -
  define md where "md = m\<lparr>timer := timer m - 1, state := DETONATING\<rparr>"
  have 1: "mineTick m = md"
    using assms by (simp add: mineTick_def Let_def md_def MINE_PUCKER_DURATION_def)
  have 2: "mineAct m a = blastHit md a"
    using assms by (simp add: mineAct_def 1)
  have 3: "distance md a < MINE_BLAST_RADIUS \<Longrightarrow>
             0 < MINE_BLAST_FORCE * (1 - distance md a / MINE_BLAST_RADIUS)"
    by (simp add: MINE_BLAST_FORCE_def MINE_BLAST_RADIUS_def)
  have 4: "distance md a < MINE_BLAST_RADIUS \<Longrightarrow>
             blastHit md a = a\<lparr>vx := vx a + cos (atan2 (py a - py md) (px a - px md))
                                    * (MINE_BLAST_FORCE * (1 - distance md a / MINE_BLAST_RADIUS)),
                               vy := vy a + sin (atan2 (py a - py md) (px a - px md))
                                    * (MINE_BLAST_FORCE * (1 - distance md a / MINE_BLAST_RADIUS)),
                               hp := (case tier a of TITAN \<Rightarrow> 0 | VOLATILE \<Rightarrow> 0
                                      | CHUNK \<Rightarrow> hp a - 100 | ORE \<Rightarrow> hp a)\<rparr>"
    by (cases "tier a") (simp_all add: blastHit_def Let_def)
  have 5: "\<not> distance md a < MINE_BLAST_RADIUS \<Longrightarrow> blastHit md a = a"
    by (simp add: blastHit_def Let_def)
  show ?thesis
    unfolding Let_def md_def [symmetric] 1 2
    using 3 4 5 by simp
qed

lemma mineStep_nth:
  assumes "i < length (asteroids w)"
  shows "asteroids (mineStep rnd j w) ! i = mineAct (mines w ! j) (asteroids w ! i)"
proof -
  obtain sp where "asteroids (mineStep rnd j w) = map (mineAct (mines w ! j)) (asteroids w) @ sp"
    using mineOutcome_map [OF mineStep_outcome] by blast
  then show ?thesis using assms by (simp add: nth_append)
qed

lemma update_idle_arrays:
  "gameState w \<noteq> PLAYING \<Longrightarrow> mines (update rnd w) = mines w \<and> asteroids (update rnd w) = asteroids w"
  by (simp add: update_def)


lemma breakAsteroid_count:
  "\<exists>new. asteroids (breakAsteroid rnd ast ix iy w) = asteroids w @ new
       \<and> length new = (case tier ast of TITAN \<Rightarrow> 5 | CHUNK \<Rightarrow> 10 | ORE \<Rightarrow> 0 | VOLATILE \<Rightarrow> 8)
       \<and> (\<forall>a'\<in>set new. tier a' = (case tier ast of CHUNK \<Rightarrow> ORE | _ \<Rightarrow> CHUNK))"
  using breakAsteroid_fragmentsOf [of rnd ast ix iy w] by (auto simp add: fragmentsOf_def)

lemma pickup_no_fragments:
  assumes "PlayPickup \<in> set (drop (length (effects w)) (effects (collide i w)))"
  shows "tier (asteroids (collide i w) ! i) = ORE
         \<and> breakAsteroid rnd (asteroids (collide i w) ! i) ix iy w' = w'"
proof -
  have "tier (asteroids w ! i) = ORE" using assms by (simp add: collide_pickup)
  then have t: "tier (asteroids (collide i w) ! i) = ORE" by (simp add: collide_tier)
  then show ?thesis by (simp add: breakAsteroid_ORE)
qed

lemma asteroids_update_idle: "gameState w \<noteq> PLAYING \<Longrightarrow> asteroids (update rnd w) = asteroids w"
  by (simp add: update_def)


lemma laserKill_scan:
  "laserScan (ship laserKillWorld)
     (atan2 (mouse_y (mouse laserKillWorld) - screen_height laserKillWorld / 2)
            (mouse_x (mouse laserKillWorld) - screen_width laserKillWorld / 2))
     (asteroids laserKillWorld) 0 (None, LASER_RANGE) = (Some 0, 240)"
proof -
  have r: "sqrt 57600 = 240" using sqrt_sq_pos [of 240] by simp
  show ?thesis
    by (simp add: laserKillWorld_def laserWorld_def sample_defs laser_defs r)
qed

section \<open>Mine blast\<close>

text \<open>
  Claim C3. A mine whose timer is at most 1 before the decrement reaches a countdown of
  zero or less in this tick: \<open>mineTick\<close> leaves it in state DETONATING, and \<open>mineAct\<close>
  applies its blast to an asteroid: if the distance \<open>d\<close> of the asteroid from the mine is
  below the blast radius, its velocity grows by the positive force
  \<open>MINE_BLAST_FORCE * (1 - d / MINE_BLAST_RADIUS)\<close> along the direction from the mine to
  the asteroid, and its hit points become 0 for TITAN and VOLATILE, drop by 100 for
  CHUNK and stay for ORE; otherwise the asteroid is unchanged.

  The step of mine \<open>j\<close> replaces that mine by its \<open>mineTick\<close> and every asteroid \<open>i\<close> of the
  array by its \<open>mineAct\<close>, once. The mine phase of a tick steps every mine exactly once:
  the mines after it are the \<open>mineTick\<close> of the mines before it, without those that have
  detonated, and the asteroids after it are those with hit points among the asteroids
  before it, each changed by the \<open>mineAct\<close> of every mine in turn, once each, followed by
  the fragments spawned meanwhile; more precisely (\<open>minesRun\<close>) each mine acts once on
  every asteroid that is in the array when its turn comes, fragments of earlier blasts
  included. The same holds of the whole tick (\<open>update\<close>) in PLAYING: no other step
  touches the mines, and the asteroids that leave the mine phase are only moved by the
  asteroid loop; outside PLAYING a tick changes neither mines nor asteroids. So no
  mine that is DETONATING or has a countdown of zero or less survives the tick in which
  it detonates, no asteroid without hit points survives the mine phase, and no mine
  blasts twice.
\<close>

theorem mine_blast_once:
  "(timer m \<le> 1 \<longrightarrow>
      (let md = m\<lparr>timer := timer m - 1, state := DETONATING\<rparr>;
           d = distance md a;
           force = MINE_BLAST_FORCE * (1 - d / MINE_BLAST_RADIUS);
           ang = atan2 (py a - py md) (px a - px md)
       in mineTick m = md
          \<and> (d < MINE_BLAST_RADIUS \<longrightarrow>
               0 < force
               \<and> mineAct m a = a\<lparr>vx := vx a + cos ang * force, vy := vy a + sin ang * force,
                                 hp := (case tier a of TITAN \<Rightarrow> 0 | VOLATILE \<Rightarrow> 0
                                        | CHUNK \<Rightarrow> hp a - 100 | ORE \<Rightarrow> hp a)\<rparr>)
          \<and> (\<not> d < MINE_BLAST_RADIUS \<longrightarrow> mineAct m a = a)))
   \<and> mines (mineStep rnd j w) = (mines w)[j := mineTick (mines w ! j)]
   \<and> (i < length (asteroids w) \<longrightarrow>
        asteroids (mineStep rnd j w) ! i = mineAct (mines w ! j) (asteroids w ! i))
   \<and> mines (minePhase rnd w) = filter (\<lambda>m. state m \<noteq> DETONATING) (map mineTick (mines w))
   \<and> (\<exists>sp. asteroids (minePhase rnd w)
             = filter (\<lambda>a. 0 < hp a) (map (\<lambda>a. fold mineAct (mines w) a) (asteroids w) @ sp))
   \<and> (\<exists>zs. minesRun (mines w) (asteroids w) zs
            \<and> asteroids (minePhase rnd w) = filter (\<lambda>a. 0 < hp a) zs)
   \<and> (gameState w = PLAYING \<longrightarrow>
        mines (update rnd w) = filter (\<lambda>m. state m \<noteq> DETONATING) (map mineTick (mines w))
        \<and> (\<exists>sp. asteroidsMoved
                   (filter (\<lambda>a. 0 < hp a)
                      (map (\<lambda>a. fold mineAct (mines w) a)
                           (asteroids (tractorBeam rnd (miningLaser rnd
                              (cameraFollow (shipControls (shakeDecay w)))))) @ sp))
                   (asteroids (update rnd w))))
   \<and> (gameState w \<noteq> PLAYING \<longrightarrow>
        mines (update rnd w) = mines w \<and> asteroids (update rnd w) = asteroids w)
   \<and> (\<forall>m'\<in>set (mines (minePhase rnd w)). state m' \<noteq> DETONATING \<and> 0 < timer m')
   \<and> (\<forall>b\<in>set (asteroids (minePhase rnd w)). 0 < hp b)"
proof (intro conjI impI)
  assume "timer m \<le> 1"
  then show "let md = m\<lparr>timer := timer m - 1, state := DETONATING\<rparr>;
           d = distance md a;
           force = MINE_BLAST_FORCE * (1 - d / MINE_BLAST_RADIUS);
           ang = atan2 (py a - py md) (px a - px md)
       in mineTick m = md
          \<and> (d < MINE_BLAST_RADIUS \<longrightarrow>
               0 < force
               \<and> mineAct m a = a\<lparr>vx := vx a + cos ang * force, vy := vy a + sin ang * force,
                                 hp := (case tier a of TITAN \<Rightarrow> 0 | VOLATILE \<Rightarrow> 0
                                        | CHUNK \<Rightarrow> hp a - 100 | ORE \<Rightarrow> hp a)\<rparr>)
          \<and> (\<not> d < MINE_BLAST_RADIUS \<longrightarrow> mineAct m a = a)"
    by (rule mineAct_blast)
next
  show "mines (mineStep rnd j w) = (mines w)[j := mineTick (mines w ! j)]"
    by (rule mines_mineStep)
next
  assume "i < length (asteroids w)"
  then show "asteroids (mineStep rnd j w) ! i = mineAct (mines w ! j) (asteroids w ! i)"
    by (rule mineStep_nth)
next
  show "mines (minePhase rnd w) = filter (\<lambda>m. state m \<noteq> DETONATING) (map mineTick (mines w))"
    by (rule mines_minePhase)
next
  show "\<exists>sp. asteroids (minePhase rnd w)
             = filter (\<lambda>a. 0 < hp a) (map (\<lambda>a. fold mineAct (mines w) a) (asteroids w) @ sp)"
    by (rule minePhase_asteroids)
next
  show "\<exists>zs. minesRun (mines w) (asteroids w) zs
            \<and> asteroids (minePhase rnd w) = filter (\<lambda>a. 0 < hp a) zs"
    by (rule minePhase_run)
next
  assume "gameState w = PLAYING"
  then show "mines (update rnd w) = filter (\<lambda>m. state m \<noteq> DETONATING) (map mineTick (mines w))"
    by (rule mines_update)
next
  assume "gameState w = PLAYING"
  then show "\<exists>sp. asteroidsMoved
                   (filter (\<lambda>a. 0 < hp a)
                      (map (\<lambda>a. fold mineAct (mines w) a)
                           (asteroids (tractorBeam rnd (miningLaser rnd
                              (cameraFollow (shipControls (shakeDecay w)))))) @ sp))
                   (asteroids (update rnd w))"
    by (rule asteroids_update_mines)
next
  assume "gameState w \<noteq> PLAYING"
  then show "mines (update rnd w) = mines w" by (simp add: update_idle_arrays)
next
  assume "gameState w \<noteq> PLAYING"
  then show "asteroids (update rnd w) = asteroids w" by (simp add: update_idle_arrays)
next
  show "\<forall>m'\<in>set (mines (minePhase rnd w)). state m' \<noteq> DETONATING \<and> 0 < timer m'"
    using mines_survivors by blast
next
  show "\<forall>b\<in>set (asteroids (minePhase rnd w)). 0 < hp b"
    by (simp add: minePhase_def Let_def)
qed

theorem mine_blast_once_witness:
  "timer (sampleMine 3000 0 1 PUCKER) \<le> 1
   \<and> 0 < length (asteroids twoMinesWorld)
   \<and> gameState twoMinesWorld = PLAYING
   \<and> gameState initialWorld \<noteq> PLAYING
   \<and> mineAct (sampleMine 3000 0 1 PUCKER) ((sampleAsteroid CHUNK 3000 0 0 0)\<lparr>hp := 250\<rparr>)
       = (sampleAsteroid CHUNK 3000 0 0 0)\<lparr>vx := 15, hp := 150\<rparr>
   \<and> mineAct (sampleMine 3000 0 1 PUCKER) (sampleAsteroid TITAN 5000 0 0 0)
       = sampleAsteroid TITAN 5000 0 0 0
   \<and> asteroids (mineStep halfDraws 0 twoMinesWorld) ! 0
       = (sampleAsteroid CHUNK 3000 0 0 0)\<lparr>vx := 15, hp := 150\<rparr>
   \<and> mines (mineStep halfDraws 0 twoMinesWorld)
       = [sampleMine 3000 0 0 DETONATING, sampleMine 3000 0 1 PUCKER, sampleMine 3000 0 180 ARMED]
   \<and> mines (minePhase halfDraws twoMinesWorld) = [sampleMine 3000 0 179 ARMED]
   \<and> asteroids (minePhase halfDraws twoMinesWorld)
       = [(sampleAsteroid CHUNK 3000 0 0 0)\<lparr>vx := 30, hp := 50\<rparr>]
   \<and> mines (update halfDraws twoMinesWorld) = [sampleMine 3000 0 179 ARMED]
   \<and> asteroids (update halfDraws twoMinesWorld) ! 0
       = (sampleAsteroid CHUNK 3030 0 (297 / 10) 0)\<lparr>hp := 50\<rparr>
   \<and> mines (update halfDraws initialWorld) = []"
proof -
  let ?m = "sampleMine 3000 0 1 PUCKER"
  let ?a = "(sampleAsteroid CHUNK 3000 0 0 0)\<lparr>hp := 250\<rparr>"
  note T = mine_blast_once [of ?m ?a halfDraws 0 twoMinesWorld 0]
  note I = mine_blast_once [of ?m ?a halfDraws 0 initialWorld 0]
  note c1 = T [THEN conjunct1]
  note r1 = T [THEN conjunct2]
  note c2 = r1 [THEN conjunct1]
  note r2 = r1 [THEN conjunct2]
  note c3 = r2 [THEN conjunct1]
  note r3 = r2 [THEN conjunct2]
  note c4 = r3 [THEN conjunct1]
  note r4 = r3 [THEN conjunct2]
  note c5 = r4 [THEN conjunct1]
  note r5 = r4 [THEN conjunct2]
  note c5' = r5 [THEN conjunct1]
  note r6 = r5 [THEN conjunct2]
  note c6 = r6 [THEN conjunct1]
  have h: "timer ?m \<le> 1" "0 < length (asteroids twoMinesWorld)"
      "gameState twoMinesWorld = PLAYING" "gameState initialWorld \<noteq> PLAYING"
    by (simp_all add: twoMinesWorld_def sample_defs)
  have ms: "mines twoMinesWorld = [?m, ?m, sampleMine 3000 0 180 ARMED]"
    and as: "asteroids twoMinesWorld = [?a]"
    by (simp_all add: twoMinesWorld_def)
  have q: "asteroids (tractorBeam halfDraws (miningLaser halfDraws
             (cameraFollow (shipControls (shakeDecay twoMinesWorld))))) = [?a]"
    by (subst asteroids_quiet_front) (simp_all add: twoMinesWorld_def sample_defs)
  have t1: "mineTick ?m = sampleMine 3000 0 0 DETONATING"
    by (simp add: mineTick_def sampleMine_def Let_def MINE_PUCKER_DURATION_def)
  have t3: "mineTick (sampleMine 3000 0 180 ARMED) = sampleMine 3000 0 179 ARMED"
    by (simp add: mineTick_def sampleMine_def Let_def MINE_PUCKER_DURATION_def)
  have tl: "map mineTick (mines twoMinesWorld)
              = [sampleMine 3000 0 0 DETONATING, sampleMine 3000 0 0 DETONATING,
                 sampleMine 3000 0 179 ARMED]"
    unfolding ms by (simp add: t1 t3)
  have fl: "filter (\<lambda>m. state m \<noteq> DETONATING) (map mineTick (mines twoMinesWorld))
              = [sampleMine 3000 0 179 ARMED]"
    unfolding tl by (simp add: sampleMine_def)
  have 1: "mineAct ?m ?a = (sampleAsteroid CHUNK 3000 0 0 0)\<lparr>vx := 15, hp := 150\<rparr>"
    using c1 h(1) by (simp add: Let_def sample_defs distance_def constants)
  have b2: "mineAct ?m ((sampleAsteroid CHUNK 3000 0 0 0)\<lparr>vx := 15, hp := 150\<rparr>)
              = (sampleAsteroid CHUNK 3000 0 0 0)\<lparr>vx := 30, hp := 50\<rparr>"
    using mine_blast_once [of ?m "(sampleAsteroid CHUNK 3000 0 0 0)\<lparr>vx := 15, hp := 150\<rparr>"
        halfDraws 0 twoMinesWorld 0, THEN conjunct1] h(1)
    by (simp add: Let_def sample_defs distance_def constants)
  have b3: "mineAct (sampleMine 3000 0 180 ARMED) x = x" for x
    by (simp add: mineAct_def sampleMine_def MINE_PUCKER_DURATION_def)
  have f: "fold mineAct (mines twoMinesWorld) ?a = (sampleAsteroid CHUNK 3000 0 0 0)\<lparr>vx := 30, hp := 50\<rparr>"
    unfolding ms by (simp add: 1 b2 b3)
  have hp: "0 < hp ((sampleAsteroid CHUNK 3000 0 0 0)\<lparr>vx := 30, hp := 50\<rparr>)" by simp
  have 2: "asteroids (mineStep halfDraws 0 twoMinesWorld) ! 0
             = (sampleAsteroid CHUNK 3000 0 0 0)\<lparr>vx := 15, hp := 150\<rparr>"
    using c3 h(2) by (simp add: ms as 1)
  have 3: "mines (mineStep halfDraws 0 twoMinesWorld)
       = [sampleMine 3000 0 0 DETONATING, ?m, sampleMine 3000 0 180 ARMED]"
    unfolding c2 by (simp add: ms t1)
  have 4: "mines (minePhase halfDraws twoMinesWorld) = [sampleMine 3000 0 179 ARMED]"
    unfolding c4 by (rule fl)
  have far: "mineAct ?m (sampleAsteroid TITAN 5000 0 0 0) = sampleAsteroid TITAN 5000 0 0 0"
    using mine_blast_once [of ?m "sampleAsteroid TITAN 5000 0 0 0" halfDraws 0 twoMinesWorld 0,
        THEN conjunct1] h(1)
    by (simp add: Let_def sample_defs distance_def constants less_sqrt_iff sqrt_less_iff)
  have k1: "\<not> blastKills (sampleMine 3000 0 0 DETONATING) ?a"
    using 1 h(1) by (simp add: blastKills_def mineAct_def t1 [symmetric])
  have k2: "\<not> blastKills (sampleMine 3000 0 0 DETONATING)
                ((sampleAsteroid CHUNK 3000 0 0 0)\<lparr>vx := 15, hp := 150\<rparr>)"
    using b2 h(1) by (simp add: blastKills_def mineAct_def t1 [symmetric])
  have tq: "timer ?m - 1 \<le> 0" "\<not> timer (sampleMine 3000 0 180 ARMED) - 1 \<le> 0"
      "\<not> timer (sampleMine 3000 0 180 ARMED) - 1 < MINE_PUCKER_DURATION"
    by (simp_all add: sampleMine_def MINE_PUCKER_DURATION_def)
  have o1: "mineOutcome ?m [?a] zs \<Longrightarrow> zs = [(sampleAsteroid CHUNK 3000 0 0 0)\<lparr>vx := 15, hp := 150\<rparr>]" for zs
    unfolding mineOutcome_def using tq(1) blastOutcome_quiet [of "mineTick ?m" "[?a]" zs] k1 1 h(1)
    by (simp add: t1 mineAct_def)
  have o2: "mineOutcome ?m [(sampleAsteroid CHUNK 3000 0 0 0)\<lparr>vx := 15, hp := 150\<rparr>] zs
              \<Longrightarrow> zs = [(sampleAsteroid CHUNK 3000 0 0 0)\<lparr>vx := 30, hp := 50\<rparr>]" for zs
    unfolding mineOutcome_def
    using tq(1) blastOutcome_quiet [of "mineTick ?m"
        "[(sampleAsteroid CHUNK 3000 0 0 0)\<lparr>vx := 15, hp := 150\<rparr>]" zs] k2 b2 h(1)
    by (simp add: t1 mineAct_def)
  have o3: "mineOutcome (sampleMine 3000 0 180 ARMED) xs zs \<Longrightarrow> zs = xs" for xs zs
    unfolding mineOutcome_def using tq(2,3) by (simp only: if_False)
  obtain zs where "minesRun (mines twoMinesWorld) (asteroids twoMinesWorld) zs"
    and e: "asteroids (minePhase halfDraws twoMinesWorld) = filter (\<lambda>a. 0 < hp a) zs"
    using c5' by blast
  then have "zs = [(sampleAsteroid CHUNK 3000 0 0 0)\<lparr>vx := 30, hp := 50\<rparr>]"
    unfolding ms as using o1 o2 o3 by auto
  then have 5: "asteroids (minePhase halfDraws twoMinesWorld)
       = [(sampleAsteroid CHUNK 3000 0 0 0)\<lparr>vx := 30, hp := 50\<rparr>]"
    using e by simp
  have 6: "mines (update halfDraws twoMinesWorld) = [sampleMine 3000 0 179 ARMED]"
    using c6 h(3) fl by simp
  obtain sp' where
    "asteroidsMoved
       (filter (\<lambda>a. 0 < hp a)
          (map (\<lambda>a. fold mineAct (mines twoMinesWorld) a)
               (asteroids (tractorBeam halfDraws (miningLaser halfDraws
                  (cameraFollow (shipControls (shakeDecay twoMinesWorld)))))) @ sp'))
       (asteroids (update halfDraws twoMinesWorld))"
    using c6 h(3) by blast
  then have
    "asteroidsMoved ((sampleAsteroid CHUNK 3000 0 0 0)\<lparr>vx := 30, hp := 50\<rparr> # filter (\<lambda>a. 0 < hp a) sp')
       (asteroids (update halfDraws twoMinesWorld))"
    unfolding q using hp by (simp add: f)
  then have "asteroids (update halfDraws twoMinesWorld) ! 0
       = drift (stationShield ((sampleAsteroid CHUNK 3000 0 0 0)\<lparr>vx := 30, hp := 50\<rparr>))"
    by (auto simp add: asteroidsMoved_def list_all2_Cons1 sampleAsteroid_def)
  also have "\<dots> = (sampleAsteroid CHUNK 3030 0 (297 / 10) 0)\<lparr>hp := 50\<rparr>"
    by (simp add: drift_def stationShield_def distance_def Let_def sampleAsteroid_def constants
        less_sqrt_iff sqrt_less_iff)
  finally have 7: "asteroids (update halfDraws twoMinesWorld) ! 0
       = (sampleAsteroid CHUNK 3030 0 (297 / 10) 0)\<lparr>hp := 50\<rparr>" .
  have 8: "mines (update halfDraws initialWorld) = []"
    using I h(4) by (simp add: initialWorld_def)
  show ?thesis
    using h 1 far 2 3 4 5 6 7 8 by blast
qed

section \<open>Fragmentation\<close>

text \<open>
  Claim C4. \<open>breakAsteroid\<close> appends to the asteroid array exactly 5 CHUNK asteroids for
  a TITAN, 8 CHUNK asteroids for a VOLATILE, 10 ORE asteroids for a CHUNK and nothing for
  an ORE, and leaves the asteroids already there as they are. An asteroid whose
  collision gives the pickup cue is an ORE, for which \<open>breakAsteroid\<close> changes nothing at
  all: no asteroid yields both a pickup and fragments.

  Every destruction of a tick goes through exactly one such call. The blast of a mine on
  asteroid \<open>i\<close> appends one block of fragments of its tier (\<open>fragmentsOf\<close>) if it takes the
  asteroid from positive hit points to none, and nothing otherwise. The laser
  (\<open>laserOutcome\<close>) damages at most one asteroid, a CHUNK, and appends exactly 10 ORE if
  this destroys it, nothing otherwise. The mine phase (\<open>minesRun\<close>) appends, for every mine
  that detonates, one block for each asteroid that its blast destroys. The tractor beam
  and the asteroid loop, where the pickup happens, neither add nor remove an asteroid
  (\<open>tractorOutcome\<close>, \<open>asteroidsMoved\<close>). The asteroids at the end of a tick in PLAYING are
  those that these four steps produce in this order, and a tick outside PLAYING leaves
  the array as it is.
\<close>

theorem breakAsteroid_fragments:
  "(\<exists>new. asteroids (breakAsteroid rnd ast ix iy w) = asteroids w @ new
       \<and> length new = (case tier ast of TITAN \<Rightarrow> 5 | CHUNK \<Rightarrow> 10 | ORE \<Rightarrow> 0 | VOLATILE \<Rightarrow> 8)
       \<and> (\<forall>a'\<in>set new. tier a' = (case tier ast of CHUNK \<Rightarrow> ORE | _ \<Rightarrow> CHUNK)))
   \<and> (PlayPickup \<in> set (drop (length (effects w)) (effects (collide i w)))
        \<longrightarrow> tier (asteroids (collide i w) ! i) = ORE
            \<and> breakAsteroid rnd (asteroids (collide i w) ! i) ix iy w' = w')
   \<and> (i < length (asteroids w) \<longrightarrow>
        (\<exists>new. asteroids (blastAsteroid rnd m i w)
                  = (asteroids w)[i := blastHit m (asteroids w ! i)] @ new
              \<and> (if blastKills m (asteroids w ! i)
                 then fragmentsOf (tier (asteroids w ! i)) new else new = [])))
   \<and> laserOutcome w (asteroids (miningLaser rnd w))
   \<and> tractorOutcome (asteroids w) (asteroids (tractorBeam rnd w))
   \<and> (\<exists>zs. minesRun (mines w) (asteroids w) zs
            \<and> asteroids (minePhase rnd w) = filter (\<lambda>a. 0 < hp a) zs)
   \<and> asteroidsMoved (asteroids w) (asteroids (snd (asteroidPhase w)))
   \<and> (gameState w = PLAYING \<longrightarrow>
        (\<exists>ls ts zs. laserOutcome (cameraFollow (shipControls (shakeDecay w))) ls
            \<and> tractorOutcome ls ts
            \<and> minesRun (mines w) ts zs
            \<and> asteroidsMoved (filter (\<lambda>a. 0 < hp a) zs) (asteroids (update rnd w))))
   \<and> (gameState w \<noteq> PLAYING \<longrightarrow> asteroids (update rnd w) = asteroids w)"
proof (intro conjI impI)
  show "\<exists>new. asteroids (breakAsteroid rnd ast ix iy w) = asteroids w @ new
       \<and> length new = (case tier ast of TITAN \<Rightarrow> 5 | CHUNK \<Rightarrow> 10 | ORE \<Rightarrow> 0 | VOLATILE \<Rightarrow> 8)
       \<and> (\<forall>a'\<in>set new. tier a' = (case tier ast of CHUNK \<Rightarrow> ORE | _ \<Rightarrow> CHUNK))"
    by (rule breakAsteroid_count)
next
  assume "PlayPickup \<in> set (drop (length (effects w)) (effects (collide i w)))"
  then show "tier (asteroids (collide i w) ! i) = ORE"
    using pickup_no_fragments by blast
next
  assume "PlayPickup \<in> set (drop (length (effects w)) (effects (collide i w)))"
  then show "breakAsteroid rnd (asteroids (collide i w) ! i) ix iy w' = w'"
    using pickup_no_fragments by blast
next
  assume "i < length (asteroids w)"
  then show "\<exists>new. asteroids (blastAsteroid rnd m i w)
                  = (asteroids w)[i := blastHit m (asteroids w ! i)] @ new
              \<and> (if blastKills m (asteroids w ! i)
                 then fragmentsOf (tier (asteroids w ! i)) new else new = [])"
    by (rule blastAsteroid_outcome)
next
  show "laserOutcome w (asteroids (miningLaser rnd w))" by (rule miningLaser_outcome)
next
  show "tractorOutcome (asteroids w) (asteroids (tractorBeam rnd w))"
    by (rule tractorBeam_outcome)
next
  show "\<exists>zs. minesRun (mines w) (asteroids w) zs
            \<and> asteroids (minePhase rnd w) = filter (\<lambda>a. 0 < hp a) zs"
    by (rule minePhase_run)
next
  show "asteroidsMoved (asteroids w) (asteroids (snd (asteroidPhase w)))"
    by (rule asteroidPhase_outcome)
next
  assume "gameState w = PLAYING"
  then show "\<exists>ls ts zs. laserOutcome (cameraFollow (shipControls (shakeDecay w))) ls
            \<and> tractorOutcome ls ts
            \<and> minesRun (mines w) ts zs
            \<and> asteroidsMoved (filter (\<lambda>a. 0 < hp a) zs) (asteroids (update rnd w))"
    by (rule asteroids_update)
next
  assume "gameState w \<noteq> PLAYING"
  then show "asteroids (update rnd w) = asteroids w" by (rule asteroids_update_idle)
qed

theorem breakAsteroid_fragments_witness:
  "length (asteroids (breakAsteroid halfDraws (sampleAsteroid CHUNK 0 0 0 0) 0 0
       (initialWorld\<lparr>asteroids := [sampleAsteroid ORE 0 0 0 0]\<rparr>))) = 11
   \<and> PlayPickup \<in> set (drop (length (effects (initialWorld\<lparr>asteroids := [sampleAsteroid ORE 0 0 0 0]\<rparr>)))
         (effects (collide 0 (initialWorld\<lparr>asteroids := [sampleAsteroid ORE 0 0 0 0]\<rparr>))))
   \<and> breakAsteroid halfDraws
         (asteroids (collide 0 (initialWorld\<lparr>asteroids := [sampleAsteroid ORE 0 0 0 0]\<rparr>)) ! 0)
         0 0 initialWorld = initialWorld
   \<and> 0 < length (asteroids dockClearWorld)
   \<and> blastKills (sampleMine 700 0 0 DETONATING) (asteroids dockClearWorld ! 0)
   \<and> map tier (asteroids (blastAsteroid halfDraws (sampleMine 700 0 0 DETONATING) 0 dockClearWorld))
       = TITAN # replicate 5 CHUNK
   \<and> down (mouse laserKillWorld)
   \<and> map tier (asteroids (miningLaser halfDraws laserKillWorld)) = TITAN # replicate 10 ORE
   \<and> map tier (asteroids (minePhase halfDraws dockClearWorld)) = replicate 5 CHUNK
   \<and> gameState dockClearWorld = PLAYING
   \<and> map tier (asteroids (update halfDraws dockClearWorld)) = replicate 5 CHUNK
   \<and> gameState initialWorld \<noteq> PLAYING
   \<and> asteroids (update halfDraws initialWorld) = []"
proof -
  let ?w = "initialWorld\<lparr>asteroids := [sampleAsteroid ORE 0 0 0 0]\<rparr>"
  let ?md = "sampleMine 700 0 0 DETONATING"
  let ?t = "sampleAsteroid TITAN 700 0 0 0"
  note A = breakAsteroid_fragments [of halfDraws "sampleAsteroid CHUNK 0 0 0 0" 0 0 ?w 0 initialWorld ?md]
  note D = breakAsteroid_fragments [of halfDraws ?t 0 0 dockClearWorld 0 initialWorld ?md]
  note L = breakAsteroid_fragments [of halfDraws ?t 0 0 laserKillWorld 0 initialWorld ?md]
  note I = breakAsteroid_fragments [of halfDraws ?t 0 0 initialWorld 0 initialWorld ?md]
  note d3 = D [THEN conjunct2, THEN conjunct2, THEN conjunct1]
  note l4 = L [THEN conjunct2, THEN conjunct2, THEN conjunct2, THEN conjunct1]
  note d6 = D [THEN conjunct2, THEN conjunct2, THEN conjunct2, THEN conjunct2, THEN conjunct2,
               THEN conjunct1]
  note d8 = D [THEN conjunct2, THEN conjunct2, THEN conjunct2, THEN conjunct2, THEN conjunct2,
               THEN conjunct2, THEN conjunct2, THEN conjunct1]
  note i9 = I [THEN conjunct2, THEN conjunct2, THEN conjunct2, THEN conjunct2, THEN conjunct2,
               THEN conjunct2, THEN conjunct2, THEN conjunct2]
  have p: "PlayPickup \<in> set (drop (length (effects ?w)) (effects (collide 0 ?w)))"
    by (subst collide_pickup) (simp add: sampleAsteroid_def initialWorld_def initialShip_def)
  have 1: "length (asteroids (breakAsteroid halfDraws (sampleAsteroid CHUNK 0 0 0 0) 0 0 ?w)) = 11"
    using A [THEN conjunct1] by (auto simp add: sampleAsteroid_def)
  have 2: "breakAsteroid halfDraws (asteroids (collide 0 ?w) ! 0) 0 0 initialWorld = initialWorld"
    using A [THEN conjunct2, THEN conjunct1] p by blast
  have da: "asteroids dockClearWorld = [?t]" and dm: "mines dockClearWorld = [sampleMine 700 0 1 PUCKER]"
    and dl: "0 < length (asteroids dockClearWorld)" and dp: "gameState dockClearWorld = PLAYING"
    by (simp_all add: dockClearWorld_def)
  have bh: "blastHit ?md ?t = ?t\<lparr>vx := 15, hp := 0\<rparr>"
    by (simp add: blastHit_def Let_def sample_defs distance_def constants)
  have bk: "blastKills ?md ?t"
    unfolding blastKills_def bh by (simp add: sampleAsteroid_def)
  have bk': "blastKills ?md (asteroids dockClearWorld ! 0)" using bk by (simp add: da)
  obtain new where n1: "asteroids (blastAsteroid halfDraws ?md 0 dockClearWorld)
                          = (asteroids dockClearWorld)[0 := blastHit ?md (asteroids dockClearWorld ! 0)] @ new"
    and n2: "fragmentsOf (tier (asteroids dockClearWorld ! 0)) new"
    using d3 dl bk' by auto
  have 3: "map tier (asteroids (blastAsteroid halfDraws ?md 0 dockClearWorld))
             = TITAN # replicate 5 CHUNK"
    unfolding n1 using fragmentsOf_tiers [OF n2] by (simp add: da sampleAsteroid_def)
  have ld: "down (mouse laserKillWorld)"
    by (simp add: laserKillWorld_def laserWorld_def)
  have la: "asteroids laserKillWorld
              = [(sampleAsteroid CHUNK 1240 0 0 0)\<lparr>hp := 1\<rparr>, sampleAsteroid TITAN 3000 0 0 0]"
    and lu: "laserLevel (upgrades laserKillWorld) = 1"
    by (simp_all add: laserKillWorld_def laserWorld_def sample_defs)
  obtain new' where m1: "asteroids (miningLaser halfDraws laserKillWorld)
        = filter (\<lambda>a. 0 < hp a)
            ((asteroids laserKillWorld)
               [0 := (asteroids laserKillWorld ! 0)
                  \<lparr>hp := hp (asteroids laserKillWorld ! 0)
                         - (1 + real (laserLevel (upgrades laserKillWorld)) * (5 / 10))\<rparr>] @ new')"
    and m2: "if 0 < hp (asteroids laserKillWorld ! 0)
                \<and> hp (asteroids laserKillWorld ! 0)
                     - (1 + real (laserLevel (upgrades laserKillWorld)) * (5 / 10)) \<le> 0
             then fragmentsOf CHUNK new' else new' = []"
    using l4 ld unfolding laserOutcome_def laserKill_scan by auto
  have m3: "fragmentsOf CHUNK new'"
    using m2 unfolding la lu by (simp add: sampleAsteroid_def)
  have 4: "map tier (asteroids (miningLaser halfDraws laserKillWorld)) = TITAN # replicate 10 ORE"
    unfolding m1 la lu
    using fragmentsOf_alive [OF m3] fragmentsOf_tiers [OF m3] by (simp add: sampleAsteroid_def)
  have mt: "mineTick (sampleMine 700 0 1 PUCKER) = ?md"
    by (simp add: mineTick_def sampleMine_def Let_def MINE_PUCKER_DURATION_def)
  have tq: "timer (sampleMine 700 0 1 PUCKER) - 1 \<le> 0" by (simp add: sampleMine_def)
  have run: "minesRun (mines dockClearWorld) [?t] zs \<Longrightarrow>
               map tier (filter (\<lambda>a. 0 < hp a) zs) = replicate 5 CHUNK" for zs
  proof -
    assume "minesRun (mines dockClearWorld) [?t] zs"
    then have "blastOutcome ?md [?t] zs"
      unfolding dm using tq by (simp add: mineOutcome_def mt)
    then obtain blocks where b1: "length blocks = 1"
      and b2: "zs = blastHit ?md ?t # concat blocks"
      and b3: "fragmentsOf TITAN (blocks ! 0)"
      using bk by (auto simp add: blastOutcome_def sampleAsteroid_def)
    obtain b where b4: "blocks = [b]" using b1 by (cases blocks) auto
    have b5: "fragmentsOf TITAN b" using b3 b4 by simp
    show ?thesis
      unfolding b2 b4 bh
      using fragmentsOf_alive [OF b5] fragmentsOf_tiers [OF b5] by simp
  qed
  obtain zs where z1: "minesRun (mines dockClearWorld) (asteroids dockClearWorld) zs"
    and z2: "asteroids (minePhase halfDraws dockClearWorld) = filter (\<lambda>a. 0 < hp a) zs"
    using d6 by blast
  have 5: "map tier (asteroids (minePhase halfDraws dockClearWorld)) = replicate 5 CHUNK"
    unfolding z2 using run z1 by (simp add: da)
  obtain ls ts zs' where
    u1: "laserOutcome (cameraFollow (shipControls (shakeDecay dockClearWorld))) ls"
    and u2: "tractorOutcome ls ts"
    and u3: "minesRun (mines dockClearWorld) ts zs'"
    and u4: "asteroidsMoved (filter (\<lambda>a. 0 < hp a) zs') (asteroids (update halfDraws dockClearWorld))"
    using d8 dp by blast
  have "\<not> down (mouse dockClearWorld)" by (simp add: dockClearWorld_def initialWorld_def)
  then have "ls = [?t]"
    using u1 by (simp add: laserOutcome_def mouse_front da)
  then have "ts = [?t]"
    using u2 by (auto simp add: tractorOutcome_def list_all2_Cons1 sampleAsteroid_def)
  then have "map tier (filter (\<lambda>a. 0 < hp a) zs') = replicate 5 CHUNK"
    using run u3 by simp
  then have 6: "map tier (asteroids (update halfDraws dockClearWorld)) = replicate 5 CHUNK"
    using asteroidsMoved_tiers [OF u4] by simp
  have ip: "gameState initialWorld \<noteq> PLAYING" by (simp add: initialWorld_def)
  have 7: "asteroids (update halfDraws initialWorld) = []"
    using i9 ip by (simp add: initialWorld_def)
  show ?thesis
    using 1 p 2 dl bk' 3 ld 4 5 dp 6 ip 7 by blast
qed

end
